theory Spec2Isabelle
  imports Complex_Main "HOL-Library.Word"
begin

section \<open>lib/tools.c: progress reporting\<close>

text \<open>
  \<^verbatim>\<open>tool_show_progress\<close> keeps three function-static variables between calls.
  The two \<^verbatim>\<open>gint64\<close> clock values are integers (readings of the monotonic clock in
  microseconds, far from the 64-bit limits); the byte counter \<^verbatim>\<open>last_bytes\<close> is a
  \<^verbatim>\<open>guint64\<close>.
\<close>

record progress_state =
  last_update :: int
  last_bytes :: "64 word"
  transfer_start :: int

text \<open>The initialisers of the three statics.\<close>

definition progress_init :: progress_state where
  "progress_init = \<lparr>last_update = 0, last_bytes = 0, transfer_start = - 1\<rparr>"

text \<open>
  Modelled from the spec: the declaration of \<^verbatim>\<open>struct mega_status_data\<close> (mega.h) is
  not among the sources. The spec gives the observer the two numbers \<open>bytes_done\<close> and
  \<open>bytes_total\<close> with two sentinel values of \<open>bytes_done\<close>; they are 64-bit words
  here, so that the comparisons \<^verbatim>\<open>done == -1\<close> and \<^verbatim>\<open>done == -2\<close> of the code are
  comparisons of bit patterns, whatever the signedness of the field.
\<close>

record mega_status_data =
  progress_total :: "64 word"
  progress_done :: "64 word"

definition PROGRESS_FREQUENCY :: int where
  "PROGRESS_FREQUENCY = 1000000"

text \<open>
  A \<^verbatim>\<open>gdouble\<close> is kept as the expression that computes it: an integer converted to
  \<^verbatim>\<open>gdouble\<close>, a product, a quotient. The machine rounds at each of the three; what
  the expression is worth without any rounding is \<open>exact\<close>, and that is \<open>None\<close> where
  it divides by zero (the code has an infinity or a NaN there).
\<close>

datatype gdouble = Of_Int int | Times gdouble gdouble | Over gdouble gdouble

fun exact :: "gdouble \<Rightarrow> real option" where
  "exact (Of_Int n) = Some (real_of_int n)"
| "exact (Times a b) =
     (case (exact a, exact b) of (Some x, Some y) \<Rightarrow> Some (x * y) | _ \<Rightarrow> None)"
| "exact (Over a b) =
     (case (exact a, exact b) of
        (Some x, Some y) \<Rightarrow> if y = 0 then None else Some (x / y)
      | _ \<Rightarrow> None)"

text \<open>
  What \<^verbatim>\<open>g_print\<close> receives: the final summary (file, percentage, total, rate), the
  line of a transfer that has just started (file, percentage, done, total), or a regular
  update (file, percentage, done, total, rate). The percentage is printed with
  \<^verbatim>\<open>%.2f\<close>. A rate is a \<^verbatim>\<open>gdouble\<close> handed to \<^verbatim>\<open>g_format_size_full\<close>, whose
  parameter is a \<^verbatim>\<open>guint64\<close>: the conversion drops its fraction.
\<close>

datatype progress_line =
  Summary string gdouble "64 word" gdouble
| Just_Started string gdouble "64 word" "64 word"
| Regular_Update string gdouble "64 word" "64 word" gdouble

text \<open>
  The second half of \<^verbatim>\<open>tool_show_progress\<close>, from \<^verbatim>\<open>gint64 time_span = ...\<close> on:
  it prints one line and stores the time and the byte count of this update.
  \<open>now_done\<close> is a \<^verbatim>\<open>gint64\<close>: its conversions to \<^verbatim>\<open>gdouble\<close> read it signed;
  the total, a byte count, is read unsigned. \<^verbatim>\<open>1e6\<close> and \<^verbatim>\<open>100\<close> are the integers
  they denote.
\<close>

definition show_line ::
  "string \<Rightarrow> mega_status_data \<Rightarrow> int \<Rightarrow> progress_state \<Rightarrow> 64 word \<Rightarrow>
    progress_state \<times> progress_line list" where
  "show_line file data timenow st now_done =
    (let time_span = timenow - last_update st;
         size_diff = now_done - last_bytes st
     in if progress_done data = - 2 then
          (let rate = Over (Times (Of_Int (uint (progress_total data))) (Of_Int 1000000))
                        (Of_Int (timenow - transfer_start st));
               percentage = Of_Int 100
           in (st\<lparr>transfer_start := - 1, last_update := timenow, last_bytes := now_done\<rparr>,
               [Summary file percentage (progress_total data) rate]))
        else if time_span = 0 then
          (let percentage = Of_Int 0
           in (st\<lparr>last_update := timenow, last_bytes := now_done\<rparr>,
               [Just_Started file percentage now_done (progress_total data)]))
        else
          (let rate = Over (Times (Of_Int (sint size_diff)) (Of_Int 1000000)) (Of_Int time_span);
               percentage =
                 Times (Over (Of_Int (sint now_done)) (Of_Int (uint (progress_total data))))
                   (Of_Int 100)
           in (st\<lparr>last_update := timenow, last_bytes := now_done\<rparr>,
               [Regular_Update file percentage now_done (progress_total data) rate])))"

text \<open>
  \<^verbatim>\<open>tool_show_progress(file, data)\<close>, with the value of \<^verbatim>\<open>g_get_monotonic_time()\<close>
  as the argument \<open>timenow\<close>. Every \<^verbatim>\<open>return\<close> before the printing part leaves the
  statics as they were and prints nothing.
\<close>

definition tool_show_progress ::
  "string \<Rightarrow> mega_status_data \<Rightarrow> int \<Rightarrow> progress_state \<Rightarrow>
    progress_state \<times> progress_line list" where
  "tool_show_progress file data timenow st =
    (if progress_total data = 0 then (st, [])
     else if progress_done data = - 1 then
       show_line file data timenow
         (st\<lparr>transfer_start := timenow, last_update := timenow, last_bytes := 0\<rparr>) 0
     else if transfer_start st < 0 then (st, [])
     else if progress_done data = - 2 then
       show_line file data timenow st (progress_total data)
     else if last_update st \<noteq> 0 \<and> last_update st + PROGRESS_FREQUENCY > timenow then (st, [])
     else show_line file data timenow st (progress_done data))"

text \<open>
  A sequence of observer events, each with the clock reading of its call. The lines
  printed are paired with the time of the event that printed them.
\<close>

fun run_progress ::
  "string \<Rightarrow> progress_state \<Rightarrow> (mega_status_data \<times> int) list \<Rightarrow>
    progress_state \<times> (int \<times> progress_line) list" where
  "run_progress file st [] = (st, [])"
| "run_progress file st ((data, timenow) # evs) =
    (let (st1, lines1) = tool_show_progress file data timenow st;
         (st2, lines2) = run_progress file st1 evs
     in (st2, map (Pair timenow) lines1 @ lines2))"

text \<open>A regular event carries a byte count, neither of the two sentinels.\<close>

definition regular_event :: "mega_status_data \<Rightarrow> bool" where
  "regular_event data = (progress_done data \<noteq> - 1 \<and> progress_done data \<noteq> - 2)"

section \<open>lib/tools.c: the number of transfer workers\<close>

text \<open>
  The statics of tools.c that \<^verbatim>\<open>tool_init\<close> fills from the configuration file and
  \<^verbatim>\<open>tool_start_session\<close> hands to the session, with the warnings printed on the way.
  A \<^verbatim>\<open>gint\<close> is an integer here: the code only compares and copies these values.
\<close>

record tool_state =
  upload_speed_limit :: int
  download_seed_limit :: int
  transfer_worker_count :: int
  cache_timout :: int
  warnings :: "string list"

text \<open>The initialisers: \<^verbatim>\<open>transfer_worker_count = 5\<close>, \<^verbatim>\<open>cache_timout = 10 * 60\<close>.\<close>

definition tool_state_init :: tool_state where
  "tool_state_init =
     \<lparr>upload_speed_limit = 0, download_seed_limit = 0, transfer_worker_count = 5,
      cache_timout = 10 * 60, warnings = []\<rparr>"

text \<open>
  One integer key of the key file, as \<^verbatim>\<open>g_key_file_has_key\<close> and
  \<^verbatim>\<open>g_key_file_get_integer\<close> see it: absent, present with a value that is not an
  integer (the getter then returns 0 and sets the error), or present with its value.
\<close>

datatype key_int = Key_Absent | Key_Invalid | Key_Int int

definition has_key :: "key_int \<Rightarrow> bool" where
  "has_key k = (k \<noteq> Key_Absent)"

definition get_integer :: "key_int \<Rightarrow> int" where
  "get_integer k = (case k of Key_Int v \<Rightarrow> v | _ \<Rightarrow> 0)"

definition get_integer_error :: "key_int \<Rightarrow> bool" where
  "get_integer_error k = (case k of Key_Int v \<Rightarrow> False | _ \<Rightarrow> True)"

record key_file =
  Cache_Timeout :: key_int
  Network_SpeedLimit :: key_int
  Network_UploadSpeedLimit :: key_int
  Network_DownloadSpeedLimit :: key_int
  Network_ParallelTransfers :: key_int

text \<open>
  Modelled from the spec: GLib's macro \<^verbatim>\<open>CLAMP(x, low, high)\<close> is not among the sources;
  the spec calls the worker count "clamped 1--16". It is GLib's
  \<^verbatim>\<open>(x > high) ? high : ((x < low) ? low : x)\<close>.
\<close>

definition CLAMP :: "int \<Rightarrow> int \<Rightarrow> int \<Rightarrow> int" where
  "CLAMP x low high = (if x > high then high else if x < low then low else x)"

definition warn :: "string \<Rightarrow> tool_state \<Rightarrow> tool_state" where
  "warn m ts = ts\<lparr>warnings := warnings ts @ [m]\<rparr>"

text \<open>
  The block of \<^verbatim>\<open>tool_init\<close> under \<^verbatim>\<open>if (status)\<close>, for the integer settings: cache
  timeout, the three speed limits, and the number of parallel transfers.
\<close>

definition load_cache_timeout :: "key_file \<Rightarrow> tool_state \<Rightarrow> tool_state" where
  "load_cache_timeout kf ts =
     (if get_integer_error (Cache_Timeout kf) then ts
      else ts\<lparr>cache_timout := get_integer (Cache_Timeout kf)\<rparr>)"

definition load_speed_limits :: "key_file \<Rightarrow> tool_state \<Rightarrow> tool_state" where
  "load_speed_limits kf ts0 =
     (let ts1 =
        (if has_key (Network_SpeedLimit kf) then
           (let v = get_integer (Network_SpeedLimit kf);
                ts = ts0\<lparr>upload_speed_limit := v, download_seed_limit := v\<rparr>
            in if get_integer_error (Network_SpeedLimit kf)
               then warn ''Invalid speed limit set in the config file'' ts else ts)
         else ts0);
          ts2 =
        (if has_key (Network_UploadSpeedLimit kf) then
           (let ts = ts1\<lparr>upload_speed_limit := get_integer (Network_UploadSpeedLimit kf)\<rparr>
            in if get_integer_error (Network_UploadSpeedLimit kf)
               then warn ''Invalid upload speed limit set in the config file'' ts else ts)
         else ts1)
      in if has_key (Network_DownloadSpeedLimit kf) then
           (let ts = ts2\<lparr>download_seed_limit := get_integer (Network_DownloadSpeedLimit kf)\<rparr>
            in if get_integer_error (Network_DownloadSpeedLimit kf)
               then warn ''Invalid download speed limit set in the config file'' ts else ts)
         else ts2)"

definition load_parallel_transfers :: "key_file \<Rightarrow> tool_state \<Rightarrow> tool_state" where
  "load_parallel_transfers kf ts0 =
     (if has_key (Network_ParallelTransfers kf) then
        (let ts1 = ts0\<lparr>transfer_worker_count := get_integer (Network_ParallelTransfers kf)\<rparr>;
             ts2 = (if get_integer_error (Network_ParallelTransfers kf)
                    then warn ''Invalid number of parallel transfers set in the config file'' ts1
                    else ts1)
         in if transfer_worker_count ts2 < 1 \<or> transfer_worker_count ts2 > 16 then
              warn ''Invalid number of parallel transfers set in the config file, limited to %d''
                (ts2\<lparr>transfer_worker_count := CLAMP (transfer_worker_count ts2) 1 16\<rparr>)
            else ts2)
      else ts0)"

text \<open>
  What \<^verbatim>\<open>tool_init\<close> is given: whether the options parse, the options that decide on
  the configuration file, the key file when one loads, the speed limit of the command line
  (\<open>- 1\<close> when not set), and whether the remaining checks (the protocol option, user name
  and password) let it return rather than \<^verbatim>\<open>exit(1)\<close>.
\<close>

record init_input =
  options_parse :: bool
  opt_no_config :: bool
  opt_config :: bool
  loaded_key_file :: "key_file option"
  opt_speed_limit :: int
  credentials_ok :: bool

text \<open>
  \<^verbatim>\<open>tool_init\<close>, on the statics above. \<open>None\<close> is \<^verbatim>\<open>exit(1)\<close>: the options do not
  parse, a configuration file named on the command line does not load, or the later checks
  fail. A default configuration file that does not load leaves \<^verbatim>\<open>status\<close> false and the
  statics as they are.
\<close>

definition tool_init :: "init_input \<Rightarrow> tool_state option" where
  "tool_init inp =
     (if \<not> options_parse inp then None
      else if (\<not> opt_no_config inp \<or> opt_config inp) \<and> opt_config inp
              \<and> loaded_key_file inp = None then None
      else
        (let ts1 =
           (if \<not> opt_no_config inp \<or> opt_config inp then
              (case loaded_key_file inp of
                 None \<Rightarrow> tool_state_init
               | Some kf \<Rightarrow>
                   load_parallel_transfers kf
                     (load_speed_limits kf (load_cache_timeout kf tool_state_init)))
            else tool_state_init);
             ts2 =
           (if opt_speed_limit inp \<ge> 0
            then ts1\<lparr>upload_speed_limit := opt_speed_limit inp,
                     download_seed_limit := opt_speed_limit inp\<rparr>
            else ts1)
         in if credentials_ok inp then Some ts2 else None))"

text \<open>
  The settings a new session receives at the start of \<^verbatim>\<open>tool_start_session\<close>:
  \<^verbatim>\<open>mega_session_set_speed(s, upload_speed_limit, download_seed_limit)\<close> and
  \<^verbatim>\<open>mega_session_set_workers(s, transfer_worker_count)\<close>, both before anything that can
  fail.
\<close>

record session_settings =
  max_ul :: int
  max_dl :: int
  max_workers :: int

definition tool_start_session_settings :: "tool_state \<Rightarrow> session_settings" where
  "tool_start_session_settings ts =
     \<lparr>max_ul = upload_speed_limit ts, max_dl = download_seed_limit ts,
      max_workers = transfer_worker_count ts\<rparr>"

section \<open>sync: the remote tree and the local filesystem\<close>

text \<open>
  A path is the list of its components: \<^verbatim>\<open>g_strconcat(path, "/", name, NULL)\<close> and
  \<^verbatim>\<open>g_file_get_child(file, name)\<close> append one component (a name holds no slash).
\<close>

type_synonym path = "string list"

text \<open>
  Modelled from the spec: \<^verbatim>\<open>struct mega_node\<close> and the node types (mega.h) are not
  among the sources. The spec's Node has a kind among File, Folder, NetworkRoot, TrashRoot
  and InboxRoot, a name, a size, an upload timestamp, an optional local-origin timestamp
  (\<^verbatim>\<open>local_ts\<close>, not positive when there is none) and an optional extended-attribute
  blob. Sizes and timestamps are integers: the code compares and copies them.
\<close>

datatype mega_node_type =
  MEGA_NODE_FILE | MEGA_NODE_FOLDER | MEGA_NODE_NETWORK | MEGA_NODE_TRASH | MEGA_NODE_INBOX

text \<open>
  The blob \<^verbatim>\<open>node->xattrs\<close> as the JSON functions read it: its member \<^verbatim>\<open>"xattrs"\<close> is
  missing (or no array), or it is an array whose elements are objects with an optional
  name \<^verbatim>\<open>"n"\<close> and a decoded value \<^verbatim>\<open>"v"\<close>, or something else.
\<close>

datatype xattr_elem = Xattr_Object "string option" string | Xattr_Other

datatype xattrs_json = Xattrs_No_Array | Xattrs_Array "xattr_elem list"

record mega_node =
  node_name :: string
  node_type :: mega_node_type
  node_size :: int
  node_timestamp :: int
  node_local_ts :: int
  node_xattrs :: "xattrs_json option"

text \<open>A node with its children, in the order the server reports them.\<close>

datatype rtree = RNode mega_node "rtree list"

fun rnode :: "rtree \<Rightarrow> mega_node" where
  "rnode (RNode n cs) = n"

fun rchildren :: "rtree \<Rightarrow> rtree list" where
  "rchildren (RNode n cs) = cs"

text \<open>
  The local filesystem: what \<^verbatim>\<open>g_stat\<close> reports of an entry (size and modification
  time), and the three kinds of entries the code tells apart. GLib has further file types
  (symbolic link, shortcut, mountable); the code treats every type that is neither regular
  nor directory alike, and they are \<open>Special\<close> here.
\<close>

record gstat =
  st_size :: int
  st_mtime :: int

datatype lfile =
  Regular gstat "(string \<times> string) list"
| Directory gstat "(string \<times> lfile) list"
| Special gstat

datatype GFileType =
  G_FILE_TYPE_UNKNOWN | G_FILE_TYPE_REGULAR | G_FILE_TYPE_DIRECTORY | G_FILE_TYPE_SPECIAL

fun file_type_of :: "lfile \<Rightarrow> GFileType" where
  "file_type_of (Regular st xs) = G_FILE_TYPE_REGULAR"
| "file_type_of (Directory st cs) = G_FILE_TYPE_DIRECTORY"
| "file_type_of (Special st) = G_FILE_TYPE_SPECIAL"

fun stat_of :: "lfile \<Rightarrow> gstat" where
  "stat_of (Regular st xs) = st"
| "stat_of (Directory st cs) = st"
| "stat_of (Special st) = st"

text \<open>Looking a path up from the root of the local filesystem.\<close>

fun fs_lookup :: "lfile \<Rightarrow> path \<Rightarrow> lfile option" where
  "fs_lookup e [] = Some e"
| "fs_lookup (Directory st cs) (n # p) =
     (case map_of cs n of None \<Rightarrow> None | Some c \<Rightarrow> fs_lookup c p)"
| "fs_lookup e (n # p) = None"

text \<open>
  Storing (\<open>Some\<close>) or removing (\<open>None\<close>) the entry at a path. A new entry goes to the end
  of its directory; nothing changes when the directory that should hold it does not exist.
\<close>

definition set_entry ::
  "string \<Rightarrow> lfile option \<Rightarrow> (string \<times> lfile) list \<Rightarrow> (string \<times> lfile) list" where
  "set_entry n v cs =
     (case v of
        None \<Rightarrow> filter (\<lambda>c. fst c \<noteq> n) cs
      | Some e \<Rightarrow>
          (if n \<in> fst ` set cs then map (\<lambda>c. if fst c = n then (n, e) else c) cs
           else cs @ [(n, e)]))"

fun fs_update :: "path \<Rightarrow> lfile option \<Rightarrow> lfile \<Rightarrow> lfile" where
  "fs_update [] v e = (case v of None \<Rightarrow> e | Some e' \<Rightarrow> e')"
| "fs_update [n] v (Directory st cs) = Directory st (set_entry n v cs)"
| "fs_update (n # p) v (Directory st cs) =
     Directory st (map (\<lambda>c. if fst c = n then (n, fs_update p v (snd c)) else c) cs)"
| "fs_update (n # p) v e = e"

text \<open>Looking a path up among the top-level nodes of the remote tree: the first match wins.\<close>

fun find_node :: "string \<Rightarrow> rtree list \<Rightarrow> rtree option" where
  "find_node n [] = None"
| "find_node n (t # ts) = (if node_name (rnode t) = n then Some t else find_node n ts)"

fun rt_lookup :: "rtree list \<Rightarrow> path \<Rightarrow> rtree option" where
  "rt_lookup ts [] = None"
| "rt_lookup ts [n] = find_node n ts"
| "rt_lookup ts (n # p) =
     (case find_node n ts of None \<Rightarrow> None | Some t \<Rightarrow> rt_lookup (rchildren t) p)"

text \<open>Changing the children of the first node with a name; removing the first such node.\<close>

fun change_first :: "string \<Rightarrow> (rtree \<Rightarrow> rtree) \<Rightarrow> rtree list \<Rightarrow> rtree list" where
  "change_first n f [] = []"
| "change_first n f (t # ts) =
     (if node_name (rnode t) = n then f t # ts else t # change_first n f ts)"

fun remove_first :: "string \<Rightarrow> rtree list \<Rightarrow> rtree list" where
  "remove_first n [] = []"
| "remove_first n (t # ts) =
     (if node_name (rnode t) = n then ts else t # remove_first n ts)"

fun rt_remove :: "path \<Rightarrow> rtree list \<Rightarrow> rtree list" where
  "rt_remove [] ts = ts"
| "rt_remove [n] ts = remove_first n ts"
| "rt_remove (n # p) ts =
     change_first n (\<lambda>t. RNode (rnode t) (rt_remove p (rchildren t))) ts"

fun rt_add :: "path \<Rightarrow> rtree \<Rightarrow> rtree list \<Rightarrow> rtree list" where
  "rt_add [] new ts = ts"
| "rt_add [n] new ts = ts @ [new]"
| "rt_add (n # p) new ts =
     change_first n (\<lambda>t. RNode (rnode t) (rt_add p new (rchildren t))) ts"

section \<open>sync: options, messages and the world the tool runs in\<close>

text \<open>The option variables of sync (the file-static \<^verbatim>\<open>opt_...\<close> of the newer sync.c).\<close>

record options =
  opt_remote_path :: "path option"
  opt_local_path :: "path option"
  opt_always :: bool
  opt_delete :: bool
  opt_delete_only :: bool
  opt_download :: bool
  opt_noprogress :: bool
  opt_dryrun :: bool
  opt_force :: bool
  opt_ignore_errors :: bool

text \<open>
  A message is what one of the printing functions is called with: the function (its
  level), the format string, and the path or name it mentions; the closing lines of a run
  carry their numbers.
\<close>

datatype level = ERR | WARN | INFO | DEBUG

datatype format =
  Unable_To_Stat | Ignoring_Empty_File | Target_Is_A_Directory | Target_Not_Regular
| Sizes_Differ | Timestamp_Mismatch | Local_Timestamp_Is | Remote_Timestamp_Is
| Appears_Identical | Removing | Transferring | Creating_Directory
| Cannot_Remove | Cannot_Delete | Upload_Failed | Download_Failed
| Cannot_Create_Directory | Cannot_Read_Local_Directory | Cannot_Close_Enumerator
| Synchronizing_Folder | New_File | Skipping_Special_File | Deleting
| Failed_To_Set_File_Times | Failed_To_Set_Xattrs | No_Xattrs_Found
| Target_Not_A_Directory | Must_Specify_Paths | Options_Exclude_Each_Other
| Remote_Directory_Not_Found | Remote_Path_Must_Be_Directory | Local_Directory_Not_Found
| Authentication_Required | Cannot_Login | Cannot_Read_Filesystem | Regular_File

datatype msg =
  Msg level format path
| Clear_Line
| Processed_Msg int int int
| Deleted_Msg int
| Transferred_Msg int int int
| Errors_Occurred_Msg

text \<open>
  The calls into GLib, libc and the session that can fail for reasons outside the two
  trees (permissions, the network, the server).
\<close>

datatype call =
  Stat path | Enumerate path | Close_Enumerator path | Delete path | Make_Directory path
| Utime path int | Setxattr path string
| Session_Open | Session_Load | Session_Refresh
| Session_Rm path | Session_Mkdir path | Session_Put path | Session_Get path

text \<open>
  The world of a run: the remote tree as the session holds it, the local filesystem, which
  calls fail, whether the local filesystem supports extended attributes, the wall clock,
  whether standard output is a terminal; then the statics of sync.c (the four counters,
  the byte count, \<^verbatim>\<open>cur_file\<close>), the messages printed so far, the requests made so
  far to change either tree, and the number of times the session cache was saved.
\<close>

record world =
  remote_fs :: "rtree list"
  local_fs :: lfile
  fails :: "call \<Rightarrow> bool"
  xattr_unsupported :: bool
  clock :: int
  stdout_tty :: bool
  files_processed :: int
  files_with_errors :: int
  folders_processed :: int
  elements_deleted :: int
  bytes_transferred :: int
  cur_file :: "string option"
  printed :: "msg list"
  requests :: "(call \<times> bool) list"
  cache_saves :: nat

text \<open>
  Modelled from the spec: \<^verbatim>\<open>tool_print_err\<close>, \<^verbatim>\<open>tool_print_warn\<close>,
  \<^verbatim>\<open>tool_print_info\<close> and \<^verbatim>\<open>tool_print_debug\<close> (tools.h) are not among the sources,
  and the spec leaves all messages to this layer. Which levels reach the terminal is
  decided inside these functions and is not modelled: \<open>printed\<close> holds every message
  handed to them, and to \<^verbatim>\<open>g_print\<close> and \<^verbatim>\<open>g_printerr\<close>, in the order of the
  calls.
\<close>

definition tool_print :: "level \<Rightarrow> format \<Rightarrow> path \<Rightarrow> world \<Rightarrow> world" where
  "tool_print l t p w = w\<lparr>printed := printed w @ [Msg l t p]\<rparr>"

text \<open>\<^verbatim>\<open>if (!opt_noprogress && tool_is_stdout_tty()) g_print("\r" ESC_CLREOL);\<close>\<close>

definition clear_line :: "options \<Rightarrow> world \<Rightarrow> world" where
  "clear_line opts w =
     (if \<not> opt_noprogress opts \<and> stdout_tty w then w\<lparr>printed := printed w @ [Clear_Line]\<rparr>
      else w)"

definition count_error :: "world \<Rightarrow> world" where
  "count_error w = w\<lparr>files_with_errors := files_with_errors w + 1\<rparr>"

definition basename :: "path \<Rightarrow> string" where
  "basename p = (if p = [] then ''/'' else last p)"

subsection \<open>GLib and libc on the local filesystem\<close>

definition g_stat :: "world \<Rightarrow> path \<Rightarrow> gstat option" where
  "g_stat w p =
     (if fails w (Stat p) then None else map_option stat_of (fs_lookup (local_fs w) p))"

definition g_file_query_exists :: "world \<Rightarrow> path \<Rightarrow> bool" where
  "g_file_query_exists w p = (fs_lookup (local_fs w) p \<noteq> None)"

definition g_file_query_file_type :: "world \<Rightarrow> path \<Rightarrow> GFileType" where
  "g_file_query_file_type w p =
     (case fs_lookup (local_fs w) p of None \<Rightarrow> G_FILE_TYPE_UNKNOWN | Some e \<Rightarrow> file_type_of e)"

text \<open>
  Every call that asks for a change of the local filesystem or of the remote tree is
  written to \<open>requests\<close> with its outcome, whether it succeeds or not.
\<close>

definition request :: "call \<Rightarrow> bool \<Rightarrow> world \<Rightarrow> world" where
  "request c ok w = w\<lparr>requests := requests w @ [(c, ok)]\<rparr>"

text \<open>\<^verbatim>\<open>g_file_delete\<close> removes a file or an empty directory.\<close>

definition g_file_delete :: "world \<Rightarrow> path \<Rightarrow> bool \<times> world" where
  "g_file_delete w p =
     (let ok = (\<not> fails w (Delete p) \<and>
                (case fs_lookup (local_fs w) p of
                   None \<Rightarrow> False
                 | Some (Directory st (c # cs)) \<Rightarrow> False
                 | Some e \<Rightarrow> True))
      in (ok, request (Delete p) ok
                (if ok then w\<lparr>local_fs := fs_update p None (local_fs w)\<rparr> else w)))"

definition parent_is_directory :: "world \<Rightarrow> path \<Rightarrow> bool" where
  "parent_is_directory w p =
     (p \<noteq> [] \<and>
      (case fs_lookup (local_fs w) (butlast p) of
         Some (Directory st cs) \<Rightarrow> True | _ \<Rightarrow> False))"

definition g_file_make_directory :: "world \<Rightarrow> path \<Rightarrow> bool \<times> world" where
  "g_file_make_directory w p =
     (let ok = (\<not> fails w (Make_Directory p) \<and> \<not> g_file_query_exists w p
                \<and> parent_is_directory w p)
      in (ok, request (Make_Directory p) ok
                (if ok then
                   w\<lparr>local_fs :=
                       fs_update p (Some (Directory \<lparr>st_size = 0, st_mtime = clock w\<rparr> []))
                         (local_fs w)\<rparr>
                 else w)))"

fun set_mtime :: "int \<Rightarrow> lfile \<Rightarrow> lfile" where
  "set_mtime t (Regular st xs) = Regular (st\<lparr>st_mtime := t\<rparr>) xs"
| "set_mtime t (Directory st cs) = Directory (st\<lparr>st_mtime := t\<rparr>) cs"
| "set_mtime t (Special st) = Special (st\<lparr>st_mtime := t\<rparr>)"

text \<open>
  \<^verbatim>\<open>utime(path, &timbuf)\<close> with \<^verbatim>\<open>actime = modtime = t\<close>; true when it succeeds (the C
  function returns 0 then).
\<close>

definition utime :: "world \<Rightarrow> path \<Rightarrow> int \<Rightarrow> bool \<times> world" where
  "utime w p t =
     (case (if fails w (Utime p t) then None else fs_lookup (local_fs w) p) of
        None \<Rightarrow> (False, request (Utime p t) False w)
      | Some e \<Rightarrow>
          (True, request (Utime p t) True
                   (w\<lparr>local_fs := fs_update p (Some (set_mtime t e)) (local_fs w)\<rparr>)))"

datatype xattr_result = Xattr_Set | Xattr_ENOTSUP | Xattr_Error

definition setxattr :: "world \<Rightarrow> path \<Rightarrow> string \<Rightarrow> string \<Rightarrow> xattr_result \<times> world" where
  "setxattr w p n v =
     (if xattr_unsupported w then (Xattr_ENOTSUP, request (Setxattr p n) False w)
      else if fails w (Setxattr p n) then (Xattr_Error, request (Setxattr p n) False w)
      else case fs_lookup (local_fs w) p of
             Some (Regular st xs) \<Rightarrow>
               (Xattr_Set,
                request (Setxattr p n) True
                  (w\<lparr>local_fs :=
                      fs_update p (Some (Regular st (filter (\<lambda>x. fst x \<noteq> n) xs @ [(n, v)])))
                        (local_fs w)\<rparr>))
           | _ \<Rightarrow> (Xattr_Error, request (Setxattr p n) False w))"

subsection \<open>The session\<close>

text \<open>
  Modelled from the spec: the session functions (mega.c) are not among the sources. By
  the spec, \<open>stat\<close> resolves a path from a root, the first match winning among siblings of
  one name; \<open>ls\<close> lists the children; \<open>mkdir\<close>, \<open>rm\<close> and the transfers change the tree
  only after the server request succeeded; a path that is not found and a name collision
  are errors. A request fails besides when the world says so.
\<close>

definition mega_session_stat :: "world \<Rightarrow> path \<Rightarrow> mega_node option" where
  "mega_session_stat w p = map_option rnode (rt_lookup (remote_fs w) p)"

definition mega_session_ls :: "world \<Rightarrow> path \<Rightarrow> mega_node list" where
  "mega_session_ls w p =
     (case rt_lookup (remote_fs w) p of None \<Rightarrow> [] | Some t \<Rightarrow> map rnode (rchildren t))"

definition mega_node_is_container :: "mega_node \<Rightarrow> bool" where
  "mega_node_is_container n = (node_type n \<noteq> MEGA_NODE_FILE)"

definition mega_session_rm :: "world \<Rightarrow> path \<Rightarrow> bool \<times> world" where
  "mega_session_rm w p =
     (let ok = (\<not> fails w (Session_Rm p) \<and> rt_lookup (remote_fs w) p \<noteq> None)
      in (ok, request (Session_Rm p) ok
                (if ok then w\<lparr>remote_fs := rt_remove p (remote_fs w)\<rparr> else w)))"

definition parent_is_container :: "world \<Rightarrow> path \<Rightarrow> bool" where
  "parent_is_container w p =
     (p \<noteq> [] \<and>
      (case mega_session_stat w (butlast p) of
         Some n \<Rightarrow> mega_node_is_container n | None \<Rightarrow> False))"

definition mega_session_mkdir :: "world \<Rightarrow> path \<Rightarrow> bool \<times> world" where
  "mega_session_mkdir w p =
     (let ok = (\<not> fails w (Session_Mkdir p) \<and> mega_session_stat w p = None
                \<and> parent_is_container w p)
      in (ok, request (Session_Mkdir p) ok
                (if ok then
                   w\<lparr>remote_fs :=
                       rt_add p
                         (RNode \<lparr>node_name = last p, node_type = MEGA_NODE_FOLDER,
                                 node_size = 0, node_timestamp = clock w, node_local_ts = 0,
                                 node_xattrs = None\<rparr> [])
                         (remote_fs w)\<rparr>
                 else w)))"

text \<open>
  \<^verbatim>\<open>mega_session_put_compat(s, remote_path, local_path, &err)\<close>: the new node has the
  size of the local file, the time of the upload, and the local modification time as its
  local-origin timestamp.
\<close>

definition mega_session_put_compat :: "world \<Rightarrow> path \<Rightarrow> path \<Rightarrow> bool \<times> world" where
  "mega_session_put_compat w remote_path local_path =
     (case (if fails w (Session_Put remote_path) \<or> mega_session_stat w remote_path \<noteq> None
               \<or> \<not> parent_is_container w remote_path
            then None else fs_lookup (local_fs w) local_path) of
        Some (Regular st xs) \<Rightarrow>
          (True, request (Session_Put remote_path) True
                   (w\<lparr>remote_fs :=
                       rt_add remote_path
                         (RNode \<lparr>node_name = last remote_path, node_type = MEGA_NODE_FILE,
                                 node_size = st_size st, node_timestamp = clock w,
                                 node_local_ts = st_mtime st, node_xattrs = None\<rparr> [])
                         (remote_fs w)\<rparr>))
      | _ \<Rightarrow> (False, request (Session_Put remote_path) False w))"

text \<open>
  \<^verbatim>\<open>mega_session_get_compat(s, local_path, remote_path, &err)\<close>: the file written has
  the size of the node and the time of the download.
\<close>

definition mega_session_get_compat :: "world \<Rightarrow> path \<Rightarrow> path \<Rightarrow> bool \<times> world" where
  "mega_session_get_compat w local_path remote_path =
     (case (if fails w (Session_Get remote_path) \<or> \<not> parent_is_directory w local_path
            then None else mega_session_stat w remote_path) of
        None \<Rightarrow> (False, request (Session_Get remote_path) False w)
      | Some n \<Rightarrow>
          (if node_type n \<noteq> MEGA_NODE_FILE then (False, request (Session_Get remote_path) False w)
           else (True, request (Session_Get remote_path) True
                   (w\<lparr>local_fs :=
                       fs_update local_path
                         (Some (Regular \<lparr>st_size = node_size n, st_mtime = clock w\<rparr> []))
                         (local_fs w)\<rparr>))))"

text \<open>
  Modelled from the spec: \<^verbatim>\<open>mega_session_save\<close>, \<^verbatim>\<open>mega_session_open\<close> and
  \<^verbatim>\<open>mega_session_refresh\<close> (mega.c) are not among the sources. By the spec, \<open>save\<close>
  writes the tree and the account identity to a local cache file; \<open>open\<close> authenticates,
  loads a cache that is fresh enough, and returns whether a new session was established;
  \<open>refresh\<close> rebuilds the tree from the server. The cache file is a local file that is
  no part of \<open>local_fs\<close>, the files a sync is about: the world counts its writes. A
  session is new when no cache could be loaded (\<open>Session_Load\<close> fails). The tree of the
  world is the tree of the server already, so a refresh leaves it as it is.
\<close>

definition mega_session_save :: "world \<Rightarrow> world" where
  "mega_session_save w = w\<lparr>cache_saves := Suc (cache_saves w)\<rparr>"

definition mega_session_open :: "world \<Rightarrow> bool \<times> bool" where
  "mega_session_open w = (\<not> fails w Session_Open, fails w Session_Load)"

definition mega_session_refresh :: "world \<Rightarrow> bool" where
  "mega_session_refresh w = (\<not> fails w Session_Refresh)"

section \<open>sync: uploading (the newer sync.c)\<close>

text \<open>
  \<^verbatim>\<open>glong timestamp = node->local_ts > 0 ? node->local_ts : node->timestamp;\<close>, the
  first statement of both file functions about a node.
\<close>

definition node_timestamp_or_local :: "mega_node \<Rightarrow> int" where
  "node_timestamp_or_local node =
     (if node_local_ts node > 0 then node_local_ts node else node_timestamp node)"

text \<open>
  The end of \<^verbatim>\<open>up_sync_file\<close>, from \<^verbatim>\<open>tool_print_info("F %s\n", local_path)\<close> on:
  the upload itself, unless this is a dry run.
\<close>

definition up_sync_file_put :: "options \<Rightarrow> world \<Rightarrow> path \<Rightarrow> path \<Rightarrow> gstat \<Rightarrow> bool \<times> world" where
  "up_sync_file_put opts w0 file remote_path st =
     (let w = tool_print INFO Transferring file w0 in
      if \<not> opt_dryrun opts then
        (case mega_session_put_compat (w\<lparr>cur_file := Some (basename file)\<rparr>) remote_path file of
           (ok, w1) \<Rightarrow>
             if \<not> ok then
               (False, count_error (tool_print ERR Upload_Failed file (clear_line opts w1)))
             else
               (True, clear_line opts (w1\<lparr>bytes_transferred := bytes_transferred w1 + st_size st\<rparr>)))
      else (True, w))"

text \<open>
  The three tests that both file functions make on \<^verbatim>\<open>do_upload\<close> (or
  \<^verbatim>\<open>do_download\<close>), in the order of the code: the option to always overwrite, the
  sizes, the timestamps, with the debug lines of the test that decides. \<open>shown\<close> is the
  path the lines mention.
\<close>

definition decide_transfer ::
  "options \<Rightarrow> mega_node \<Rightarrow> gstat \<Rightarrow> path \<Rightarrow> world \<Rightarrow> bool \<times> world" where
  "decide_transfer opts node st shown w =
     (if opt_always opts then (True, w)
      else if node_size node \<noteq> st_size st then (True, tool_print DEBUG Sizes_Differ shown w)
      else if st_mtime st \<noteq> node_timestamp_or_local node then
        (True,
         tool_print DEBUG Remote_Timestamp_Is shown
           (tool_print DEBUG Local_Timestamp_Is shown
             (tool_print DEBUG Timestamp_Mismatch shown w)))
      else (False, w))"

text \<open>
  The block of \<^verbatim>\<open>up_sync_file\<close> under \<^verbatim>\<open>if (node)\<close>, with the upload that follows
  it: a remote node exists at the path.
\<close>

definition up_sync_file_node ::
  "options \<Rightarrow> world \<Rightarrow> path \<Rightarrow> path \<Rightarrow> gstat \<Rightarrow> mega_node \<Rightarrow> bool \<times> world" where
  "up_sync_file_node opts w file remote_path st node =
     (if \<not> opt_force opts \<and> node_type node = MEGA_NODE_FOLDER then
        (False, count_error (tool_print ERR Target_Is_A_Directory remote_path w))
      else
        (case decide_transfer opts node st file w of
           (do_upload, w2) \<Rightarrow>
             if \<not> do_upload then (True, tool_print DEBUG Appears_Identical file w2)
             else if \<not> opt_dryrun opts then
               (case mega_session_rm (tool_print INFO Removing remote_path w2) remote_path of
                  (ok, w4) \<Rightarrow>
                    if \<not> ok then
                      (False, count_error (tool_print ERR Cannot_Remove remote_path w4))
                    else up_sync_file_put opts w4 file remote_path st)
             else up_sync_file_put opts (tool_print INFO Removing remote_path w2)
                    file remote_path st))"

text \<open>
  \<^verbatim>\<open>up_sync_file(root, file, remote_path)\<close>; \<^verbatim>\<open>FALSE\<close> signals an error to the
  caller.
\<close>

definition up_sync_file :: "options \<Rightarrow> world \<Rightarrow> path \<Rightarrow> path \<Rightarrow> path \<Rightarrow> bool \<times> world" where
  "up_sync_file opts w0 root_file file remote_path =
     (let w = w0\<lparr>files_processed := files_processed w0 + 1\<rparr> in
      case g_stat w file of
        None \<Rightarrow> (False, count_error (tool_print ERR Unable_To_Stat file w))
      | Some st \<Rightarrow>
          if st_size st \<le> 0 then (True, tool_print DEBUG Ignoring_Empty_File file w)
          else
            (case mega_session_stat w remote_path of
               None \<Rightarrow> up_sync_file_put opts w file remote_path st
             | Some node \<Rightarrow> up_sync_file_node opts w file remote_path st node))"

text \<open>
  The hash table of \<^verbatim>\<open>up_sync_dir\<close> and \<^verbatim>\<open>dl_sync_dir\<close>, as an association list.
  \<^verbatim>\<open>g_hash_table_insert\<close> replaces the value of a key that is there;
  \<^verbatim>\<open>g_hash_table_remove\<close> tells whether the key was there. GLib leaves the order of
  \<^verbatim>\<open>g_hash_table_get_keys\<close> open; here it is the order of insertion.
\<close>

definition hash_insert :: "string \<Rightarrow> 'v \<Rightarrow> (string \<times> 'v) list \<Rightarrow> (string \<times> 'v) list" where
  "hash_insert k v ht =
     (if k \<in> fst ` set ht then map (\<lambda>e. if fst e = k then (fst e, v) else e) ht
      else ht @ [(k, v)])"

definition hash_remove :: "string \<Rightarrow> (string \<times> 'v) list \<Rightarrow> bool \<times> (string \<times> 'v) list" where
  "hash_remove k ht = (k \<in> fst ` set ht, filter (\<lambda>e. fst e \<noteq> k) ht)"

text \<open>
  The first step of both loops over children, when missing entries are to be deleted: the
  name is taken from the table, with a debug line when it was not there.
\<close>

definition hash_forget ::
  "bool \<Rightarrow> string \<Rightarrow> (string \<times> 'v) list \<Rightarrow> world \<Rightarrow> world \<times> (string \<times> 'v) list" where
  "hash_forget active name ht w =
     (if active then
        (case hash_remove name ht of
           (found, ht') \<Rightarrow> (if \<not> found then tool_print DEBUG New_File [name] w else w, ht'))
      else (w, ht))"

text \<open>
  The start of \<^verbatim>\<open>up_sync_dir\<close>, up to the hash table of the remote children: the
  counter, the remote node that has to be a directory, and the table. The node looked up
  first is the one both tests see: after a file was removed, no directory is created.
\<close>

definition up_sync_dir_enter ::
  "options \<Rightarrow> world \<Rightarrow> path \<Rightarrow> path \<Rightarrow> path \<Rightarrow> bool \<times> world \<times> (string \<times> mega_node) list" where
  "up_sync_dir_enter opts w0 root_file file remote_path =
     (let w = tool_print DEBUG Synchronizing_Folder file
                (w0\<lparr>folders_processed := folders_processed w0 + 1\<rparr>);
          table = (\<lambda>w'. if opt_delete opts
                         then foldl (\<lambda>ht n. hash_insert (node_name n) n ht) []
                                (mega_session_ls w' remote_path)
                         else [])
      in if \<not> opt_delete_only opts \<and> root_file \<noteq> file then
           (case mega_session_stat w remote_path of
              Some node \<Rightarrow>
                if node_type node = MEGA_NODE_FILE then
                  (let w1 = tool_print INFO Removing remote_path w in
                   if \<not> opt_dryrun opts then
                     (case mega_session_rm w1 remote_path of
                        (ok, w2) \<Rightarrow>
                          if \<not> ok then (False, tool_print ERR Cannot_Remove remote_path w2, [])
                          else (True, w2, table w2))
                   else (True, w1, table w1))
                else (True, w, table w)
            | None \<Rightarrow>
                (let w1 = tool_print INFO Creating_Directory file w in
                 if \<not> opt_dryrun opts then
                   (case mega_session_mkdir w1 remote_path of
                      (ok, w2) \<Rightarrow>
                        if \<not> ok then
                          (False, tool_print ERR Cannot_Create_Directory remote_path w2, [])
                        else (True, w2, table w2))
                 else (True, w1, table w1)))
         else (True, w, table w))"

text \<open>
  The last loop of \<^verbatim>\<open>up_sync_dir\<close>: the remote nodes left in the table are removed.
  \<^verbatim>\<open>mega_node_get_path_dup(n)\<close> is the path of the listed directory with the name of
  the node. Every key of the table has its node, so the branch "no node found" is dead.
  \<open>up_delete_leftover\<close> is the body of the loop: the new value of \<^verbatim>\<open>status\<close> and
  the world.
\<close>

definition up_delete_leftover :: "options \<Rightarrow> world \<Rightarrow> path \<Rightarrow> mega_node \<Rightarrow> bool \<times> world" where
  "up_delete_leftover opts w remote_path n =
     (let node_path = remote_path @ [node_name n];
          w1 = tool_print INFO Removing node_path w
      in if \<not> opt_dryrun opts then
           (case mega_session_rm w1 node_path of
              (ok, w2) \<Rightarrow>
                if \<not> ok then (opt_ignore_errors opts, tool_print ERR Cannot_Remove node_path w2)
                else (True, w2\<lparr>elements_deleted := elements_deleted w2 + 1\<rparr>))
         else (True, w1))"

fun up_delete_leftovers ::
  "options \<Rightarrow> world \<Rightarrow> path \<Rightarrow> (string \<times> mega_node) list \<Rightarrow> bool \<times> world" where
  "up_delete_leftovers opts w remote_path [] = (True, w)"
| "up_delete_leftovers opts w remote_path ((k, n) # to_delete) =
     (case up_delete_leftover opts w remote_path n of
        (status, w1) \<Rightarrow>
          if \<not> status then (False, w1)
          else up_delete_leftovers opts w1 remote_path to_delete)"

text \<open>
  \<^verbatim>\<open>up_sync_dir(root, file, remote_path)\<close> and its loop over the children of the local
  directory. \<open>ent\<close> is the local entry at \<open>file\<close>: an upload never changes the local
  filesystem, so the enumeration reads the entry as it was at the start. A call that fails
  sets \<^verbatim>\<open>status\<close> to \<^verbatim>\<open>opt_ignore_errors\<close>, and the loop leaves (\<^verbatim>\<open>break\<close>) as soon
  as \<^verbatim>\<open>status\<close> is false.
\<close>

function (sequential)
  up_sync_dir :: "options \<Rightarrow> world \<Rightarrow> path \<Rightarrow> path \<Rightarrow> lfile \<Rightarrow> path \<Rightarrow> bool \<times> world"
  and up_sync_children ::
    "options \<Rightarrow> world \<Rightarrow> path \<Rightarrow> path \<Rightarrow> (string \<times> lfile) list \<Rightarrow> path \<Rightarrow>
      (string \<times> mega_node) list \<Rightarrow> bool \<times> world \<times> (string \<times> mega_node) list"
where
  "up_sync_dir opts w0 root_file file (Directory st cs) remote_path =
     (case up_sync_dir_enter opts w0 root_file file remote_path of
        (ok, w, ht) \<Rightarrow>
          if \<not> ok then (False, w)
          else if fails w (Enumerate file) then
            (False, tool_print ERR Cannot_Read_Local_Directory file w)
          else
            (case up_sync_children opts w root_file file cs remote_path ht of
               (status, w1, ht1) \<Rightarrow>
                 if opt_delete opts \<and> status then up_delete_leftovers opts w1 remote_path ht1
                 else (status, w1)))"
| "up_sync_dir opts w0 root_file file ent remote_path =
     (case up_sync_dir_enter opts w0 root_file file remote_path of
        (ok, w, ht) \<Rightarrow>
          if \<not> ok then (False, w)
          else (False, tool_print ERR Cannot_Read_Local_Directory file w))"
| "up_sync_children opts w root_file file [] remote_path ht = (True, w, ht)"
| "up_sync_children opts w root_file file ((name, child) # cs) remote_path ht =
     (case hash_forget (opt_delete opts) name ht w of
        (w1, ht1) \<Rightarrow>
          (case (if file_type_of child = G_FILE_TYPE_DIRECTORY then
                   up_sync_dir opts w1 root_file (file @ [name]) child (remote_path @ [name])
                 else if file_type_of child = G_FILE_TYPE_REGULAR then
                   (if \<not> opt_delete_only opts
                    then up_sync_file opts w1 root_file (file @ [name]) (remote_path @ [name])
                    else (True, w1))
                 else (True, tool_print WARN Skipping_Special_File (file @ [name]) w1)) of
             (ok, w2) \<Rightarrow>
               if \<not> (if \<not> ok then opt_ignore_errors opts else True) then (False, w2, ht1)
               else up_sync_children opts w2 root_file file cs remote_path ht1))"
  by pat_completeness auto
termination
  by (relation "measure (\<lambda>x. case x of
        Inl (opts, w, root_file, file, ent, remote_path) \<Rightarrow> size ent
      | Inr (opts, w, root_file, file, cs, remote_path, ht) \<Rightarrow>
          size_list (size_prod (\<lambda>n. 0) size) cs)") auto


section \<open>sync: downloading (the newer sync.c)\<close>

text \<open>
  \<^verbatim>\<open>delete_recursively(file, error)\<close>: the children first, then the directory. The
  enumerator yields the entries the directory had when it was opened, which is the entry
  \<open>ent\<close> found at \<open>file\<close>; enumerating anything but a directory fails.
\<close>

function (sequential)
  delete_recursively_entry :: "world \<Rightarrow> path \<Rightarrow> lfile \<Rightarrow> bool \<times> world"
  and delete_recursively_loop :: "world \<Rightarrow> path \<Rightarrow> (string \<times> lfile) list \<Rightarrow> bool \<times> world"
where
  "delete_recursively_entry w file (Directory st cs) =
     (if fails w (Enumerate file) then (False, w)
      else
        (case delete_recursively_loop w file cs of
           (ok, w1) \<Rightarrow>
             if \<not> ok then (False, w1)
             else g_file_delete (tool_print DEBUG Deleting file w1) file))"
| "delete_recursively_entry w file ent = (False, w)"
| "delete_recursively_loop w file [] = (True, w)"
| "delete_recursively_loop w file ((file_name, c) # cs) =
     (let child = file @ [file_name];
          r = (if file_type_of c = G_FILE_TYPE_DIRECTORY then delete_recursively_entry w child c
               else g_file_delete (tool_print DEBUG Deleting child w) child)
      in if \<not> fst r then (False, snd r) else delete_recursively_loop (snd r) file cs)"
  by pat_completeness auto
termination
  by (relation "measure (\<lambda>x. case x of
        Inl (w, file, ent) \<Rightarrow> size ent
      | Inr (w, file, cs) \<Rightarrow> size_list (size_prod (\<lambda>n. 0) size) cs)") auto

definition delete_recursively :: "world \<Rightarrow> path \<Rightarrow> bool \<times> world" where
  "delete_recursively w file =
     (case fs_lookup (local_fs w) file of
        None \<Rightarrow> (False, w)
      | Some ent \<Rightarrow> delete_recursively_entry w file ent)"

text \<open>
  The loop of \<^verbatim>\<open>dl_sync_file\<close> over the elements of the array \<^verbatim>\<open>"xattrs"\<close>: an
  element that is no object, or has no name or an empty one, is passed over; a failure of
  \<^verbatim>\<open>setxattr\<close> other than \<^verbatim>\<open>ENOTSUP\<close> ends the function with \<^verbatim>\<open>FALSE\<close>.
\<close>

fun set_xattrs :: "world \<Rightarrow> path \<Rightarrow> xattr_elem list \<Rightarrow> bool \<times> world" where
  "set_xattrs w file [] = (True, w)"
| "set_xattrs w file (Xattr_Other # f_elems) = set_xattrs w file f_elems"
| "set_xattrs w file (Xattr_Object None v # f_elems) = set_xattrs w file f_elems"
| "set_xattrs w file (Xattr_Object (Some xattr_name) v # f_elems) =
     (if xattr_name = [] then set_xattrs w file f_elems
      else
        (case setxattr w file xattr_name v of
           (Xattr_Error, w1) \<Rightarrow> (False, tool_print ERR Failed_To_Set_Xattrs file w1)
         | (r, w1) \<Rightarrow> set_xattrs w1 file f_elems))"

text \<open>
  What \<^verbatim>\<open>dl_sync_file\<close> does to a file it has downloaded: the byte count, the file
  times when the timestamp is positive, the extended attributes when the node has any.
\<close>

definition dl_sync_file_times :: "world \<Rightarrow> path \<Rightarrow> int \<Rightarrow> world" where
  "dl_sync_file_times w file timestamp =
     (if timestamp > 0 then
        (case utime w file timestamp of
           (times_set, w') \<Rightarrow>
             if \<not> times_set then tool_print WARN Failed_To_Set_File_Times file w' else w')
      else w)"

definition dl_sync_file_xattrs :: "options \<Rightarrow> world \<Rightarrow> mega_node \<Rightarrow> path \<Rightarrow> bool \<times> world" where
  "dl_sync_file_xattrs opts w node file =
     (case node_xattrs node of
        None \<Rightarrow> (True, clear_line opts w)
      | Some Xattrs_No_Array \<Rightarrow> (True, clear_line opts (tool_print INFO No_Xattrs_Found file w))
      | Some (Xattrs_Array f_elems) \<Rightarrow>
          (case set_xattrs w file f_elems of
             (done_all, w') \<Rightarrow> if \<not> done_all then (False, w') else (True, clear_line opts w')))"

text \<open>
  The end of \<^verbatim>\<open>dl_sync_file\<close>, from \<^verbatim>\<open>tool_print_info("F %s\n", remote_path)\<close> on:
  the download, unless this is a dry run, and what follows it.
\<close>

definition dl_sync_file_get ::
  "options \<Rightarrow> world \<Rightarrow> mega_node \<Rightarrow> path \<Rightarrow> path \<Rightarrow> int \<Rightarrow> bool \<times> world" where
  "dl_sync_file_get opts w0 node file remote_path timestamp =
     (let w = tool_print INFO Transferring remote_path w0 in
      if \<not> opt_dryrun opts then
        (case mega_session_get_compat (w\<lparr>cur_file := Some (basename file)\<rparr>) file remote_path of
           (ok, w1) \<Rightarrow>
             if \<not> ok then
               (False, count_error (tool_print ERR Download_Failed remote_path (clear_line opts w1)))
             else
               dl_sync_file_xattrs opts
                 (dl_sync_file_times
                    (w1\<lparr>bytes_transferred := bytes_transferred w1 + node_size node\<rparr>)
                    file timestamp)
                 node file)
      else (True, w))"

text \<open>
  The block of \<^verbatim>\<open>dl_sync_file\<close> under \<^verbatim>\<open>if (g_file_query_exists(file, NULL))\<close>,
  with the download that follows it: something exists at the local path.
\<close>

definition dl_sync_file_existing ::
  "options \<Rightarrow> world \<Rightarrow> mega_node \<Rightarrow> path \<Rightarrow> path \<Rightarrow> int \<Rightarrow> bool \<times> world" where
  "dl_sync_file_existing opts w node file remote_path timestamp =
     (let file_type = g_file_query_file_type w file in
      if \<not> opt_force opts \<and> file_type = G_FILE_TYPE_DIRECTORY then
        (False, count_error (tool_print ERR Target_Is_A_Directory file w))
      else if file_type \<noteq> G_FILE_TYPE_DIRECTORY \<and> file_type \<noteq> G_FILE_TYPE_REGULAR then
        (False, count_error (tool_print ERR Target_Not_Regular file w))
      else
        (case g_stat w file of
           None \<Rightarrow> (False, count_error (tool_print ERR Unable_To_Stat file w))
         | Some st \<Rightarrow>
             (case decide_transfer opts node st remote_path w of
                (do_download, w2) \<Rightarrow>
                  if \<not> do_download then (True, tool_print DEBUG Appears_Identical remote_path w2)
                  else if \<not> opt_dryrun opts then
                    (if file_type = G_FILE_TYPE_DIRECTORY then
                       (case delete_recursively (tool_print INFO Removing file w2) file of
                          (ok, w4) \<Rightarrow>
                            if \<not> ok then
                              (False, count_error (tool_print ERR Cannot_Remove file w4))
                            else dl_sync_file_get opts w4 node file remote_path timestamp)
                     else
                       (case g_file_delete (tool_print INFO Removing file w2) file of
                          (ok, w4) \<Rightarrow>
                            if \<not> ok then
                              (False, count_error (tool_print ERR Cannot_Delete file w4))
                            else dl_sync_file_get opts w4 node file remote_path timestamp))
                  else dl_sync_file_get opts (tool_print INFO Removing file w2) node file
                         remote_path timestamp)))"

text \<open>\<^verbatim>\<open>dl_sync_file(node, file, remote_path)\<close>.\<close>

definition dl_sync_file :: "options \<Rightarrow> world \<Rightarrow> mega_node \<Rightarrow> path \<Rightarrow> path \<Rightarrow> bool \<times> world" where
  "dl_sync_file opts w0 node file remote_path =
     (let w = w0\<lparr>files_processed := files_processed w0 + 1\<rparr>;
          timestamp = node_timestamp_or_local node
      in if g_file_query_exists w file
         then dl_sync_file_existing opts w node file remote_path timestamp
         else dl_sync_file_get opts w node file remote_path timestamp)"

text \<open>
  The start of \<^verbatim>\<open>dl_sync_dir\<close>, up to the hash table of the local children: the
  counter, the local entry that has to be a directory, and, when missing files are to be
  deleted and the directory exists, the table of its entries with their file types.
\<close>

definition local_children :: "world \<Rightarrow> path \<Rightarrow> (string \<times> GFileType) list option" where
  "local_children w file =
     (if fails w (Enumerate file) then None
      else case fs_lookup (local_fs w) file of
             Some (Directory st cs) \<Rightarrow> Some (map (\<lambda>c. (fst c, file_type_of (snd c))) cs)
           | _ \<Rightarrow> None)"

definition dl_sync_dir_table ::
  "options \<Rightarrow> world \<Rightarrow> path \<Rightarrow> bool \<times> world \<times> bool \<times> (string \<times> GFileType) list" where
  "dl_sync_dir_table opts w file =
     (let check_delete = (opt_delete opts \<and> g_file_query_exists w file) in
      if check_delete then
        (case local_children w file of
           None \<Rightarrow> (False, tool_print ERR Cannot_Read_Local_Directory file w, check_delete, [])
         | Some infos \<Rightarrow>
             if fails w (Close_Enumerator file) then
               (False, tool_print ERR Cannot_Close_Enumerator file w, check_delete, [])
             else
               (True, w, check_delete,
                foldl (\<lambda>ht fi. hash_insert (fst fi) (snd fi) ht) [] infos))
      else (True, w, check_delete, []))"

definition dl_sync_dir_create ::
  "options \<Rightarrow> world \<Rightarrow> path \<Rightarrow> path \<Rightarrow> bool \<times> world \<times> bool \<times> (string \<times> GFileType) list" where
  "dl_sync_dir_create opts w file remote_path =
     (if \<not> opt_delete_only opts \<and> \<not> g_file_query_exists w file then
        (let w1 = tool_print INFO Creating_Directory remote_path w in
         if \<not> opt_dryrun opts then
           (case g_file_make_directory w1 file of
              (ok, w2) \<Rightarrow>
                if \<not> ok then (False, tool_print ERR Cannot_Create_Directory file w2, False, [])
                else dl_sync_dir_table opts w2 file)
         else dl_sync_dir_table opts w1 file)
      else dl_sync_dir_table opts w file)"

definition dl_sync_dir_enter ::
  "options \<Rightarrow> world \<Rightarrow> path \<Rightarrow> path \<Rightarrow> bool \<times> world \<times> bool \<times> (string \<times> GFileType) list" where
  "dl_sync_dir_enter opts w0 file remote_path =
     (let w = tool_print DEBUG Synchronizing_Folder remote_path
                (w0\<lparr>folders_processed := folders_processed w0 + 1\<rparr>);
          file_type = g_file_query_file_type w file
      in if \<not> opt_delete_only opts \<and> file_type \<noteq> G_FILE_TYPE_UNKNOWN then
           (if file_type = G_FILE_TYPE_REGULAR then
              (let w1 = tool_print INFO Removing file w in
               if \<not> opt_dryrun opts then
                 (case g_file_delete w1 file of
                    (ok, w2) \<Rightarrow>
                      if \<not> ok then (False, tool_print ERR Cannot_Delete file w2, False, [])
                      else dl_sync_dir_create opts w2 file remote_path)
               else dl_sync_dir_create opts w1 file remote_path)
            else if file_type \<noteq> G_FILE_TYPE_DIRECTORY then
              (False, tool_print ERR Target_Not_A_Directory file w, False, [])
            else dl_sync_dir_create opts w file remote_path)
         else dl_sync_dir_create opts w file remote_path)"

text \<open>
  The last loop of \<^verbatim>\<open>dl_sync_dir\<close>: the local entries left in the table are deleted.
  \<open>dl_delete_leftover\<close> is the body of the loop.
\<close>

definition dl_delete_leftover ::
  "options \<Rightarrow> world \<Rightarrow> path \<Rightarrow> string \<Rightarrow> GFileType \<Rightarrow> bool \<times> world" where
  "dl_delete_leftover opts w file k file_type =
     (let local_file = file @ [k];
          w1 = tool_print INFO Removing local_file w
      in if \<not> opt_dryrun opts then
           (if file_type = G_FILE_TYPE_DIRECTORY then
              (case delete_recursively w1 local_file of
                 (ok, w2) \<Rightarrow>
                   if \<not> ok then
                     (opt_ignore_errors opts, tool_print ERR Cannot_Delete local_file w2)
                   else (True, w2\<lparr>elements_deleted := elements_deleted w2 + 1\<rparr>))
            else if file_type = G_FILE_TYPE_REGULAR then
              (case g_file_delete w1 local_file of
                 (ok, w2) \<Rightarrow>
                   if \<not> ok then
                     (opt_ignore_errors opts, tool_print ERR Cannot_Delete local_file w2)
                   else (True, w2\<lparr>elements_deleted := elements_deleted w2 + 1\<rparr>))
            else (True, tool_print WARN Skipping_Special_File local_file w1))
         else (True, w1))"

fun dl_delete_leftovers ::
  "options \<Rightarrow> world \<Rightarrow> path \<Rightarrow> (string \<times> GFileType) list \<Rightarrow> bool \<times> world" where
  "dl_delete_leftovers opts w file [] = (True, w)"
| "dl_delete_leftovers opts w file ((k, file_type) # to_delete) =
     (case dl_delete_leftover opts w file k file_type of
        (status, w1) \<Rightarrow>
          if \<not> status then (False, w1)
          else dl_delete_leftovers opts w1 file to_delete)"

text \<open>
  \<^verbatim>\<open>dl_sync_dir(node, file, remote_path)\<close> and its loop over the children of the
  remote node. A download never changes the remote tree, so the node carries its children
  (\<^verbatim>\<open>mega_session_get_node_chilren\<close>).
\<close>

function (sequential)
  dl_sync_dir :: "options \<Rightarrow> world \<Rightarrow> rtree \<Rightarrow> path \<Rightarrow> path \<Rightarrow> bool \<times> world"
  and dl_sync_children ::
    "options \<Rightarrow> world \<Rightarrow> rtree list \<Rightarrow> path \<Rightarrow> path \<Rightarrow> bool \<Rightarrow>
      (string \<times> GFileType) list \<Rightarrow> bool \<times> world \<times> (string \<times> GFileType) list"
where
  "dl_sync_dir opts w0 (RNode node children) file remote_path =
     (case dl_sync_dir_enter opts w0 file remote_path of
        (ok, w, check_delete, ht) \<Rightarrow>
          if \<not> ok then (False, w)
          else
            (case dl_sync_children opts w children file remote_path check_delete ht of
               (status, w1, ht1) \<Rightarrow>
                 if check_delete \<and> status then dl_delete_leftovers opts w1 file ht1
                 else (status, w1)))"
| "dl_sync_children opts w [] file remote_path check_delete ht = (True, w, ht)"
| "dl_sync_children opts w (child # children) file remote_path check_delete ht =
     (case hash_forget check_delete (node_name (rnode child)) ht w of
        (w1, ht1) \<Rightarrow>
          (case (if node_type (rnode child) = MEGA_NODE_FILE then
                   (if \<not> opt_delete_only opts
                    then dl_sync_file opts w1 (rnode child) (file @ [node_name (rnode child)])
                           (remote_path @ [node_name (rnode child)])
                    else (True, w1))
                 else dl_sync_dir opts w1 child (file @ [node_name (rnode child)])
                        (remote_path @ [node_name (rnode child)])) of
             (ok, w2) \<Rightarrow>
               if \<not> (if \<not> ok then opt_ignore_errors opts else True) then (False, w2, ht1)
               else dl_sync_children opts w2 children file remote_path check_delete ht1))"
  by pat_completeness auto
termination
  by (relation "measure (\<lambda>x. case x of
        Inl (opts, w, t, file, remote_path) \<Rightarrow> size t
      | Inr (opts, w, ts, file, remote_path, check_delete, ht) \<Rightarrow> size_list size ts)") auto

text \<open>One turn of the loop of \<^verbatim>\<open>dl_sync_dir\<close>, for the remote node \<open>child\<close>.\<close>

definition dl_sync_entry ::
  "options \<Rightarrow> world \<Rightarrow> rtree \<Rightarrow> path \<Rightarrow> path \<Rightarrow> bool \<Rightarrow> (string \<times> GFileType) list \<Rightarrow>
    bool \<times> world \<times> (string \<times> GFileType) list" where
  "dl_sync_entry opts w child file remote_path check_delete ht =
     (case hash_forget check_delete (node_name (rnode child)) ht w of
        (w1, ht1) \<Rightarrow>
          (case (if node_type (rnode child) = MEGA_NODE_FILE then
                   (if \<not> opt_delete_only opts
                    then dl_sync_file opts w1 (rnode child) (file @ [node_name (rnode child)])
                           (remote_path @ [node_name (rnode child)])
                    else (True, w1))
                 else dl_sync_dir opts w1 child (file @ [node_name (rnode child)])
                        (remote_path @ [node_name (rnode child)])) of
             (ok, w2) \<Rightarrow> (ok, w2, ht1)))"

section \<open>sync: the closing lines of a run (the newer sync.c)\<close>

text \<open>
  Modelled from the spec: \<^verbatim>\<open>tool_print_info\<close> (tools.h, not among the sources) called
  with one of the closing lines of a run.
\<close>

definition say :: "msg \<Rightarrow> world \<Rightarrow> world" where
  "say m w = w\<lparr>printed := printed w @ [m]\<rparr>"

text \<open>
  A quotient of two integers computed in \<^verbatim>\<open>double\<close> and converted to an integer type:
  the quotient truncated (the \<^verbatim>\<open>double\<close> quotient has the same integer part as long as
  the dividend is below \<^verbatim>\<open>2^53\<close>, which a clock difference and a byte count are).
  The conversion to \<^verbatim>\<open>int\<close> of a value outside its 32 bits is undefined in C; the
  conversion instruction of x86-64 gives \<^verbatim>\<open>INT_MIN\<close> there, and so does \<open>double_to_int\<close>.
\<close>

definition trunc_div :: "int \<Rightarrow> int \<Rightarrow> int" where
  "trunc_div a b = sgn a * sgn b * (\<bar>a\<bar> div \<bar>b\<bar>)"

definition double_to_int :: "int \<Rightarrow> int" where
  "double_to_int q = (if - 2147483648 \<le> q \<and> q \<le> 2147483647 then q else - 2147483648)"

text \<open>
  The closing lines of \<^verbatim>\<open>sync_main\<close>, between the two sync functions and the label
  \<^verbatim>\<open>out\<close>; \<open>p_start\<close> and \<open>p_end\<close> are the two readings of the monotonic clock.
  \<^verbatim>\<open>duration_s\<close> is a \<^verbatim>\<open>long int\<close>, \<^verbatim>\<open>avg_bytes_per_s\<close> an \<^verbatim>\<open>int\<close>.
\<close>

definition print_totals :: "int \<Rightarrow> int \<Rightarrow> world \<Rightarrow> world" where
  "print_totals p_start p_end w =
     (let d = trunc_div (p_end - p_start) 1000000;
          duration_s = (if d < 1 then 1 else d);
          avg_bytes_per_s = double_to_int (trunc_div (bytes_transferred w) duration_s);
          w1 = say (Processed_Msg (files_processed w) (folders_processed w) (files_with_errors w)) w;
          w2 = (if elements_deleted w > 0 then say (Deleted_Msg (elements_deleted w)) w1 else w1);
          w3 = say (Transferred_Msg (bytes_transferred w) duration_s avg_bytes_per_s) w2
      in if files_with_errors w > 0 then say Errors_Occurred_Msg w3 else w3)"

section \<open>lib/tools.c: the start of a session\<close>

text \<open>
  The statics of tools.c that \<^verbatim>\<open>tool_start_session\<close> reads besides the settings, and
  the three flags of its argument.
\<close>

record session_options =
  opt_username :: "string option"
  opt_password :: "string option"
  opt_reload_files :: bool

record session_flags =
  TOOL_SESSION_OPEN :: bool
  TOOL_SESSION_AUTH_ONLY :: bool
  TOOL_SESSION_AUTH_OPTIONAL :: bool

text \<open>
  \<^verbatim>\<open>tool_start_session(flags)\<close> after the settings: whether it returns a session, and
  the world. A new session is saved to the cache at once, and once more after the tree
  was read from the server.
\<close>

definition tool_start_session :: "session_flags \<Rightarrow> session_options \<Rightarrow> world \<Rightarrow> bool \<times> world" where
  "tool_start_session flags so w =
     (if \<not> TOOL_SESSION_OPEN flags then (True, w)
      else if opt_password so = None \<or> opt_username so = None then
        (if TOOL_SESSION_AUTH_OPTIONAL flags then (True, w)
         else (False, tool_print ERR Authentication_Required [] w))
      else
        (case mega_session_open w of
           (opened, is_new_session) \<Rightarrow>
             if \<not> opened then (False, tool_print ERR Cannot_Login [] w)
             else
               (let w1 = (if is_new_session then mega_session_save w else w) in
                if \<not> TOOL_SESSION_AUTH_ONLY flags \<and> (opt_reload_files so \<or> is_new_session)
                then
                  (if \<not> mega_session_refresh w1
                   then (False, tool_print ERR Cannot_Read_Filesystem [] w1)
                   else (True, mega_session_save w1))
                else (True, w1))))"

section \<open>sync: the main program (the newer sync.c)\<close>

text \<open>
  \<^verbatim>\<open>sync_main\<close> after \<^verbatim>\<open>tool_init\<close> has returned: the exit status and the world.
  The session is started with the flag \<^verbatim>\<open>TOOL_SESSION_OPEN\<close> alone.
\<close>

definition sync_main :: "session_options \<Rightarrow> options \<Rightarrow> world \<Rightarrow> int \<Rightarrow> int \<Rightarrow> int \<times> world" where
  "sync_main so opts0 w0 p_start p_end =
     (case (opt_local_path opts0, opt_remote_path opts0) of
        (Some local_path, Some remote_path) \<Rightarrow>
          if opt_delete_only opts0 \<and> opt_always opts0 then
            (1, tool_print ERR Options_Exclude_Each_Other [] w0)
          else
            (case tool_start_session
                    \<lparr>TOOL_SESSION_OPEN = True, TOOL_SESSION_AUTH_ONLY = False,
                     TOOL_SESSION_AUTH_OPTIONAL = False\<rparr> so w0 of
               (started, w) \<Rightarrow>
                 if \<not> started then (1, w)
                 else
                   (case rt_lookup (remote_fs w) remote_path of
                      None \<Rightarrow> (1, tool_print ERR Remote_Directory_Not_Found remote_path w)
                    | Some remote_dir \<Rightarrow>
                        if \<not> mega_node_is_container (rnode remote_dir) then
                          (1, tool_print ERR Remote_Path_Must_Be_Directory remote_path w)
                        else
                          (let opts = (if opt_delete_only opts0 then opts0\<lparr>opt_delete := True\<rparr>
                                       else opts0)
                           in if opt_download opts then
                                (case dl_sync_dir opts w remote_dir local_path remote_path of
                                   (ok, w1) \<Rightarrow>
                                     (if ok then 0 else 1, print_totals p_start p_end w1))
                              else
                                (case fs_lookup (local_fs w) local_path of
                                   Some (Directory st cs) \<Rightarrow>
                                     (case up_sync_dir opts w local_path local_path
                                             (Directory st cs) remote_path of
                                        (ok, w1) \<Rightarrow>
                                          (if ok then 0 else 1,
                                           print_totals p_start p_end (mega_session_save w1)))
                                 | _ \<Rightarrow>
                                     (1, tool_print ERR Local_Directory_Not_Found local_path
                                           w)))))
      | _ \<Rightarrow> (1, tool_print ERR Must_Specify_Paths [] w0))"

section \<open>tools/sync.c: the older copy of the two file functions\<close>

text \<open>
  The repository holds an older sync.c as well. It has no option to always overwrite, no
  counters, and prints with \<^verbatim>\<open>g_print\<close> and \<^verbatim>\<open>g_printerr\<close>: its progress lines
  unless \<^verbatim>\<open>opt_quiet\<close>, its debug lines when \<^verbatim>\<open>mega_debug & MEGA_DEBUG_APP\<close>. The two
  flags are the arguments \<open>quiet\<close> and \<open>debug\<close>; the other options are read from the
  same record.
\<close>

definition print_if :: "bool \<Rightarrow> level \<Rightarrow> format \<Rightarrow> path \<Rightarrow> world \<Rightarrow> world" where
  "print_if b l t p w = (if b then tool_print l t p w else w)"

text \<open>The two tests of the older copy on \<^verbatim>\<open>doUpload\<close> and \<^verbatim>\<open>doDownload\<close>.\<close>

definition older_decide_transfer ::
  "bool \<Rightarrow> mega_node \<Rightarrow> gstat \<Rightarrow> path \<Rightarrow> world \<Rightarrow> bool \<times> world" where
  "older_decide_transfer debug node st shown w =
     (if node_size node \<noteq> st_size st then (True, print_if debug DEBUG Sizes_Differ shown w)
      else if st_mtime st \<noteq> node_timestamp_or_local node then
        (True,
         print_if debug DEBUG Remote_Timestamp_Is shown
           (print_if debug DEBUG Local_Timestamp_Is shown
             (print_if debug DEBUG Timestamp_Mismatch shown w)))
      else (False, w))"

definition older_up_sync_file_put ::
  "bool \<Rightarrow> options \<Rightarrow> world \<Rightarrow> path \<Rightarrow> path \<Rightarrow> bool \<times> world" where
  "older_up_sync_file_put quiet opts w0 file remote_path =
     (let w = print_if (\<not> quiet) INFO Transferring remote_path w0 in
      if \<not> opt_dryrun opts then
        (case mega_session_put_compat (w\<lparr>cur_file := Some (basename file)\<rparr>) remote_path file of
           (ok, w1) \<Rightarrow>
             if \<not> ok then (False, tool_print ERR Upload_Failed remote_path (clear_line opts w1))
             else (True, clear_line opts w1))
      else (True, w))"

definition older_up_sync_file_node ::
  "bool \<Rightarrow> bool \<Rightarrow> options \<Rightarrow> world \<Rightarrow> path \<Rightarrow> path \<Rightarrow> gstat \<Rightarrow> mega_node \<Rightarrow> bool \<times> world"
  where
  "older_up_sync_file_node quiet debug opts w file remote_path fileStat node =
     (if \<not> opt_force opts \<and> node_type node = MEGA_NODE_FOLDER then
        (False, tool_print ERR Target_Is_A_Directory remote_path w)
      else
        (case older_decide_transfer debug node fileStat remote_path w of
           (doUpload, w2) \<Rightarrow>
             if \<not> doUpload then (False, print_if debug DEBUG Appears_Identical remote_path w2)
             else if \<not> opt_dryrun opts then
               (case mega_session_rm (print_if (\<not> quiet) INFO Removing remote_path w2)
                       remote_path of
                  (ok, w4) \<Rightarrow>
                    if \<not> ok then (False, tool_print ERR Cannot_Remove remote_path w4)
                    else older_up_sync_file_put quiet opts w4 file remote_path)
             else older_up_sync_file_put quiet opts
                    (print_if (\<not> quiet) INFO Removing remote_path w2) file remote_path))"

definition older_up_sync_file ::
  "bool \<Rightarrow> bool \<Rightarrow> options \<Rightarrow> world \<Rightarrow> path \<Rightarrow> path \<Rightarrow> path \<Rightarrow> bool \<times> world" where
  "older_up_sync_file quiet debug opts w root_file file remote_path =
     (case g_stat w file of
        None \<Rightarrow> (False, tool_print ERR Unable_To_Stat file w)
      | Some fileStat \<Rightarrow>
          if st_size fileStat \<le> 0 then (False, print_if debug DEBUG Ignoring_Empty_File file w)
          else
            (case mega_session_stat w remote_path of
               None \<Rightarrow> older_up_sync_file_put quiet opts w file remote_path
             | Some node \<Rightarrow>
                 older_up_sync_file_node quiet debug opts w file remote_path fileStat node))"

text \<open>
  The older \<^verbatim>\<open>delete_recursively\<close> walks the directory as the newer one does (it prints
  its debug lines only when debugging), so the newer one stands for it here.
\<close>

definition older_dl_sync_file_get ::
  "bool \<Rightarrow> options \<Rightarrow> world \<Rightarrow> path \<Rightarrow> path \<Rightarrow> int \<Rightarrow> bool \<times> world" where
  "older_dl_sync_file_get quiet opts w0 file remote_path timestamp =
     (let w = print_if (\<not> quiet) INFO Transferring file w0 in
      if \<not> opt_dryrun opts then
        (case mega_session_get_compat (w\<lparr>cur_file := Some (basename file)\<rparr>) file remote_path of
           (ok, w1) \<Rightarrow>
             if \<not> ok then (False, tool_print ERR Download_Failed remote_path (clear_line opts w1))
             else
               (True,
                clear_line opts
                  (if timestamp > 0 then
                     (case utime w1 file timestamp of
                        (times_set, w') \<Rightarrow>
                          if \<not> times_set then tool_print ERR Failed_To_Set_File_Times file w'
                          else w')
                   else w1)))
      else (True, w))"

definition older_dl_sync_file_existing ::
  "bool \<Rightarrow> bool \<Rightarrow> options \<Rightarrow> world \<Rightarrow> mega_node \<Rightarrow> path \<Rightarrow> path \<Rightarrow> int \<Rightarrow> bool \<times> world"
  where
  "older_dl_sync_file_existing quiet debug opts w node file remote_path timestamp =
     (let file_type = g_file_query_file_type w file in
      if \<not> opt_force opts \<and> file_type = G_FILE_TYPE_DIRECTORY then
        (False, tool_print ERR Target_Is_A_Directory remote_path w)
      else if file_type \<noteq> G_FILE_TYPE_DIRECTORY \<and> file_type \<noteq> G_FILE_TYPE_REGULAR then
        (False, tool_print ERR Target_Not_Regular remote_path w)
      else
        (case g_stat w file of
           None \<Rightarrow> (False, tool_print ERR Unable_To_Stat file w)
         | Some fileStat \<Rightarrow>
             (case older_decide_transfer debug node fileStat remote_path w of
                (doDownload, w2) \<Rightarrow>
                  if \<not> doDownload then
                    (False, print_if debug DEBUG Appears_Identical remote_path w2)
                  else if \<not> opt_dryrun opts then
                    (if file_type = G_FILE_TYPE_DIRECTORY then
                       (case delete_recursively (print_if (\<not> quiet) INFO Removing file w2)
                               file of
                          (ok, w4) \<Rightarrow>
                            if \<not> ok then (False, tool_print ERR Cannot_Remove file w4)
                            else older_dl_sync_file_get quiet opts w4 file remote_path timestamp)
                     else
                       (case g_file_delete (print_if (\<not> quiet) INFO Removing file w2) file of
                          (ok, w4) \<Rightarrow>
                            if \<not> ok then (False, tool_print ERR Cannot_Delete file w4)
                            else older_dl_sync_file_get quiet opts w4 file remote_path timestamp))
                  else older_dl_sync_file_get quiet opts
                         (print_if (\<not> quiet) INFO Removing file w2) file remote_path
                         timestamp)))"

definition older_dl_sync_file ::
  "bool \<Rightarrow> bool \<Rightarrow> options \<Rightarrow> world \<Rightarrow> mega_node \<Rightarrow> path \<Rightarrow> path \<Rightarrow> bool \<times> world" where
  "older_dl_sync_file quiet debug opts w node file remote_path =
     (if g_file_query_exists w file
      then older_dl_sync_file_existing quiet debug opts w node file remote_path
             (node_timestamp_or_local node)
      else older_dl_sync_file_get quiet opts w file remote_path (node_timestamp_or_local node))"

section \<open>tools/sync.c: the older copy of the directory functions and of the main program\<close>

text \<open>
  \<^verbatim>\<open>g_file_get_relative_path(root, file)\<close>, for a \<open>file\<close> below \<open>root\<close>.
\<close>

definition relative_path :: "path \<Rightarrow> path \<Rightarrow> path" where
  "relative_path root_file file = drop (length root_file) file"

text \<open>The older loops print the line for a name that is not in the table only when debugging.\<close>

definition older_hash_forget ::
  "bool \<Rightarrow> bool \<Rightarrow> string \<Rightarrow> (string \<times> 'v) list \<Rightarrow> world \<Rightarrow> world \<times> (string \<times> 'v) list" where
  "older_hash_forget debug active name ht w =
     (if active then
        (case hash_remove name ht of
           (found, ht') \<Rightarrow> (if \<not> found then print_if debug DEBUG New_File [name] w else w, ht'))
      else (w, ht))"

text \<open>
  The start of the older \<^verbatim>\<open>up_sync_dir\<close>, up to the hash table of the remote children.
\<close>

definition older_up_sync_dir_enter ::
  "bool \<Rightarrow> options \<Rightarrow> world \<Rightarrow> path \<Rightarrow> path \<Rightarrow> path \<Rightarrow>
    bool \<times> world \<times> (string \<times> mega_node) list" where
  "older_up_sync_dir_enter quiet opts w root_file file remote_path =
     (let table = (\<lambda>w'. if opt_delete opts
                         then foldl (\<lambda>ht n. hash_insert (node_name n) n ht) []
                                (mega_session_ls w' remote_path)
                         else [])
      in if root_file \<noteq> file then
           (case mega_session_stat w remote_path of
              Some node \<Rightarrow>
                if node_type node = MEGA_NODE_FILE then
                  (let w1 = print_if (\<not> quiet) INFO Removing remote_path w in
                   if \<not> opt_dryrun opts then
                     (case mega_session_rm w1 remote_path of
                        (ok, w2) \<Rightarrow>
                          if \<not> ok then (False, tool_print ERR Cannot_Remove remote_path w2, [])
                          else (True, w2, table w2))
                   else (True, w1, table w1))
                else (True, w, table w)
            | None \<Rightarrow>
                (let w1 = print_if (\<not> quiet) INFO Creating_Directory remote_path w in
                 if \<not> opt_dryrun opts then
                   (case mega_session_mkdir w1 remote_path of
                      (ok, w2) \<Rightarrow>
                        if \<not> ok then
                          (False, tool_print ERR Cannot_Create_Directory remote_path w2, [])
                        else (True, w2, table w2))
                 else (True, w1, table w1)))
         else (True, w, table w))"

text \<open>
  The last loop of the older \<^verbatim>\<open>up_sync_dir\<close>: a removal that fails sets \<^verbatim>\<open>status\<close> to
  false and the loop goes on.
\<close>

fun older_up_delete_leftovers ::
  "bool \<Rightarrow> options \<Rightarrow> world \<Rightarrow> path \<Rightarrow> (string \<times> mega_node) list \<Rightarrow> bool \<times> world" where
  "older_up_delete_leftovers quiet opts w remote_path [] = (True, w)"
| "older_up_delete_leftovers quiet opts w remote_path ((k, n) # to_delete) =
     (let node_path = remote_path @ [node_name n];
          w1 = print_if (\<not> quiet) INFO Removing node_path w;
          r = (if \<not> opt_dryrun opts then
                 (case mega_session_rm w1 node_path of
                    (ok, w2) \<Rightarrow>
                      if \<not> ok then (False, tool_print ERR Cannot_Remove node_path w2)
                      else (True, w2))
               else (True, w1))
      in case older_up_delete_leftovers quiet opts (snd r) remote_path to_delete of
           (status, w3) \<Rightarrow> (fst r \<and> status, w3))"

text \<open>
  The older \<^verbatim>\<open>up_sync_dir\<close> and its loop over the children of the local directory: a
  call that returns false sets \<^verbatim>\<open>status\<close> to false, and the loop always runs to its
  end.
\<close>

function (sequential)
  older_up_sync_dir ::
    "bool \<Rightarrow> bool \<Rightarrow> options \<Rightarrow> world \<Rightarrow> path \<Rightarrow> path \<Rightarrow> lfile \<Rightarrow> path \<Rightarrow> bool \<times> world"
  and older_up_sync_children ::
    "bool \<Rightarrow> bool \<Rightarrow> options \<Rightarrow> world \<Rightarrow> path \<Rightarrow> path \<Rightarrow> (string \<times> lfile) list \<Rightarrow> path \<Rightarrow>
      (string \<times> mega_node) list \<Rightarrow> bool \<times> world \<times> (string \<times> mega_node) list"
where
  "older_up_sync_dir quiet debug opts w0 root_file file (Directory st cs) remote_path =
     (case older_up_sync_dir_enter quiet opts w0 root_file file remote_path of
        (ok, w, ht) \<Rightarrow>
          if \<not> ok then (False, w)
          else if fails w (Enumerate file) then
            (False, tool_print ERR Cannot_Read_Local_Directory (relative_path root_file file) w)
          else
            (case older_up_sync_children quiet debug opts w root_file file cs remote_path ht of
               (status, w1, ht1) \<Rightarrow>
                 if opt_delete opts then
                   (case older_up_delete_leftovers quiet opts w1 remote_path ht1 of
                      (removed, w2) \<Rightarrow> (status \<and> removed, w2))
                 else (status, w1)))"
| "older_up_sync_dir quiet debug opts w0 root_file file ent remote_path =
     (case older_up_sync_dir_enter quiet opts w0 root_file file remote_path of
        (ok, w, ht) \<Rightarrow>
          if \<not> ok then (False, w)
          else
            (False, tool_print ERR Cannot_Read_Local_Directory (relative_path root_file file) w))"
| "older_up_sync_children quiet debug opts w root_file file [] remote_path ht = (True, w, ht)"
| "older_up_sync_children quiet debug opts w root_file file ((name, child) # cs) remote_path ht =
     (case older_hash_forget debug (opt_delete opts) name ht w of
        (w1, ht1) \<Rightarrow>
          (case (if file_type_of child = G_FILE_TYPE_DIRECTORY then
                   older_up_sync_dir quiet debug opts w1 root_file (file @ [name]) child
                     (remote_path @ [name])
                 else if file_type_of child = G_FILE_TYPE_REGULAR then
                   older_up_sync_file quiet debug opts w1 root_file (file @ [name])
                     (remote_path @ [name])
                 else
                   (True,
                    tool_print WARN Skipping_Special_File (relative_path root_file file) w1)) of
             (ok, w2) \<Rightarrow>
               (case older_up_sync_children quiet debug opts w2 root_file file cs remote_path
                       ht1 of
                  (status, w3, ht3) \<Rightarrow> (ok \<and> status, w3, ht3))))"
  by pat_completeness auto
termination
  by (relation "measure (\<lambda>x. case x of
        Inl (quiet, debug, opts, w, root_file, file, ent, remote_path) \<Rightarrow> size ent
      | Inr (quiet, debug, opts, w, root_file, file, cs, remote_path, ht) \<Rightarrow>
          size_list (size_prod (\<lambda>n. 0) size) cs)") auto

text \<open>
  The start of the older \<^verbatim>\<open>dl_sync_dir\<close>, up to the hash table of the local children.
  The line \<^verbatim>\<open>printf("Regular file\n")\<close> is printed whatever the options.
\<close>

definition older_dl_sync_dir_table ::
  "options \<Rightarrow> world \<Rightarrow> path \<Rightarrow> bool \<times> world \<times> (string \<times> GFileType) list" where
  "older_dl_sync_dir_table opts w file =
     (if opt_delete opts then
        (case local_children w file of
           None \<Rightarrow> (False, tool_print ERR Cannot_Read_Local_Directory file w, [])
         | Some infos \<Rightarrow>
             (True, w, foldl (\<lambda>ht fi. hash_insert (fst fi) (snd fi) ht) [] infos))
      else (True, w, []))"

definition older_dl_sync_dir_create ::
  "bool \<Rightarrow> options \<Rightarrow> world \<Rightarrow> path \<Rightarrow> bool \<times> world \<times> (string \<times> GFileType) list" where
  "older_dl_sync_dir_create quiet opts w file =
     (if \<not> g_file_query_exists w file then
        (let w1 = print_if (\<not> quiet) INFO Creating_Directory file w in
         if \<not> opt_dryrun opts then
           (case g_file_make_directory w1 file of
              (ok, w2) \<Rightarrow>
                if \<not> ok then (False, tool_print ERR Cannot_Create_Directory file w2, [])
                else older_dl_sync_dir_table opts w2 file)
         else older_dl_sync_dir_table opts w1 file)
      else older_dl_sync_dir_table opts w file)"

definition older_dl_sync_dir_enter ::
  "bool \<Rightarrow> options \<Rightarrow> world \<Rightarrow> path \<Rightarrow> bool \<times> world \<times> (string \<times> GFileType) list" where
  "older_dl_sync_dir_enter quiet opts w file =
     (let file_type = g_file_query_file_type w file
      in if file_type \<noteq> G_FILE_TYPE_UNKNOWN then
           (if file_type = G_FILE_TYPE_REGULAR then
              (let w1 = print_if (\<not> quiet) INFO Removing file
                          (tool_print INFO Regular_File [] w) in
               if \<not> opt_dryrun opts then
                 (case g_file_delete w1 file of
                    (ok, w2) \<Rightarrow>
                      if \<not> ok then (False, tool_print ERR Cannot_Delete file w2, [])
                      else older_dl_sync_dir_create quiet opts w2 file)
               else older_dl_sync_dir_create quiet opts w1 file)
            else if file_type \<noteq> G_FILE_TYPE_DIRECTORY then
              (False, tool_print ERR Target_Not_A_Directory file w, [])
            else older_dl_sync_dir_create quiet opts w file)
         else older_dl_sync_dir_create quiet opts w file)"

text \<open>
  The last loop of the older \<^verbatim>\<open>dl_sync_dir\<close>: its line \<^verbatim>\<open>R\<close> is printed whatever the
  options, and a special file is passed over with a warning outside a dry run only.
\<close>

fun older_dl_delete_leftovers ::
  "options \<Rightarrow> world \<Rightarrow> path \<Rightarrow> (string \<times> GFileType) list \<Rightarrow> bool \<times> world" where
  "older_dl_delete_leftovers opts w file [] = (True, w)"
| "older_dl_delete_leftovers opts w file ((k, file_type) # to_delete) =
     (let local_file = file @ [k];
          w1 = tool_print INFO Removing local_file w;
          r = (if \<not> opt_dryrun opts then
                 (if file_type = G_FILE_TYPE_DIRECTORY then
                    (case delete_recursively w1 local_file of
                       (ok, w2) \<Rightarrow>
                         if \<not> ok then (False, tool_print ERR Cannot_Delete local_file w2)
                         else (True, w2))
                  else if file_type = G_FILE_TYPE_REGULAR then
                    (case g_file_delete w1 local_file of
                       (ok, w2) \<Rightarrow>
                         if \<not> ok then (False, tool_print ERR Cannot_Delete local_file w2)
                         else (True, w2))
                  else (True, tool_print WARN Skipping_Special_File [k] w1))
               else (True, w1))
      in case older_dl_delete_leftovers opts (snd r) file to_delete of
           (status, w3) \<Rightarrow> (fst r \<and> status, w3))"

text \<open>
  The older \<^verbatim>\<open>dl_sync_dir\<close> and its loop over the children of the remote node, which
  always runs to its end as well.
\<close>

function (sequential)
  older_dl_sync_dir ::
    "bool \<Rightarrow> bool \<Rightarrow> options \<Rightarrow> world \<Rightarrow> rtree \<Rightarrow> path \<Rightarrow> path \<Rightarrow> bool \<times> world"
  and older_dl_sync_children ::
    "bool \<Rightarrow> bool \<Rightarrow> options \<Rightarrow> world \<Rightarrow> rtree list \<Rightarrow> path \<Rightarrow> path \<Rightarrow>
      (string \<times> GFileType) list \<Rightarrow> bool \<times> world \<times> (string \<times> GFileType) list"
where
  "older_dl_sync_dir quiet debug opts w0 (RNode node children) file remote_path =
     (case older_dl_sync_dir_enter quiet opts w0 file of
        (ok, w, ht) \<Rightarrow>
          if \<not> ok then (False, w)
          else
            (case older_dl_sync_children quiet debug opts w children file remote_path ht of
               (status, w1, ht1) \<Rightarrow>
                 if opt_delete opts then
                   (case older_dl_delete_leftovers opts w1 file ht1 of
                      (deleted, w2) \<Rightarrow> (status \<and> deleted, w2))
                 else (status, w1)))"
| "older_dl_sync_children quiet debug opts w [] file remote_path ht = (True, w, ht)"
| "older_dl_sync_children quiet debug opts w (child # children) file remote_path ht =
     (case older_hash_forget debug (opt_delete opts) (node_name (rnode child)) ht w of
        (w1, ht1) \<Rightarrow>
          (case (if node_type (rnode child) = MEGA_NODE_FILE then
                   older_dl_sync_file quiet debug opts w1 (rnode child)
                     (file @ [node_name (rnode child)]) (remote_path @ [node_name (rnode child)])
                 else
                   older_dl_sync_dir quiet debug opts w1 child
                     (file @ [node_name (rnode child)])
                     (remote_path @ [node_name (rnode child)])) of
             (ok, w2) \<Rightarrow>
               (case older_dl_sync_children quiet debug opts w2 children file remote_path ht1 of
                  (status, w3, ht3) \<Rightarrow> (ok \<and> status, w3, ht3))))"
  by pat_completeness auto
termination
  by (relation "measure (\<lambda>x. case x of
        Inl (quiet, debug, opts, w, t, file, remote_path) \<Rightarrow> size t
      | Inr (quiet, debug, opts, w, ts, file, remote_path, ht) \<Rightarrow> size_list size ts)") auto

text \<open>
  The older \<^verbatim>\<open>sync_main\<close> after \<^verbatim>\<open>tool_init\<close> has returned. \<open>quiet\<close> is
  \<^verbatim>\<open>opt_quiet\<close>, which turns the progress display and the debug lines off; \<open>debug\<close> is
  \<^verbatim>\<open>mega_debug & MEGA_DEBUG_APP\<close> as the command line left it. A download that fails
  leaves through \<^verbatim>\<open>err\<close>; after an upload the session is saved.
\<close>

definition older_sync_main ::
  "session_options \<Rightarrow> bool \<Rightarrow> bool \<Rightarrow> options \<Rightarrow> world \<Rightarrow> int \<times> world" where
  "older_sync_main so quiet debug0 opts0 w0 =
     (case (opt_local_path opts0, opt_remote_path opts0) of
        (Some local_path, Some remote_path) \<Rightarrow>
          (let opts = (if quiet then opts0\<lparr>opt_noprogress := True\<rparr> else opts0);
               debug = (debug0 \<and> \<not> quiet)
           in case tool_start_session
                     \<lparr>TOOL_SESSION_OPEN = True, TOOL_SESSION_AUTH_ONLY = False,
                      TOOL_SESSION_AUTH_OPTIONAL = False\<rparr> so w0 of
                (started, w) \<Rightarrow>
                  if \<not> started then (1, w)
                  else
                    (case rt_lookup (remote_fs w) remote_path of
                       None \<Rightarrow> (1, tool_print ERR Remote_Directory_Not_Found remote_path w)
                     | Some remote_dir \<Rightarrow>
                         if \<not> mega_node_is_container (rnode remote_dir) then
                           (1, tool_print ERR Remote_Path_Must_Be_Directory remote_path w)
                         else if opt_download opts then
                           (case older_dl_sync_dir quiet debug opts w remote_dir local_path
                                   remote_path of
                              (ok, w1) \<Rightarrow> (if ok then 0 else 1, w1))
                         else
                           (case fs_lookup (local_fs w) local_path of
                              Some (Directory st cs) \<Rightarrow>
                                (case older_up_sync_dir quiet debug opts w local_path local_path
                                        (Directory st cs) remote_path of
                                   (ok, w1) \<Rightarrow> (if ok then 0 else 1, mega_session_save w1))
                            | _ \<Rightarrow>
                                (1, tool_print ERR Local_Directory_Not_Found local_path w))))
      | _ \<Rightarrow> (1, tool_print ERR Must_Specify_Paths [] w0))"

section \<open>Example inputs\<close>

text \<open>A key file that asks for 40 parallel transfers, read as the default configuration.\<close>

definition example_key_file :: key_file where
  "example_key_file =
     \<lparr>Cache_Timeout = Key_Absent, Network_SpeedLimit = Key_Absent,
      Network_UploadSpeedLimit = Key_Absent, Network_DownloadSpeedLimit = Key_Absent,
      Network_ParallelTransfers = Key_Int 40\<rparr>"

definition example_init_input :: init_input where
  "example_init_input =
     \<lparr>options_parse = True, opt_no_config = False, opt_config = False,
      loaded_key_file = Some example_key_file, opt_speed_limit = - 1, credentials_ok = True\<rparr>"

text \<open>
  The node a path names is the only one of its name among its siblings (the server permits
  several; a lookup finds the first).
\<close>

fun unique_at :: "rtree list \<Rightarrow> path \<Rightarrow> bool" where
  "unique_at ts [] = True"
| "unique_at ts [n] = (length (filter (\<lambda>t. node_name (rnode t) = n) ts) \<le> 1)"
| "unique_at ts (n # p) =
     (case find_node n ts of None \<Rightarrow> True | Some t \<Rightarrow> unique_at (rchildren t) p)"

text \<open>
  A local directory \<open>d\<close> with two regular files, and a remote folder \<open>Root\<close> that holds a
  file \<open>a\<close> of the size and the local-origin timestamp of the local \<open>a\<close>. No call fails.
\<close>

definition example_local :: lfile where
  "example_local =
     Directory \<lparr>st_size = 0, st_mtime = 0\<rparr>
       [(''d'', Directory \<lparr>st_size = 0, st_mtime = 0\<rparr>
           [(''a'', Regular \<lparr>st_size = 10, st_mtime = 100\<rparr> []),
            (''b'', Regular \<lparr>st_size = 20, st_mtime = 200\<rparr> [])])]"

definition example_node_a :: mega_node where
  "example_node_a =
     \<lparr>node_name = ''a'', node_type = MEGA_NODE_FILE, node_size = 10, node_timestamp = 50,
      node_local_ts = 100, node_xattrs = None\<rparr>"

definition example_remote :: "rtree list" where
  "example_remote =
     [RNode \<lparr>node_name = ''Root'', node_type = MEGA_NODE_FOLDER, node_size = 0,
             node_timestamp = 1, node_local_ts = 0, node_xattrs = None\<rparr>
        [RNode example_node_a []]]"

definition example_world :: world where
  "example_world =
     \<lparr>remote_fs = example_remote, local_fs = example_local, fails = (\<lambda>c. False),
      xattr_unsupported = False, clock = 1000, stdout_tty = False, files_processed = 0,
      files_with_errors = 0, folders_processed = 0, elements_deleted = 0,
      bytes_transferred = 0, cur_file = None, printed = [], requests = [], cache_saves = 0\<rparr>"

definition example_options :: options where
  "example_options =
     \<lparr>opt_remote_path = Some [''Root''], opt_local_path = Some [''d''], opt_always = False,
      opt_delete = False, opt_delete_only = False, opt_download = False, opt_noprogress = True,
      opt_dryrun = False, opt_force = False, opt_ignore_errors = False\<rparr>"

text \<open>A user name and a password are given, and no reload of the remote tree is asked for.\<close>

definition example_session :: session_options where
  "example_session =
     \<lparr>opt_username = Some ''user'', opt_password = Some ''secret'', opt_reload_files = False\<rparr>"

text \<open>
  Words for the statements below: a request to delete a local entry, a request to set an
  extended attribute, and the modification time of the entry at a local path.
\<close>

definition is_delete :: "call \<times> bool \<Rightarrow> bool" where
  "is_delete r = (case fst r of Delete p \<Rightarrow> True | _ \<Rightarrow> False)"

definition is_setxattr :: "call \<times> bool \<Rightarrow> bool" where
  "is_setxattr r = (case fst r of Setxattr p n \<Rightarrow> True | _ \<Rightarrow> False)"

definition mtime_at :: "lfile \<Rightarrow> path \<Rightarrow> int option" where
  "mtime_at fs p = map_option (\<lambda>e. st_mtime (stat_of e)) (fs_lookup fs p)"

text \<open>
  Two worlds with the same surroundings: the same calls fail, the clock and the support
  for extended attributes are the same.
\<close>

definition same_surroundings :: "world \<Rightarrow> world \<Rightarrow> bool" where
  "same_surroundings w w' =
     (fails w' = fails w \<and> clock w' = clock w \<and> xattr_unsupported w' = xattr_unsupported w \<and>
      stdout_tty w' = stdout_tty w)"

text \<open>
  Neither tree has changed, nothing was requested and the session cache was not written
  between two worlds.
\<close>

definition untouched :: "world \<Rightarrow> world \<Rightarrow> bool" where
  "untouched w w' =
     (remote_fs w' = remote_fs w \<and> local_fs w' = local_fs w \<and> requests w' = requests w \<and>
      cache_saves w' = cache_saves w)"

text \<open>The regular files and the directories among the entries of a local directory.\<close>

definition regular_entries :: "(string \<times> lfile) list \<Rightarrow> (string \<times> lfile) list" where
  "regular_entries cs = filter (\<lambda>c. file_type_of (snd c) = G_FILE_TYPE_REGULAR) cs"

definition directory_entries :: "(string \<times> lfile) list \<Rightarrow> (string \<times> lfile) list" where
  "directory_entries cs = filter (\<lambda>c. file_type_of (snd c) = G_FILE_TYPE_DIRECTORY) cs"

text \<open>
  What \<^verbatim>\<open>up_sync_dir\<close> and its loop do between two worlds: the counters only grow (the
  folder count by one at least for a directory), a dry run leaves both trees alone, and a
  loop that ignores errors ends with status true after it has counted every regular entry
  and every directory entry.
\<close>

definition up_dir_summary :: "options \<Rightarrow> world \<Rightarrow> world \<Rightarrow> bool" where
  "up_dir_summary opts w w' =
     (files_processed w \<le> files_processed w' \<and> folders_processed w + 1 \<le> folders_processed w' \<and>
      (opt_dryrun opts \<longrightarrow> untouched w w'))"

definition up_children_summary ::
  "options \<Rightarrow> (string \<times> lfile) list \<Rightarrow> world \<Rightarrow> bool \<Rightarrow> world \<Rightarrow> bool" where
  "up_children_summary opts cs w status w' =
     (files_processed w \<le> files_processed w' \<and> folders_processed w \<le> folders_processed w' \<and>
      (opt_dryrun opts \<longrightarrow> untouched w w') \<and>
      (opt_ignore_errors opts \<longrightarrow>
         status \<and>
         files_processed w +
           (if opt_delete_only opts then 0 else int (length (regular_entries cs)))
           \<le> files_processed w' \<and>
         folders_processed w + int (length (directory_entries cs)) \<le> folders_processed w'))"

text \<open>
  The conditions under which \<^verbatim>\<open>sync_main\<close> gets as far as one of the two sync
  functions: both paths given, the options compatible, a session, a remote directory, and
  for an upload a local directory.
\<close>

definition sync_flags :: session_flags where
  "sync_flags =
     \<lparr>TOOL_SESSION_OPEN = True, TOOL_SESSION_AUTH_ONLY = False,
      TOOL_SESSION_AUTH_OPTIONAL = False\<rparr>"

definition sync_reached :: "session_options \<Rightarrow> options \<Rightarrow> world \<Rightarrow> bool" where
  "sync_reached so opts w =
     (case (opt_local_path opts, opt_remote_path opts) of
        (Some local_path, Some remote_path) \<Rightarrow>
          \<not> (opt_delete_only opts \<and> opt_always opts) \<and> fst (tool_start_session sync_flags so w) \<and>
          (case rt_lookup (remote_fs w) remote_path of
             None \<Rightarrow> False
           | Some remote_dir \<Rightarrow> mega_node_is_container (rnode remote_dir)) \<and>
          (opt_download opts \<or> g_file_query_file_type w local_path = G_FILE_TYPE_DIRECTORY)
      | _ \<Rightarrow> False)"


text \<open>
  The example world for a download: the remote folder holds the files \<open>a\<close> and \<open>b\<close>, and
  the local directory \<open>d\<close> holds a directory \<open>a\<close> and nothing else.
\<close>

definition example_node_b :: mega_node where
  "example_node_b =
     \<lparr>node_name = ''b'', node_type = MEGA_NODE_FILE, node_size = 20, node_timestamp = 60,
      node_local_ts = 200, node_xattrs = None\<rparr>"

definition example_download_world :: world where
  "example_download_world =
     example_world
       \<lparr>remote_fs :=
          [RNode \<lparr>node_name = ''Root'', node_type = MEGA_NODE_FOLDER, node_size = 0,
                  node_timestamp = 1, node_local_ts = 0, node_xattrs = None\<rparr>
             [RNode example_node_a [], RNode example_node_b []]],
        local_fs :=
          Directory \<lparr>st_size = 0, st_mtime = 0\<rparr>
            [(''d'', Directory \<lparr>st_size = 0, st_mtime = 0\<rparr>
                [(''a'', Directory \<lparr>st_size = 0, st_mtime = 0\<rparr> [])])]\<rparr>"

text \<open>
  The example world with an empty remote folder and a local directory that holds one
  empty file.
\<close>

definition example_empty_file_world :: world where
  "example_empty_file_world =
     example_world
       \<lparr>remote_fs :=
          [RNode \<lparr>node_name = ''Root'', node_type = MEGA_NODE_FOLDER, node_size = 0,
                  node_timestamp = 1, node_local_ts = 0, node_xattrs = None\<rparr> []],
        local_fs :=
          Directory \<lparr>st_size = 0, st_mtime = 0\<rparr>
            [(''d'', Directory \<lparr>st_size = 0, st_mtime = 0\<rparr>
                [(''e'', Regular \<lparr>st_size = 0, st_mtime = 5\<rparr> [])])]\<rparr>"

text \<open>The example world with a remote file \<open>a\<close> of another size than the local one.\<close>

definition example_changed_world :: world where
  "example_changed_world =
     example_world
       \<lparr>remote_fs :=
          [RNode \<lparr>node_name = ''Root'', node_type = MEGA_NODE_FOLDER, node_size = 0,
                  node_timestamp = 1, node_local_ts = 0, node_xattrs = None\<rparr>
             [RNode (example_node_a\<lparr>node_size := 11\<rparr>) []]]\<rparr>"

section \<open>Properties of the progress display\<close>

lemma show_line_one:
  "show_line file d t st nd = (st', ls) \<Longrightarrow> (\<exists>l. ls = [l]) \<and> last_update st' = t"
  by (auto simp: show_line_def Let_def split: if_splits)

lemma tool_show_progress_step:
  "tool_show_progress file d t st = (st', ls) \<Longrightarrow>
     (ls = [] \<and> st' = st) \<or> ((\<exists>l. ls = [l]) \<and> last_update st' = t)"
  by (auto simp: tool_show_progress_def split: if_splits dest: show_line_one)

lemma tool_show_progress_started:
  "tool_show_progress file d t st = (st', ls) \<Longrightarrow> 0 \<le> transfer_start st' \<Longrightarrow>
     0 \<le> transfer_start st \<or> ls \<noteq> []"
  by (auto simp: tool_show_progress_def split: if_splits dest: show_line_one)

text \<open>
  With a clock that never reads zero, \<^verbatim>\<open>last_update\<close> is the time of the last line
  printed (zero before the first), and a transfer that has started has printed a line.
\<close>

lemma run_progress_last_update:
  assumes "last_update st = (if out0 = [] then 0 else fst (last out0))"
    and "out0 \<noteq> [] \<longrightarrow> fst (last out0) \<noteq> 0"
    and "0 \<le> transfer_start st \<longrightarrow> out0 \<noteq> []"
    and "\<forall>(d, t) \<in> set evs. 0 < t"
    and "run_progress file st evs = (st', out)"
  shows "last_update st' = (if out0 @ out = [] then 0 else fst (last (out0 @ out))) \<and>
     (out0 @ out \<noteq> [] \<longrightarrow> fst (last (out0 @ out)) \<noteq> 0) \<and>
     (0 \<le> transfer_start st' \<longrightarrow> out0 @ out \<noteq> [])"
  using assms
proof (induction evs arbitrary: st out0 out)
  case Nil
  then show ?case by simp
next
  case (Cons ev evs)
  obtain d t where ev: "ev = (d, t)" by (cases ev)
  obtain st1 l1 where s1: "tool_show_progress file d t st = (st1, l1)"
    by (cases "tool_show_progress file d t st")
  obtain st2 l2 where s2: "run_progress file st1 evs = (st2, l2)"
    by (cases "run_progress file st1 evs")
  from Cons.prems(5) ev s1 s2 have out: "out = map (Pair t) l1 @ l2" and st': "st' = st2"
    by auto
  from Cons.prems(4) ev have tpos: "0 < t" and rest: "\<forall>(d, t) \<in> set evs. 0 < t"
    by auto
  let ?out1 = "out0 @ map (Pair t) l1"
  have a: "last_update st1 = (if ?out1 = [] then 0 else fst (last ?out1))"
    and b: "?out1 \<noteq> [] \<longrightarrow> fst (last ?out1) \<noteq> 0"
    and c: "0 \<le> transfer_start st1 \<longrightarrow> ?out1 \<noteq> []"
    using tool_show_progress_step [OF s1] tool_show_progress_started [OF s1]
      Cons.prems(1,2,3) tpos
    by auto
  from Cons.IH [OF a b c rest s2 [folded st']] show ?case
    by (simp add: out)
qed

text \<open>
  C6. Within the events of a run, with a monotonic clock that reads more than zero, a
  regular event (one whose byte count is neither sentinel) that arrives less than 1000000
  microseconds after the last line printed prints nothing, and leaves the statics as they
  are: the lines of regular events are at least a second apart.
\<close>

theorem progress_throttled:
  assumes "run_progress file progress_init evs = (st, out)"
    and "\<forall>(d, t) \<in> set evs. 0 < t"
    and "regular_event data"
    and "out \<noteq> []"
    and "timenow < fst (last out) + 1000000"
  shows "tool_show_progress file data timenow st = (st, [])"
proof -
  have "last_update st = (if [] @ out = [] then 0 else fst (last ([] @ out))) \<and>
     ([] @ out \<noteq> [] \<longrightarrow> fst (last ([] @ out)) \<noteq> 0) \<and>
     (0 \<le> transfer_start st \<longrightarrow> [] @ out \<noteq> [])"
    by (rule run_progress_last_update [OF _ _ _ assms(2) assms(1)])
      (simp_all add: progress_init_def)
  with assms(4) have "last_update st = fst (last out)" and "last_update st \<noteq> 0"
    by auto
  with assms(3,5) show ?thesis
    by (simp add: tool_show_progress_def regular_event_def PROGRESS_FREQUENCY_def)
qed

theorem progress_throttled_witness:
  "run_progress ''f'' progress_init [(\<lparr>progress_total = 1000, progress_done = - 1\<rparr>, 5)] =
     (\<lparr>last_update = 5, last_bytes = 0, transfer_start = 5\<rparr>,
      [(5, Just_Started ''f'' (Of_Int 0) 0 1000)]) \<and>
   tool_show_progress ''f'' \<lparr>progress_total = 1000, progress_done = 10\<rparr> 999999
     \<lparr>last_update = 5, last_bytes = 0, transfer_start = 5\<rparr> =
     (\<lparr>last_update = 5, last_bytes = 0, transfer_start = 5\<rparr>, [])"
proof -
  have r: "run_progress ''f'' progress_init [(\<lparr>progress_total = 1000, progress_done = - 1\<rparr>, 5)] =
     (\<lparr>last_update = 5, last_bytes = 0, transfer_start = 5\<rparr>,
      [(5, Just_Started ''f'' (Of_Int 0) 0 1000)])"
    by (simp add: tool_show_progress_def show_line_def progress_init_def)
  show ?thesis
    using progress_throttled [OF r, of "\<lparr>progress_total = 1000, progress_done = 10\<rparr>" 999999] r
    by (simp add: regular_event_def)
qed

lemma regular_keeps_start:
  "regular_event d \<Longrightarrow>
     transfer_start (fst (tool_show_progress file d t st)) = transfer_start st"
  by (auto simp: tool_show_progress_def regular_event_def show_line_def Let_def)

lemma run_regular_keeps_start:
  "\<forall>(d, t) \<in> set regs. regular_event d \<Longrightarrow>
     transfer_start (fst (run_progress file st regs)) = transfer_start st"
proof (induction regs arbitrary: st)
  case Nil
  then show ?case by simp
next
  case (Cons ev regs)
  obtain d t where ev: "ev = (d, t)" by (cases ev)
  with Cons.prems have r: "regular_event d" and rest: "\<forall>(d, t) \<in> set regs. regular_event d"
    by auto
  show ?case
    using Cons.IH [OF rest] regular_keeps_start [OF r]
    by (auto simp: ev split: prod.splits) (metis fst_conv)
qed

text \<open>
  C5, as the code has it. After a transfer has started at clock reading 7, an event with
  the start sentinel and a total of zero, at clock reading 9, returns at the first test of
  the function and resets nothing; an event with the final sentinel and a total of zero
  prints no summary.
\<close>

theorem start_sentinel_zero_total_counterexample:
  "run_progress ''f'' progress_init
     [(\<lparr>progress_total = 3000, progress_done = - 1\<rparr>, 7),
      (\<lparr>progress_total = 0, progress_done = - 1\<rparr>, 9),
      (\<lparr>progress_total = 0, progress_done = - 2\<rparr>, 12)] =
   (\<lparr>last_update = 7, last_bytes = 0, transfer_start = 7\<rparr>,
    [(7, Just_Started ''f'' (Of_Int 0) 0 3000)])"
  by (simp add: tool_show_progress_def show_line_def progress_init_def)

lemma zero_total_ignored:
  "progress_total d = 0 \<Longrightarrow> tool_show_progress file d t st = (st, [])"
  by (simp add: tool_show_progress_def)

lemma start_sentinel_resets:
  "progress_total s \<noteq> 0 \<Longrightarrow> progress_done s = - 1 \<Longrightarrow>
     fst (tool_show_progress file s t0 st) =
       \<lparr>last_update = t0, last_bytes = 0, transfer_start = t0\<rparr>"
  by (simp add: tool_show_progress_def show_line_def)

lemma final_sentinel_summary:
  assumes "transfer_start st = t0" and "0 \<le> t0"
    and "progress_total f \<noteq> 0" and "progress_done f = - 2"
  shows "snd (tool_show_progress file f t1 st) =
     [Summary file (Of_Int 100) (progress_total f)
        (Over (Times (Of_Int (uint (progress_total f))) (Of_Int 1000000)) (Of_Int (t1 - t0)))]"
  using assms by (simp add: tool_show_progress_def show_line_def)

lemma exact_rate:
  "t1 \<noteq> t0 \<Longrightarrow>
     exact (Over (Times (Of_Int (uint n)) (Of_Int 1000000)) (Of_Int (t1 - t0))) =
       Some (real (unat n) / (real_of_int (t1 - t0) / 1000000))"
  by simp

text \<open>
  C5, amended. An event with a total of zero is ignored: it changes no static and prints
  nothing. An event with a total other than zero whose byte count is the start sentinel
  sets the start time and the time of the last update to the clock reading and the byte
  counter to zero. After it (at a clock reading that is not negative), whatever regular
  events follow, an event with a total other than zero whose byte count is the final
  sentinel prints one summary; its rate is the total times \<open>10\<^sup>6\<close> over the microseconds
  since the start event, computed in \<^verbatim>\<open>gdouble\<close>, which without rounding is the total
  divided by the seconds since the start event, when some time has passed.
\<close>

theorem progress_sentinels:
  "(progress_total d = 0 \<longrightarrow> tool_show_progress name d t st = (st, [])) \<and>
   (progress_total s \<noteq> 0 \<and> progress_done s = - 1 \<longrightarrow>
      fst (tool_show_progress name s t_start st) =
        \<lparr>last_update = t_start, last_bytes = 0, transfer_start = t_start\<rparr>) \<and>
   (progress_total s \<noteq> 0 \<and> progress_done s = - 1 \<and> 0 \<le> t_start \<and>
    (\<forall>(d, t) \<in> set regs. regular_event d) \<and> progress_total f \<noteq> 0 \<and> progress_done f = - 2 \<longrightarrow>
      snd (tool_show_progress name f t_final
             (fst (run_progress name (fst (tool_show_progress name s t_start st)) regs))) =
        [Summary name (Of_Int 100) (progress_total f)
           (Over (Times (Of_Int (uint (progress_total f))) (Of_Int 1000000))
              (Of_Int (t_final - t_start)))] \<and>
      (t_final \<noteq> t_start \<longrightarrow>
         exact (Over (Times (Of_Int (uint (progress_total f))) (Of_Int 1000000))
                  (Of_Int (t_final - t_start))) =
           Some (real (unat (progress_total f)) / (real_of_int (t_final - t_start) / 1000000))))"
proof (intro conjI impI)
  assume "progress_total d = 0"
  then show "tool_show_progress name d t st = (st, [])" by (rule zero_total_ignored)
next
  assume "progress_total s \<noteq> 0 \<and> progress_done s = - 1"
  then show "fst (tool_show_progress name s t_start st) =
      \<lparr>last_update = t_start, last_bytes = 0, transfer_start = t_start\<rparr>"
    by (simp add: start_sentinel_resets)
next
  assume a: "progress_total s \<noteq> 0 \<and> progress_done s = - 1 \<and> 0 \<le> t_start \<and>
    (\<forall>(d, t) \<in> set regs. regular_event d) \<and> progress_total f \<noteq> 0 \<and> progress_done f = - 2"
  let ?st1 = "fst (tool_show_progress name s t_start st)"
  from a have "transfer_start ?st1 = t_start" by (simp add: start_sentinel_resets)
  with a have "transfer_start (fst (run_progress name ?st1 regs)) = t_start"
    by (simp add: run_regular_keeps_start)
  from final_sentinel_summary [OF this, of f name t_final] a
  show "snd (tool_show_progress name f t_final (fst (run_progress name ?st1 regs))) =
      [Summary name (Of_Int 100) (progress_total f)
         (Over (Times (Of_Int (uint (progress_total f))) (Of_Int 1000000))
            (Of_Int (t_final - t_start)))]"
    by simp
next
  assume "t_final \<noteq> t_start"
  then show "exact (Over (Times (Of_Int (uint (progress_total f))) (Of_Int 1000000))
        (Of_Int (t_final - t_start))) =
      Some (real (unat (progress_total f)) / (real_of_int (t_final - t_start) / 1000000))"
    by (rule exact_rate)
qed

theorem progress_sentinels_witness:
  "tool_show_progress ''f'' \<lparr>progress_total = 0, progress_done = - 1\<rparr> 9
     \<lparr>last_update = 7, last_bytes = 0, transfer_start = 7\<rparr> =
     (\<lparr>last_update = 7, last_bytes = 0, transfer_start = 7\<rparr>, []) \<and>
   fst (tool_show_progress ''f'' \<lparr>progress_total = 3000, progress_done = - 1\<rparr> 7 progress_init) =
     \<lparr>last_update = 7, last_bytes = 0, transfer_start = 7\<rparr> \<and>
   snd (tool_show_progress ''f'' \<lparr>progress_total = 3000, progress_done = - 2\<rparr> 2000007
     (fst (run_progress ''f''
        (fst (tool_show_progress ''f'' \<lparr>progress_total = 3000, progress_done = - 1\<rparr> 7
           progress_init))
        [(\<lparr>progress_total = 3000, progress_done = 1500\<rparr>, 1000007)]))) =
     [Summary ''f'' (Of_Int 100) 3000
        (Over (Times (Of_Int 3000) (Of_Int 1000000)) (Of_Int 2000000))] \<and>
   exact (Over (Times (Of_Int 3000) (Of_Int 1000000)) (Of_Int 2000000)) = Some 1500"
proof -
  let ?start = "\<lparr>progress_total = 3000, progress_done = - 1\<rparr>"
  let ?final = "\<lparr>progress_total = 3000, progress_done = - 2\<rparr>"
  let ?regs = "[(\<lparr>progress_total = 3000, progress_done = 1500\<rparr>, 1000007)]"
  note ignored = progress_sentinels [where d = "\<lparr>progress_total = 0, progress_done = - 1\<rparr>"
      and t = 9 and st = "\<lparr>last_update = 7, last_bytes = 0, transfer_start = 7\<rparr>"
      and name = "''f''", THEN conjunct1]
  note run = progress_sentinels [where s = ?start and t_start = 7 and st = progress_init
      and name = "''f''" and f = ?final and t_final = 2000007 and regs = ?regs,
      THEN conjunct2]
  from ignored have one:
    "tool_show_progress ''f'' \<lparr>progress_total = 0, progress_done = - 1\<rparr> 9
       \<lparr>last_update = 7, last_bytes = 0, transfer_start = 7\<rparr> =
     (\<lparr>last_update = 7, last_bytes = 0, transfer_start = 7\<rparr>, [])"
    by simp
  from run [THEN conjunct1] have two:
    "fst (tool_show_progress ''f'' ?start 7 progress_init) =
       \<lparr>last_update = 7, last_bytes = 0, transfer_start = 7\<rparr>"
    by simp
  have given: "progress_total ?start \<noteq> 0 \<and> progress_done ?start = - 1 \<and> (0::int) \<le> 7 \<and>
      (\<forall>(d, t) \<in> set ?regs. regular_event d) \<and> progress_total ?final \<noteq> 0 \<and>
      progress_done ?final = - 2"
    by (simp add: regular_event_def)
  from run [THEN conjunct2, rule_format, OF given] have three:
    "snd (tool_show_progress ''f'' ?final 2000007
       (fst (run_progress ''f'' (fst (tool_show_progress ''f'' ?start 7 progress_init)) ?regs))) =
     [Summary ''f'' (Of_Int 100) 3000
        (Over (Times (Of_Int 3000) (Of_Int 1000000)) (Of_Int 2000000))]"
    and four: "exact (Over (Times (Of_Int 3000) (Of_Int 1000000)) (Of_Int 2000000)) = Some 1500"
    by simp_all
  from one two three four show ?thesis by (intro conjI)
qed

section \<open>Properties of the worker count\<close>

lemma load_speed_limits_workers:
  "transfer_worker_count (load_speed_limits kf ts) = transfer_worker_count ts"
  by (simp add: load_speed_limits_def warn_def Let_def)

lemma load_cache_timeout_workers:
  "transfer_worker_count (load_cache_timeout kf ts) = transfer_worker_count ts"
  by (simp add: load_cache_timeout_def)

lemma load_parallel_transfers_count:
  "transfer_worker_count (load_parallel_transfers kf ts) =
     (if has_key (Network_ParallelTransfers kf)
      then CLAMP (get_integer (Network_ParallelTransfers kf)) 1 16
      else transfer_worker_count ts)"
  by (simp add: load_parallel_transfers_def warn_def Let_def CLAMP_def)

lemma load_parallel_transfers_warns:
  "has_key (Network_ParallelTransfers kf) \<Longrightarrow>
   get_integer (Network_ParallelTransfers kf) < 1 \<or>
     16 < get_integer (Network_ParallelTransfers kf) \<Longrightarrow>
   ''Invalid number of parallel transfers set in the config file, limited to %d''
     \<in> set (warnings (load_parallel_transfers kf ts))"
  by (auto simp: load_parallel_transfers_def warn_def Let_def)

text \<open>
  C7. Whenever \<^verbatim>\<open>tool_init\<close> returns, the worker count that \<^verbatim>\<open>tool_start_session\<close>
  hands to the session is the static \<^verbatim>\<open>transfer_worker_count\<close>, and it lies between 1
  and 16; so does its initial value; and when a configuration file with the key
  \<^verbatim>\<open>ParallelTransfers\<close> was read, the count is the value of the key clamped to 1..16,
  with the warning "limited to" printed when the value was outside.
\<close>

theorem worker_count_in_range:
  assumes "tool_init inp = Some ts"
  shows "max_workers (tool_start_session_settings ts) = transfer_worker_count ts \<and>
    1 \<le> transfer_worker_count ts \<and> transfer_worker_count ts \<le> 16 \<and>
    1 \<le> transfer_worker_count tool_state_init \<and> transfer_worker_count tool_state_init \<le> 16 \<and>
    (\<forall>kf. (\<not> opt_no_config inp \<or> opt_config inp) \<and> loaded_key_file inp = Some kf \<and>
        has_key (Network_ParallelTransfers kf) \<longrightarrow>
        transfer_worker_count ts = CLAMP (get_integer (Network_ParallelTransfers kf)) 1 16 \<and>
        (get_integer (Network_ParallelTransfers kf) < 1 \<or>
         16 < get_integer (Network_ParallelTransfers kf) \<longrightarrow>
           ''Invalid number of parallel transfers set in the config file, limited to %d''
             \<in> set (warnings ts)))"
proof -
  let ?used = "\<not> opt_no_config inp \<or> opt_config inp"
  define ts1 where "ts1 =
     (if ?used then
        (case loaded_key_file inp of
           None \<Rightarrow> tool_state_init
         | Some kf \<Rightarrow>
             load_parallel_transfers kf
               (load_speed_limits kf (load_cache_timeout kf tool_state_init)))
      else tool_state_init)"
  from assms have count: "transfer_worker_count ts = transfer_worker_count ts1"
    and warns: "warnings ts = warnings ts1"
    by (auto simp: tool_init_def ts1_def Let_def split: if_splits)
  have range1: "1 \<le> transfer_worker_count ts1 \<and> transfer_worker_count ts1 \<le> 16"
    by (auto simp: ts1_def load_parallel_transfers_count load_speed_limits_workers
        load_cache_timeout_workers CLAMP_def tool_state_init_def split: option.splits)
  have dflt: "1 \<le> transfer_worker_count tool_state_init \<and>
      transfer_worker_count tool_state_init \<le> 16"
    by (simp add: tool_state_init_def)
  have cfg: "transfer_worker_count ts1 =
        CLAMP (get_integer (Network_ParallelTransfers kf)) 1 16 \<and>
        (get_integer (Network_ParallelTransfers kf) < 1 \<or>
         16 < get_integer (Network_ParallelTransfers kf) \<longrightarrow>
           ''Invalid number of parallel transfers set in the config file, limited to %d''
             \<in> set (warnings ts1))"
    if "?used" and "loaded_key_file inp = Some kf" and "has_key (Network_ParallelTransfers kf)"
    for kf
    using that load_parallel_transfers_warns [OF that(3)]
    by (simp add: ts1_def load_parallel_transfers_count)
  show ?thesis
    using count warns range1 dflt cfg
    by (simp add: tool_start_session_settings_def)
qed

lemma example_tool_init:
  "tool_init example_init_input =
     Some \<lparr>upload_speed_limit = 0, download_seed_limit = 0, transfer_worker_count = 16,
           cache_timout = 600,
           warnings =
             [''Invalid number of parallel transfers set in the config file, limited to %d'']\<rparr>"
  by (simp add: tool_init_def example_init_input_def example_key_file_def
      load_parallel_transfers_def load_speed_limits_def load_cache_timeout_def
      tool_state_init_def has_key_def get_integer_def get_integer_error_def warn_def CLAMP_def)

theorem worker_count_in_range_witness:
  "tool_init example_init_input \<noteq> None \<and>
   max_workers (tool_start_session_settings (the (tool_init example_init_input))) = 16 \<and>
   ''Invalid number of parallel transfers set in the config file, limited to %d''
     \<in> set (warnings (the (tool_init example_init_input)))"
  using worker_count_in_range [OF example_tool_init] example_tool_init
  by (simp add: tool_start_session_settings_def)


section \<open>Properties of sync: uploading one file\<close>

lemma tool_print_fields [simp]:
  "remote_fs (tool_print l t p w) = remote_fs w"
  "local_fs (tool_print l t p w) = local_fs w"
  "requests (tool_print l t p w) = requests w"
  "fails (tool_print l t p w) = fails w"
  "clock (tool_print l t p w) = clock w"
  "xattr_unsupported (tool_print l t p w) = xattr_unsupported w"
  "stdout_tty (tool_print l t p w) = stdout_tty w"
  "files_processed (tool_print l t p w) = files_processed w"
  "files_with_errors (tool_print l t p w) = files_with_errors w"
  "folders_processed (tool_print l t p w) = folders_processed w"
  "elements_deleted (tool_print l t p w) = elements_deleted w"
  "bytes_transferred (tool_print l t p w) = bytes_transferred w"
  "cur_file (tool_print l t p w) = cur_file w"
  "cache_saves (tool_print l t p w) = cache_saves w"
  by (simp_all add: tool_print_def)

lemma clear_line_fields [simp]:
  "remote_fs (clear_line opts w) = remote_fs w"
  "local_fs (clear_line opts w) = local_fs w"
  "requests (clear_line opts w) = requests w"
  "fails (clear_line opts w) = fails w"
  "clock (clear_line opts w) = clock w"
  "xattr_unsupported (clear_line opts w) = xattr_unsupported w"
  "files_processed (clear_line opts w) = files_processed w"
  "files_with_errors (clear_line opts w) = files_with_errors w"
  "folders_processed (clear_line opts w) = folders_processed w"
  "elements_deleted (clear_line opts w) = elements_deleted w"
  "bytes_transferred (clear_line opts w) = bytes_transferred w"
  "cache_saves (clear_line opts w) = cache_saves w"
  by (simp_all add: clear_line_def)

lemma count_error_fields [simp]:
  "remote_fs (count_error w) = remote_fs w"
  "local_fs (count_error w) = local_fs w"
  "requests (count_error w) = requests w"
  "fails (count_error w) = fails w"
  "clock (count_error w) = clock w"
  "xattr_unsupported (count_error w) = xattr_unsupported w"
  "files_processed (count_error w) = files_processed w"
  "files_with_errors (count_error w) = files_with_errors w + 1"
  "folders_processed (count_error w) = folders_processed w"
  "elements_deleted (count_error w) = elements_deleted w"
  "bytes_transferred (count_error w) = bytes_transferred w"
  "cache_saves (count_error w) = cache_saves w"
  by (simp_all add: count_error_def)

lemma print_if_fields [simp]:
  "remote_fs (print_if b l t p w) = remote_fs w"
  "local_fs (print_if b l t p w) = local_fs w"
  "requests (print_if b l t p w) = requests w"
  "fails (print_if b l t p w) = fails w"
  "clock (print_if b l t p w) = clock w"
  "cache_saves (print_if b l t p w) = cache_saves w"
  by (simp_all add: print_if_def)

lemma g_stat_same:
  "local_fs w' = local_fs w \<Longrightarrow> fails w' = fails w \<Longrightarrow> g_stat w' p = g_stat w p"
  by (simp add: g_stat_def)

lemma mega_session_stat_same:
  "remote_fs w' = remote_fs w \<Longrightarrow> mega_session_stat w' p = mega_session_stat w p"
  by (simp add: mega_session_stat_def)

text \<open>What the two session requests of an upload leave behind.\<close>

lemma mega_session_put_compat_result:
  "mega_session_put_compat w rp lp = (ok, w') \<Longrightarrow>
     requests w' = requests w @ [(Session_Put rp, ok)] \<and>
     (\<not> ok \<longrightarrow> remote_fs w' = remote_fs w) \<and>
     local_fs w' = local_fs w \<and> fails w' = fails w \<and> clock w' = clock w \<and>
     files_with_errors w' = files_with_errors w \<and> bytes_transferred w' = bytes_transferred w \<and>
     files_processed w' = files_processed w \<and> folders_processed w' = folders_processed w \<and>
     elements_deleted w' = elements_deleted w"
  unfolding mega_session_put_compat_def request_def
  by (auto split: if_splits option.splits lfile.splits)

lemma mega_session_rm_result:
  "mega_session_rm w p = (ok, w') \<Longrightarrow>
     requests w' = requests w @ [(Session_Rm p, ok)] \<and>
     remote_fs w' = (if ok then rt_remove p (remote_fs w) else remote_fs w) \<and>
     local_fs w' = local_fs w \<and> fails w' = fails w \<and> clock w' = clock w \<and>
     files_with_errors w' = files_with_errors w \<and> bytes_transferred w' = bytes_transferred w \<and>
     files_processed w' = files_processed w \<and> folders_processed w' = folders_processed w \<and>
     elements_deleted w' = elements_deleted w"
  by (auto simp: mega_session_rm_def request_def Let_def)

lemma mega_session_rm_ok:
  "fst (mega_session_rm w p) = (\<not> fails w (Session_Rm p) \<and> mega_session_stat w p \<noteq> None)"
  by (simp add: mega_session_rm_def mega_session_stat_def Let_def)

lemma up_sync_file_put_dryrun:
  "opt_dryrun opts \<Longrightarrow>
     up_sync_file_put opts w file remote_path st = (True, tool_print INFO Transferring file w)"
  by (simp add: up_sync_file_put_def)

lemma up_sync_file_put_result:
  assumes "\<not> opt_dryrun opts" and "up_sync_file_put opts w file remote_path st = (ok, w')"
  shows "requests w' = requests w @ [(Session_Put remote_path, ok)] \<and>
     (\<not> ok \<longrightarrow> remote_fs w' = remote_fs w \<and> files_with_errors w' = files_with_errors w + 1
        \<and> bytes_transferred w' = bytes_transferred w) \<and>
     (ok \<longrightarrow> files_with_errors w' = files_with_errors w
        \<and> bytes_transferred w' = bytes_transferred w + st_size st) \<and>
     local_fs w' = local_fs w \<and> files_processed w' = files_processed w"
proof -
  let ?w0 = "(tool_print INFO Transferring file w)\<lparr>cur_file := Some (basename file)\<rparr>"
  obtain ok1 w1 where put: "mega_session_put_compat ?w0 remote_path file = (ok1, w1)"
    by (cases "mega_session_put_compat ?w0 remote_path file")
  from assms put have "ok = ok1"
    and "w' = (if \<not> ok1 then count_error (tool_print ERR Upload_Failed file (clear_line opts w1))
               else clear_line opts (w1\<lparr>bytes_transferred := bytes_transferred w1 + st_size st\<rparr>))"
    by (auto simp: up_sync_file_put_def Let_def split: if_splits)
  with mega_session_put_compat_result [OF put] show ?thesis
    by (cases ok1) simp_all
qed

lemma decide_transfer_frame:
  "decide_transfer opts node st shown w = (d, w') \<Longrightarrow>
     remote_fs w' = remote_fs w \<and> local_fs w' = local_fs w \<and> requests w' = requests w \<and>
     fails w' = fails w \<and> clock w' = clock w \<and> xattr_unsupported w' = xattr_unsupported w \<and>
     files_with_errors w' = files_with_errors w \<and> bytes_transferred w' = bytes_transferred w \<and>
     files_processed w' = files_processed w \<and> folders_processed w' = folders_processed w \<and>
     elements_deleted w' = elements_deleted w \<and> cache_saves w' = cache_saves w"
  by (auto simp: decide_transfer_def split: if_splits)

lemma decide_transfer_decision:
  "fst (decide_transfer opts node st shown w) =
     (opt_always opts \<or> node_size node \<noteq> st_size st \<or>
      st_mtime st \<noteq> node_timestamp_or_local node)"
  by (simp add: decide_transfer_def)


lemma up_sync_file_node_skip:
  assumes "\<not> opt_always opts" and "node_size node = st_size st"
    and "st_mtime st = node_timestamp_or_local node"
    and "up_sync_file_node opts w file remote_path st node = (ok, w')"
  shows "requests w' = requests w \<and> remote_fs w' = remote_fs w \<and>
     bytes_transferred w' = bytes_transferred w \<and>
     (node_type node \<noteq> MEGA_NODE_FOLDER \<or> opt_force opts \<longrightarrow>
        ok \<and> files_with_errors w' = files_with_errors w)"
  using assms
  by (auto simp: up_sync_file_node_def decide_transfer_def split: if_splits)

lemma up_sync_file_node_overwrite:
  assumes "node_type node \<noteq> MEGA_NODE_FOLDER \<or> opt_force opts"
    and "opt_always opts \<or> node_size node \<noteq> st_size st \<or>
      st_mtime st \<noteq> node_timestamp_or_local node"
    and "\<not> opt_dryrun opts"
    and "up_sync_file_node opts w file remote_path st node = (ok, w')"
  shows "(fails w (Session_Rm remote_path) \<or> mega_session_stat w remote_path = None \<longrightarrow>
        requests w' = requests w @ [(Session_Rm remote_path, False)] \<and> \<not> ok \<and>
        remote_fs w' = remote_fs w \<and> files_with_errors w' = files_with_errors w + 1) \<and>
     (\<not> fails w (Session_Rm remote_path) \<and> mega_session_stat w remote_path \<noteq> None \<longrightarrow>
        requests w' = requests w @ [(Session_Rm remote_path, True), (Session_Put remote_path, ok)] \<and>
        (\<not> ok \<longrightarrow> remote_fs w' = rt_remove remote_path (remote_fs w)
           \<and> files_with_errors w' = files_with_errors w + 1) \<and>
        (ok \<longrightarrow> bytes_transferred w' = bytes_transferred w + st_size st
           \<and> files_with_errors w' = files_with_errors w))"
proof -
  obtain d w2 where dec: "decide_transfer opts node st file w = (d, w2)"
    by (cases "decide_transfer opts node st file w")
  from dec have "d = fst (decide_transfer opts node st file w)" by simp
  with assms(2) have d: "d" by (simp add: decide_transfer_decision)
  let ?w3 = "tool_print INFO Removing remote_path w2"
  obtain ok4 w4 where rm: "mega_session_rm ?w3 remote_path = (ok4, w4)"
    by (cases "mega_session_rm ?w3 remote_path")
  note f2 = decide_transfer_frame [OF dec]
  note f4 = mega_session_rm_result [OF rm]
  from rm have "ok4 = fst (mega_session_rm ?w3 remote_path)" by simp
  also have "\<dots> = (\<not> fails ?w3 (Session_Rm remote_path) \<and>
      mega_session_stat ?w3 remote_path \<noteq> None)"
    by (rule mega_session_rm_ok)
  also have "\<dots> = (\<not> fails w (Session_Rm remote_path) \<and>
      mega_session_stat w remote_path \<noteq> None)"
    using f2 mega_session_stat_same [of ?w3 w remote_path] by simp
  finally have ok4: "ok4 = (\<not> fails w (Session_Rm remote_path) \<and>
      mega_session_stat w remote_path \<noteq> None)" .
  show ?thesis
  proof (cases ok4)
    case False
    with assms dec d rm have "ok = False"
      and "w' = count_error (tool_print ERR Cannot_Remove remote_path w4)"
      by (auto simp: up_sync_file_node_def)
    moreover from False ok4 have "fails w (Session_Rm remote_path) \<or>
        mega_session_stat w remote_path = None" by simp
    ultimately show ?thesis using f2 f4 False by simp
  next
    case True
    with assms dec d rm have put: "up_sync_file_put opts w4 file remote_path st = (ok, w')"
      by (auto simp: up_sync_file_node_def)
    from True ok4 have "\<not> fails w (Session_Rm remote_path) \<and>
        mega_session_stat w remote_path \<noteq> None" by simp
    with up_sync_file_put_result [OF assms(3) put] f2 f4 True show ?thesis by simp
  qed
qed


lemma up_sync_file_node_dryrun:
  assumes "opt_dryrun opts"
    and "up_sync_file_node opts w file remote_path st node = (ok, w')"
  shows "requests w' = requests w \<and> remote_fs w' = remote_fs w \<and> local_fs w' = local_fs w \<and>
     cache_saves w' = cache_saves w"
proof -
  obtain d w2 where dec: "decide_transfer opts node st file w = (d, w2)"
    by (cases "decide_transfer opts node st file w")
  note f2 = decide_transfer_frame [OF dec]
  from assms dec have "w' = count_error (tool_print ERR Target_Is_A_Directory remote_path w) \<or>
      w' = tool_print DEBUG Appears_Identical file w2 \<or>
      w' = tool_print INFO Transferring file (tool_print INFO Removing remote_path w2)"
    by (auto simp: up_sync_file_node_def up_sync_file_put_dryrun split: if_splits)
  with f2 show ?thesis by auto
qed

lemma up_sync_file_node_dryrun_overwrite:
  assumes "node_type node \<noteq> MEGA_NODE_FOLDER \<or> opt_force opts"
    and "opt_always opts \<or> node_size node \<noteq> st_size st \<or>
      st_mtime st \<noteq> node_timestamp_or_local node"
    and "opt_dryrun opts"
    and "up_sync_file_node opts w file remote_path st node = (ok, w')"
  shows "ok \<and> requests w' = requests w \<and> remote_fs w' = remote_fs w \<and>
     Msg INFO Removing remote_path \<in> set (printed w')"
proof -
  obtain d w2 where dec: "decide_transfer opts node st file w = (d, w2)"
    by (cases "decide_transfer opts node st file w")
  from dec have "d = fst (decide_transfer opts node st file w)" by simp
  with assms(2) have d: "d" by (simp add: decide_transfer_decision)
  note f2 = decide_transfer_frame [OF dec]
  from assms dec d have "ok"
    and "w' = tool_print INFO Transferring file (tool_print INFO Removing remote_path w2)"
    by (auto simp: up_sync_file_node_def up_sync_file_put_dryrun)
  with f2 show ?thesis by (simp add: tool_print_def)
qed

lemma up_sync_file_unfold:
  assumes "g_stat w file = Some st"
  shows "up_sync_file opts w root_file file remote_path =
     (let w1 = w\<lparr>files_processed := files_processed w + 1\<rparr> in
      if st_size st \<le> 0 then (True, tool_print DEBUG Ignoring_Empty_File file w1)
      else case mega_session_stat w remote_path of
             None \<Rightarrow> up_sync_file_put opts w1 file remote_path st
           | Some node \<Rightarrow> up_sync_file_node opts w1 file remote_path st node)"
proof -
  have "g_stat (w\<lparr>files_processed := files_processed w + 1\<rparr>) file = g_stat w file"
    by (rule g_stat_same) simp_all
  with assms have "g_stat (w\<lparr>files_processed := files_processed w + 1\<rparr>) file = Some st"
    by simp
  moreover have "mega_session_stat (w\<lparr>files_processed := files_processed w + 1\<rparr>) remote_path =
      mega_session_stat w remote_path"
    by (simp add: mega_session_stat_def)
  ultimately show ?thesis
    by (simp add: up_sync_file_def Let_def)
qed

text \<open>Removing the only node of its name at a path leaves nothing to look up there.\<close>

lemma find_node_None: "find_node n ts = None \<longleftrightarrow> filter (\<lambda>t. node_name (rnode t) = n) ts = []"
  by (induction ts) auto

lemma find_node_remove_first:
  "length (filter (\<lambda>t. node_name (rnode t) = n) ts) \<le> 1 \<Longrightarrow> find_node n (remove_first n ts) = None"
  by (induction ts) (auto simp: find_node_None)

lemma find_node_change_first:
  "(\<And>t. node_name (rnode (f t)) = node_name (rnode t)) \<Longrightarrow>
     find_node n (change_first n f ts) = map_option f (find_node n ts)"
  by (induction ts) auto

lemma rt_lookup_rt_remove:
  "unique_at ts p \<Longrightarrow> p \<noteq> [] \<Longrightarrow> rt_lookup (rt_remove p ts) p = None"
proof (induction p ts rule: rt_remove.induct)
  case (1 ts)
  then show ?case by simp
next
  case (2 n ts)
  then show ?case by (simp add: find_node_remove_first)
next
  case (3 n m p ts)
  show ?case
  proof (cases "find_node n ts")
    case None
    then show ?thesis by (simp add: find_node_change_first)
  next
    case (Some t)
    with "3.prems" have "unique_at (rchildren t) (m # p)" by simp
    from "3.IH" [OF this] Some show ?thesis
      by (simp add: find_node_change_first)
  qed
qed

text \<open>
  C1, as the code has it. With the option to always overwrite, a dry run transfers
  nothing: the identical file \<open>a\<close> of the example is neither removed nor uploaded.
\<close>

theorem always_overwrite_dry_run_counterexample:
  "requests (snd (up_sync_file (example_options\<lparr>opt_always := True, opt_dryrun := True\<rparr>)
       example_world [''d''] [''d'', ''a''] [''Root'', ''a''])) = [] \<and>
   remote_fs (snd (up_sync_file (example_options\<lparr>opt_always := True, opt_dryrun := True\<rparr>)
       example_world [''d''] [''d'', ''a''] [''Root'', ''a''])) = example_remote"
  by (simp add: up_sync_file_def up_sync_file_node_def up_sync_file_put_def decide_transfer_def
      g_stat_def mega_session_stat_def example_world_def example_options_def example_local_def
      example_remote_def example_node_a_def tool_print_def Let_def)


text \<open>
  C1, amended. A local file is synced whose remote counterpart has the same size and the
  same timestamp (the node's local-origin timestamp if positive, otherwise its upload
  timestamp). Without the option to always overwrite, nothing is requested of the session,
  the remote tree and the byte count stay as they are, and, the counterpart being no folder
  (or overwriting folders being forced), the call succeeds and counts no error. With the
  option, a file that is not empty and whose counterpart may be overwritten is treated as a
  differing one: in a dry run nothing is requested; otherwise the removal of the node is
  requested, and after a removal that succeeded the upload.
\<close>

theorem identical_file_skipped_unless_always:
  assumes "g_stat w file = Some st"
    and "mega_session_stat w remote_path = Some node"
    and "node_size node = st_size st"
    and "st_mtime st = (if node_local_ts node > 0 then node_local_ts node else node_timestamp node)"
    and "up_sync_file opts w root_file file remote_path = (ok, w')"
  shows "(\<not> opt_always opts \<longrightarrow>
        requests w' = requests w \<and> remote_fs w' = remote_fs w \<and>
        bytes_transferred w' = bytes_transferred w \<and>
        (node_type node \<noteq> MEGA_NODE_FOLDER \<or> opt_force opts \<longrightarrow>
           ok \<and> files_with_errors w' = files_with_errors w)) \<and>
     (opt_always opts \<and> 0 < st_size st \<and> (node_type node \<noteq> MEGA_NODE_FOLDER \<or> opt_force opts) \<longrightarrow>
        (opt_dryrun opts \<longrightarrow> requests w' = requests w \<and> remote_fs w' = remote_fs w) \<and>
        (\<not> opt_dryrun opts \<and> fails w (Session_Rm remote_path) \<longrightarrow>
           requests w' = requests w @ [(Session_Rm remote_path, False)] \<and> \<not> ok) \<and>
        (\<not> opt_dryrun opts \<and> \<not> fails w (Session_Rm remote_path) \<longrightarrow>
           requests w' =
             requests w @ [(Session_Rm remote_path, True), (Session_Put remote_path, ok)]))"
proof -
  let ?w1 = "w\<lparr>files_processed := files_processed w + 1\<rparr>"
  have ts: "st_mtime st = node_timestamp_or_local node"
    using assms(4) by (simp add: node_timestamp_or_local_def)
  have "mega_session_stat ?w1 remote_path = mega_session_stat w remote_path"
    by (simp add: mega_session_stat_def)
  with assms(2) have stat1: "mega_session_stat ?w1 remote_path \<noteq> None"
    by simp
  show ?thesis
  proof (cases "st_size st \<le> 0")
    case True
    with assms(1,5) have "ok" and "w' = tool_print DEBUG Ignoring_Empty_File file ?w1"
      by (simp_all add: up_sync_file_unfold)
    with True show ?thesis by simp
  next
    case False
    with assms(1,2,5) have node: "up_sync_file_node opts ?w1 file remote_path st node = (ok, w')"
      by (simp add: up_sync_file_unfold)
    have skip: "requests w' = requests w \<and> remote_fs w' = remote_fs w \<and>
        bytes_transferred w' = bytes_transferred w \<and>
        (node_type node \<noteq> MEGA_NODE_FOLDER \<or> opt_force opts \<longrightarrow>
           ok \<and> files_with_errors w' = files_with_errors w)"
      if "\<not> opt_always opts"
      using up_sync_file_node_skip [OF that assms(3) ts node] by simp
    have dry: "requests w' = requests w \<and> remote_fs w' = remote_fs w" if "opt_dryrun opts"
      using up_sync_file_node_dryrun [OF that node] by simp
    have wet: "(fails w (Session_Rm remote_path) \<longrightarrow>
           requests w' = requests w @ [(Session_Rm remote_path, False)] \<and> \<not> ok) \<and>
        (\<not> fails w (Session_Rm remote_path) \<longrightarrow>
           requests w' =
             requests w @ [(Session_Rm remote_path, True), (Session_Put remote_path, ok)])"
      if "opt_always opts" and "node_type node \<noteq> MEGA_NODE_FOLDER \<or> opt_force opts"
        and "\<not> opt_dryrun opts"
      using up_sync_file_node_overwrite [OF that(2) _ that(3) node] that(1) stat1 by simp
    from skip dry wet show ?thesis by blast
  qed
qed

lemma example_stat_a:
  "g_stat example_world [''d'', ''a''] = Some \<lparr>st_size = 10, st_mtime = 100\<rparr>"
  by (simp add: g_stat_def example_world_def example_local_def)

lemma example_node_at_a: "mega_session_stat example_world [''Root'', ''a''] = Some example_node_a"
  by (simp add: mega_session_stat_def example_world_def example_remote_def example_node_a_def)

theorem identical_file_skipped_unless_always_witness:
  "fst (up_sync_file example_options example_world [''d''] [''d'', ''a''] [''Root'', ''a'']) \<and>
   requests (snd (up_sync_file example_options example_world [''d''] [''d'', ''a'']
      [''Root'', ''a''])) = [] \<and>
   remote_fs (snd (up_sync_file example_options example_world [''d''] [''d'', ''a'']
      [''Root'', ''a''])) = example_remote"
  using identical_file_skipped_unless_always [OF example_stat_a example_node_at_a _ _ prod.collapse [symmetric],
      of example_options "[''d'']"]
  by (simp add: example_node_a_def example_options_def example_world_def)

text \<open>
  An empty file in the newer copy (what C2 says holds there). A local file whose size is 0
  or less is passed over: the call returns true, its
  only effects are the count of processed files and one debug line; nothing is requested
  of the session, the remote tree and the byte count stay as they are, and the count of
  files with errors is not touched.
\<close>

theorem empty_file_is_noop:
  assumes "g_stat w file = Some st" and "st_size st \<le> 0"
  shows "up_sync_file opts w root_file file remote_path =
      (True, tool_print DEBUG Ignoring_Empty_File file
               (w\<lparr>files_processed := files_processed w + 1\<rparr>)) \<and>
    requests (snd (up_sync_file opts w root_file file remote_path)) = requests w \<and>
    remote_fs (snd (up_sync_file opts w root_file file remote_path)) = remote_fs w \<and>
    bytes_transferred (snd (up_sync_file opts w root_file file remote_path)) =
      bytes_transferred w \<and>
    files_with_errors (snd (up_sync_file opts w root_file file remote_path)) =
      files_with_errors w"
  using assms by (simp add: up_sync_file_unfold)

text \<open>
  C9, as the code has it. In a dry run the upload of a file whose remote counterpart
  differs in size decides to overwrite and prints the line of the removal, but requests
  nothing: the remote node is still there afterwards.
\<close>

theorem dry_run_overwrite_keeps_node_counterexample:
  "(let r = up_sync_file (example_options\<lparr>opt_dryrun := True\<rparr>) example_changed_world
              [''d''] [''d'', ''a''] [''Root'', ''a'']
    in fst r \<and> Msg INFO Removing [''Root'', ''a''] \<in> set (printed (snd r)) \<and>
       requests (snd r) = [] \<and>
       mega_session_stat (snd r) [''Root'', ''a''] = Some (example_node_a\<lparr>node_size := 11\<rparr>)) \<and>
   g_stat example_changed_world [''d'', ''a''] = Some \<lparr>st_size = 10, st_mtime = 100\<rparr>"
  by code_simp

text \<open>
  C9, amended. An upload decides to overwrite an existing remote node (one that is no
  folder, or with overwriting forced). Outside a dry run it first requests the removal of
  the node. When the removal fails, no upload is requested and the tree is as before. When
  it succeeds, the upload is requested next, and if the upload fails, the remote tree is
  the old one without the node: nothing is found at the path, the node having been the only
  one of its name there. In a dry run the line of the removal is printed, nothing is
  requested, the remote tree stays as it is and the call returns true.
\<close>

theorem overwrite_removes_before_upload:
  assumes "g_stat w file = Some st" and "0 < st_size st"
    and "mega_session_stat w remote_path = Some node"
    and "node_type node \<noteq> MEGA_NODE_FOLDER \<or> opt_force opts"
    and "opt_always opts \<or> node_size node \<noteq> st_size st \<or>
      st_mtime st \<noteq> (if node_local_ts node > 0 then node_local_ts node else node_timestamp node)"
    and "up_sync_file opts w root_file file remote_path = (ok, w')"
  shows "(\<not> opt_dryrun opts \<longrightarrow>
       (fails w (Session_Rm remote_path) \<longrightarrow>
          requests w' = requests w @ [(Session_Rm remote_path, False)] \<and> \<not> ok \<and>
          remote_fs w' = remote_fs w) \<and>
       (\<not> fails w (Session_Rm remote_path) \<longrightarrow>
          requests w' =
            requests w @ [(Session_Rm remote_path, True), (Session_Put remote_path, ok)] \<and>
          (\<not> ok \<longrightarrow>
             remote_fs w' = rt_remove remote_path (remote_fs w) \<and>
             (unique_at (remote_fs w) remote_path \<longrightarrow>
                mega_session_stat w' remote_path = None)))) \<and>
     (opt_dryrun opts \<longrightarrow>
        ok \<and> Msg INFO Removing remote_path \<in> set (printed w') \<and>
        requests w' = requests w \<and> remote_fs w' = remote_fs w)"
proof -
  let ?w1 = "w\<lparr>files_processed := files_processed w + 1\<rparr>"
  have dec: "opt_always opts \<or> node_size node \<noteq> st_size st \<or>
      st_mtime st \<noteq> node_timestamp_or_local node"
    using assms(5) by (simp add: node_timestamp_or_local_def)
  have "mega_session_stat ?w1 remote_path = mega_session_stat w remote_path"
    by (simp add: mega_session_stat_def)
  with assms(3) have stat1: "mega_session_stat ?w1 remote_path \<noteq> None"
    by simp
  from assms(1,2,3,6) have node: "up_sync_file_node opts ?w1 file remote_path st node = (ok, w')"
    by (simp add: up_sync_file_unfold)
  have path: "remote_path \<noteq> []"
    using assms(3) by (auto simp: mega_session_stat_def)
  have gone: "mega_session_stat w' remote_path = None"
    if "remote_fs w' = rt_remove remote_path (remote_fs w)"
      and "unique_at (remote_fs w) remote_path"
    using that rt_lookup_rt_remove [OF that(2) path] by (simp add: mega_session_stat_def)
  show ?thesis
  proof (cases "opt_dryrun opts")
    case False
    from up_sync_file_node_overwrite [OF assms(4) dec False node] stat1 gone False
    show ?thesis by auto
  next
    case True
    from up_sync_file_node_dryrun_overwrite [OF assms(4) dec True node] True
    show ?thesis by simp
  qed
qed

lemma example_stat_b:
  "g_stat example_world [''d'', ''b''] = Some \<lparr>st_size = 20, st_mtime = 200\<rparr>"
  by (simp add: g_stat_def example_world_def example_local_def)


theorem empty_file_is_noop_witness:
  "up_sync_file example_options
     (example_world\<lparr>local_fs :=
        Directory \<lparr>st_size = 0, st_mtime = 0\<rparr> [(''e'', Regular \<lparr>st_size = 0, st_mtime = 5\<rparr> [])]\<rparr>)
     [] [''e''] [''Root'', ''e''] =
   (True,
    tool_print DEBUG Ignoring_Empty_File [''e'']
      (example_world\<lparr>local_fs :=
         Directory \<lparr>st_size = 0, st_mtime = 0\<rparr> [(''e'', Regular \<lparr>st_size = 0, st_mtime = 5\<rparr> [])],
         files_processed := 1\<rparr>))"
proof -
  have "g_stat
     (example_world\<lparr>local_fs :=
        Directory \<lparr>st_size = 0, st_mtime = 0\<rparr> [(''e'', Regular \<lparr>st_size = 0, st_mtime = 5\<rparr> [])]\<rparr>)
     [''e''] = Some \<lparr>st_size = 0, st_mtime = 5\<rparr>"
    by (simp add: g_stat_def example_world_def)
  from empty_file_is_noop [OF this, of example_options "[]" "[''Root'', ''e'']"]
  show ?thesis by (simp add: example_world_def)
qed

theorem overwrite_removes_before_upload_witness:
  "\<not> fst (up_sync_file (example_options\<lparr>opt_always := True\<rparr>)
       (example_world\<lparr>fails := (\<lambda>c. c = Session_Put [''Root'', ''a''])\<rparr>)
       [''d''] [''d'', ''a''] [''Root'', ''a'']) \<and>
   requests (snd (up_sync_file (example_options\<lparr>opt_always := True\<rparr>)
       (example_world\<lparr>fails := (\<lambda>c. c = Session_Put [''Root'', ''a''])\<rparr>)
       [''d''] [''d'', ''a''] [''Root'', ''a''])) =
     [(Session_Rm [''Root'', ''a''], True), (Session_Put [''Root'', ''a''], False)] \<and>
   mega_session_stat (snd (up_sync_file (example_options\<lparr>opt_always := True\<rparr>)
       (example_world\<lparr>fails := (\<lambda>c. c = Session_Put [''Root'', ''a''])\<rparr>)
       [''d''] [''d'', ''a''] [''Root'', ''a''])) [''Root'', ''a''] = None"
proof -
  let ?w = "example_world\<lparr>fails := (\<lambda>c. c = Session_Put [''Root'', ''a''])\<rparr>"
  let ?opts = "example_options\<lparr>opt_always := True\<rparr>"
  let ?r = "up_sync_file ?opts ?w [''d''] [''d'', ''a''] [''Root'', ''a'']"
  have st: "g_stat ?w [''d'', ''a''] = Some \<lparr>st_size = 10, st_mtime = 100\<rparr>"
    by (simp add: g_stat_def example_world_def example_local_def)
  have node: "mega_session_stat ?w [''Root'', ''a''] = Some example_node_a"
    by (simp add: mega_session_stat_def example_world_def example_remote_def example_node_a_def)
  have put: "\<not> fst ?r"
    by (simp add: up_sync_file_def g_stat_def up_sync_file_node_def up_sync_file_put_def
        decide_transfer_def mega_session_rm_def mega_session_put_compat_def request_def
        mega_session_stat_def parent_is_container_def mega_node_is_container_def
        example_world_def example_options_def example_remote_def example_node_a_def
        example_local_def tool_print_def Let_def)
  have u: "unique_at (remote_fs ?w) [''Root'', ''a'']"
    by (simp add: example_world_def example_remote_def example_node_a_def)
  from overwrite_removes_before_upload [OF st _ node _ _ prod.collapse [symmetric],
      of ?opts "[''d'']"] put u
  show ?thesis
    by (simp add: example_node_a_def example_options_def example_world_def)
qed

text \<open>The older copy of \<^verbatim>\<open>up_sync_file\<close> at the same three points.\<close>

lemma older_up_sync_file_empty:
  assumes "g_stat w file = Some st" and "st_size st \<le> 0"
  shows "older_up_sync_file quiet debug opts w root_file file remote_path =
     (False, print_if debug DEBUG Ignoring_Empty_File file w)"
  using assms by (simp add: older_up_sync_file_def)

lemma older_up_sync_file_identical:
  assumes "g_stat w file = Some st" and "0 < st_size st"
    and "mega_session_stat w remote_path = Some node"
    and "node_type node \<noteq> MEGA_NODE_FOLDER \<or> opt_force opts"
    and "node_size node = st_size st" and "st_mtime st = node_timestamp_or_local node"
  shows "older_up_sync_file quiet debug opts w root_file file remote_path =
     (False, print_if debug DEBUG Appears_Identical remote_path w)"
  using assms
  by (auto simp: older_up_sync_file_def older_up_sync_file_node_def older_decide_transfer_def)

lemma older_up_sync_file_overwrite:
  assumes "g_stat w file = Some st" and "0 < st_size st"
    and "mega_session_stat w remote_path = Some node"
    and "node_type node \<noteq> MEGA_NODE_FOLDER \<or> opt_force opts"
    and "node_size node \<noteq> st_size st \<or> st_mtime st \<noteq> node_timestamp_or_local node"
    and "\<not> opt_dryrun opts"
    and "older_up_sync_file quiet debug opts w root_file file remote_path = (ok, w')"
  shows "(fails w (Session_Rm remote_path) \<longrightarrow>
        requests w' = requests w @ [(Session_Rm remote_path, False)] \<and> \<not> ok \<and>
        remote_fs w' = remote_fs w) \<and>
     (\<not> fails w (Session_Rm remote_path) \<longrightarrow>
        requests w' =
          requests w @ [(Session_Rm remote_path, True), (Session_Put remote_path, ok)] \<and>
        (\<not> ok \<longrightarrow> remote_fs w' = rt_remove remote_path (remote_fs w)))"
proof -
  obtain d w2 where dec: "older_decide_transfer debug node st remote_path w = (d, w2)"
    by (cases "older_decide_transfer debug node st remote_path w")
  with assms(5) have d: "d" and f2: "remote_fs w2 = remote_fs w" "requests w2 = requests w"
      "fails w2 = fails w"
    by (auto simp: older_decide_transfer_def split: if_splits)
  let ?w3 = "print_if (\<not> quiet) INFO Removing remote_path w2"
  obtain ok4 w4 where rm: "mega_session_rm ?w3 remote_path = (ok4, w4)"
    by (cases "mega_session_rm ?w3 remote_path")
  note f4 = mega_session_rm_result [OF rm]
  from rm have "ok4 = fst (mega_session_rm ?w3 remote_path)" by simp
  also have "\<dots> = (\<not> fails ?w3 (Session_Rm remote_path) \<and>
      mega_session_stat ?w3 remote_path \<noteq> None)"
    by (rule mega_session_rm_ok)
  also have "\<dots> = (\<not> fails w (Session_Rm remote_path))"
    using f2 assms(3) mega_session_stat_same [of ?w3 w remote_path] by simp
  finally have ok4: "ok4 = (\<not> fails w (Session_Rm remote_path))" .
  from assms dec d rm have r: "(ok, w') =
      (if \<not> ok4 then (False, tool_print ERR Cannot_Remove remote_path w4)
       else older_up_sync_file_put quiet opts w4 file remote_path)"
    by (auto simp: older_up_sync_file_def older_up_sync_file_node_def)
  show ?thesis
  proof (cases ok4)
    case False
    with r f2 f4 ok4 show ?thesis by simp
  next
    case True
    let ?w5 = "(print_if (\<not> quiet) INFO Transferring remote_path w4)\<lparr>cur_file := Some (basename file)\<rparr>"
    obtain ok6 w6 where put: "mega_session_put_compat ?w5 remote_path file = (ok6, w6)"
      by (cases "mega_session_put_compat ?w5 remote_path file")
    from r True assms(6) put have "ok = ok6"
      and "w' = (if \<not> ok6 then tool_print ERR Upload_Failed remote_path (clear_line opts w6)
                 else clear_line opts w6)"
      by (auto simp: older_up_sync_file_put_def Let_def split: if_splits)
    with mega_session_put_compat_result [OF put] f2 f4 True ok4 show ?thesis
      by (cases ok6) simp_all
  qed
qed

text \<open>
  C2. The older copy returns false for an empty file, and so do its \<^verbatim>\<open>up_sync_dir\<close> and
  its main program: the upload of a directory that holds one empty file, to an empty
  remote folder, requests nothing and ends with exit status 1. The newer copy ends the
  same run with exit status 0 and no file with an error.
\<close>

theorem older_empty_file_exit_status:
  "fst (older_up_sync_file False False example_options example_empty_file_world
          [''d''] [''d'', ''e''] [''Root'', ''e'']) = False \<and>
   (let r = older_sync_main example_session False False example_options example_empty_file_world
    in fst r = 1 \<and> requests (snd r) = [] \<and>
       remote_fs (snd r) = remote_fs example_empty_file_world) \<and>
   (let r = sync_main example_session example_options example_empty_file_world 0 5
    in fst r = 0 \<and> requests (snd r) = [] \<and> files_with_errors (snd r) = 0)"
  by code_simp


section \<open>Properties of sync: downloading one file\<close>

text \<open>An entry stored at a path whose directory exists is found there.\<close>

lemma map_of_replace:
  "n \<in> fst ` set cs \<Longrightarrow> map_of (map (\<lambda>c. if fst c = n then (n, e) else c) cs) n = Some e"
  by (induction cs) auto

lemma map_of_descend:
  "map_of (map (\<lambda>c. if fst c = n then (n, g (snd c)) else c) cs) n = map_option g (map_of cs n)"
  by (induction cs) auto

lemma map_of_set_entry: "map_of (set_entry n (Some e) cs) n = Some e"
  by (auto simp: set_entry_def map_of_replace map_add_Some_iff map_of_eq_None_iff)

lemma fs_lookup_fs_update:
  "p = [] \<or> (\<exists>st cs. fs_lookup fs (butlast p) = Some (Directory st cs)) \<Longrightarrow>
     fs_lookup (fs_update p (Some e) fs) p = Some e"
proof (induction p "Some e" fs rule: fs_update.induct)
  case (1 e')
  then show ?case by simp
next
  case (2 n st cs)
  then show ?case by (simp add: map_of_set_entry)
next
  case (3 n m p st cs)
  from "3.prems" obtain c where c: "map_of cs n = Some c"
    and dir: "\<exists>st cs. fs_lookup c (butlast (m # p)) = Some (Directory st cs)"
    by (auto split: option.splits)
  from c have "(n, c) \<in> set cs" by (rule map_of_SomeD)
  from "3.hyps" [OF this] dir have "fs_lookup (fs_update (m # p) (Some e) c) (m # p) = Some e"
    by simp
  with c show ?case by (simp add: map_of_descend)
qed (auto split: if_splits)

lemma fs_lookup_parent:
  "fs_lookup fs p = Some e \<Longrightarrow> p \<noteq> [] \<Longrightarrow>
     \<exists>st cs. fs_lookup fs (butlast p) = Some (Directory st cs)"
proof (induction fs p rule: fs_lookup.induct)
  case (1 e)
  then show ?case by simp
next
  case (2 st cs n p)
  then show ?case by (cases p) (auto split: option.splits)
qed simp_all

lemma fs_lookup_fs_update_existing:
  "fs_lookup fs p = Some e0 \<Longrightarrow> fs_lookup (fs_update p (Some e) fs) p = Some e"
  using fs_lookup_parent [of fs p e0] fs_lookup_fs_update [of p fs e] by blast


lemma same_surroundings_refl [simp]: "same_surroundings w w"
  by (simp add: same_surroundings_def)

lemma same_surroundings_trans:
  "same_surroundings w w1 \<Longrightarrow> same_surroundings w1 w2 \<Longrightarrow> same_surroundings w w2"
  by (simp add: same_surroundings_def)

lemma same_surroundings_print [simp]:
  "same_surroundings w (tool_print l t p w') = same_surroundings w w'"
  "same_surroundings w (count_error w') = same_surroundings w w'"
  by (simp_all add: same_surroundings_def tool_print_def count_error_def)

lemma same_surroundings_clear_line [simp]:
  "same_surroundings w (clear_line opts w') = same_surroundings w w'"
  by (simp add: same_surroundings_def clear_line_def)

lemma is_delete_Delete [simp]: "is_delete (Delete p, b)"
  by (simp add: is_delete_def)

lemma is_setxattr_Setxattr [simp]: "is_setxattr (Setxattr p n, b)"
  by (simp add: is_setxattr_def)

lemma g_file_delete_result:
  "g_file_delete w p = (ok, w') \<Longrightarrow>
     requests w' = requests w @ [(Delete p, ok)] \<and> same_surroundings w w' \<and>
     remote_fs w' = remote_fs w \<and> (\<not> ok \<longrightarrow> local_fs w' = local_fs w) \<and>
     files_with_errors w' = files_with_errors w \<and> bytes_transferred w' = bytes_transferred w \<and>
     files_processed w' = files_processed w \<and> folders_processed w' = folders_processed w \<and>
     elements_deleted w' = elements_deleted w"
  by (auto simp: g_file_delete_def request_def same_surroundings_def Let_def)

text \<open>\<^verbatim>\<open>delete_recursively\<close> requests deletions only.\<close>

lemma delete_recursively_entry_loop_requests:
  "delete_recursively_entry w file ent = (ok, w') \<Longrightarrow>
     (\<exists>ds. requests w' = requests w @ ds \<and> list_all is_delete ds) \<and> same_surroundings w w' \<and>
     remote_fs w' = remote_fs w \<and> files_with_errors w' = files_with_errors w \<and>
     bytes_transferred w' = bytes_transferred w \<and> files_processed w' = files_processed w \<and>
     folders_processed w' = folders_processed w \<and> elements_deleted w' = elements_deleted w"
  "delete_recursively_loop w file cs = (ok, w') \<Longrightarrow>
     (\<exists>ds. requests w' = requests w @ ds \<and> list_all is_delete ds) \<and> same_surroundings w w' \<and>
     remote_fs w' = remote_fs w \<and> files_with_errors w' = files_with_errors w \<and>
     bytes_transferred w' = bytes_transferred w \<and> files_processed w' = files_processed w \<and>
     folders_processed w' = folders_processed w \<and> elements_deleted w' = elements_deleted w"
proof (induction w "file" ent and w "file" cs arbitrary: ok w' and ok w'
    rule: delete_recursively_entry_delete_recursively_loop.induct)
  case (1 w fl st cs)
  show ?case
  proof (cases "fails w (Enumerate fl)")
    case True
    with "1.prems" show ?thesis by simp
  next
    case False
    obtain ok1 w1 where loop: "delete_recursively_loop w fl cs = (ok1, w1)"
      by (cases "delete_recursively_loop w fl cs")
    note ih = "1.IH" [OF False loop]
    show ?thesis
    proof (cases ok1)
      case False
      with "1.prems" \<open>\<not> fails w (Enumerate fl)\<close> loop ih show ?thesis by simp
    next
      case True
      with "1.prems" \<open>\<not> fails w (Enumerate fl)\<close> loop
      have del: "g_file_delete (tool_print DEBUG Deleting fl w1) fl = (ok, w')" by simp
      from g_file_delete_result [OF del] ih show ?thesis
        by (auto simp: same_surroundings_def)
    qed
  qed
next
  case (3 w fl)
  then show ?case by simp
next
  case (4 w fl file_name c cs)
  let ?child = "fl @ [file_name]"
  let ?r = "if file_type_of c = G_FILE_TYPE_DIRECTORY then delete_recursively_entry w ?child c
            else g_file_delete (tool_print DEBUG Deleting ?child w) ?child"
  obtain ok1 w1 where r: "?r = (ok1, w1)" by (cases ?r)
  have first: "(\<exists>ds. requests w1 = requests w @ ds \<and> list_all is_delete ds) \<and>
     same_surroundings w w1 \<and>
     remote_fs w1 = remote_fs w \<and> files_with_errors w1 = files_with_errors w \<and>
     bytes_transferred w1 = bytes_transferred w \<and> files_processed w1 = files_processed w \<and>
     folders_processed w1 = folders_processed w \<and> elements_deleted w1 = elements_deleted w"
  proof (cases "file_type_of c = G_FILE_TYPE_DIRECTORY")
    case True
    with r have "delete_recursively_entry w ?child c = (ok1, w1)" by simp
    from "4.IH"(1) [OF refl True this] show ?thesis .
  next
    case False
    with r have "g_file_delete (tool_print DEBUG Deleting ?child w) ?child = (ok1, w1)" by simp
    from g_file_delete_result [OF this] show ?thesis
      by (auto simp: same_surroundings_def)
  qed
  show ?case
  proof (cases ok1)
    case False
    with "4.prems" r first show ?thesis by (simp add: Let_def)
  next
    case True
    with "4.prems" r have rest: "delete_recursively_loop w1 fl cs = (ok, w')"
      by (simp add: Let_def)
    have "\<not> \<not> fst ?r" using r True by simp
    from "4.IH"(2) [OF refl refl this] rest r
    have "(\<exists>ds. requests w' = requests w1 @ ds \<and> list_all is_delete ds) \<and>
      same_surroundings w1 w' \<and>
      remote_fs w' = remote_fs w1 \<and> files_with_errors w' = files_with_errors w1 \<and>
      bytes_transferred w' = bytes_transferred w1 \<and> files_processed w' = files_processed w1 \<and>
      folders_processed w' = folders_processed w1 \<and> elements_deleted w' = elements_deleted w1"
      by simp
    with first show ?thesis
      by (auto simp: same_surroundings_def)
  qed
qed simp_all

lemma delete_recursively_requests:
  "delete_recursively w p = (ok, w') \<Longrightarrow>
     (\<exists>ds. requests w' = requests w @ ds \<and> list_all is_delete ds) \<and> same_surroundings w w' \<and>
     remote_fs w' = remote_fs w \<and> files_with_errors w' = files_with_errors w \<and>
     bytes_transferred w' = bytes_transferred w \<and> files_processed w' = files_processed w \<and>
     folders_processed w' = folders_processed w \<and> elements_deleted w' = elements_deleted w"
  by (auto simp: delete_recursively_def split: option.splits
      dest: delete_recursively_entry_loop_requests(1))

lemma mega_session_get_compat_result:
  assumes "mega_session_get_compat w lp rp = (ok, w')"
  shows "requests w' = requests w @ [(Session_Get rp, ok)] \<and> same_surroundings w w' \<and>
     remote_fs w' = remote_fs w \<and> (\<not> ok \<longrightarrow> local_fs w' = local_fs w) \<and>
     (ok \<longrightarrow> mtime_at (local_fs w') lp = Some (clock w)) \<and>
     files_with_errors w' = files_with_errors w \<and> bytes_transferred w' = bytes_transferred w \<and>
     files_processed w' = files_processed w \<and> folders_processed w' = folders_processed w \<and>
     elements_deleted w' = elements_deleted w"
proof (cases "fails w (Session_Get rp) \<or> \<not> parent_is_directory w lp")
  case True
  with assms show ?thesis
    by (auto simp: mega_session_get_compat_def request_def same_surroundings_def)
next
  case False
  then have "lp = [] \<or> (\<exists>st cs. fs_lookup (local_fs w) (butlast lp) = Some (Directory st cs))"
    by (auto simp: parent_is_directory_def split: option.splits lfile.splits)
  then have "\<And>e. mtime_at (fs_update lp (Some e) (local_fs w)) lp = Some (st_mtime (stat_of e))"
    by (simp add: mtime_at_def fs_lookup_fs_update)
  with assms False show ?thesis
    by (auto simp: mega_session_get_compat_def request_def same_surroundings_def
        split: option.splits if_splits)
qed

lemma stat_of_set_mtime: "st_mtime (stat_of (set_mtime t e)) = t"
  by (cases e) simp_all

lemma utime_result:
  assumes "utime w p t = (ok, w')"
  shows "requests w' = requests w @ [(Utime p t, ok)] \<and> same_surroundings w w' \<and>
     remote_fs w' = remote_fs w \<and> (\<not> ok \<longrightarrow> local_fs w' = local_fs w) \<and>
     (ok \<longrightarrow> mtime_at (local_fs w') p = Some t) \<and>
     files_with_errors w' = files_with_errors w \<and> bytes_transferred w' = bytes_transferred w \<and>
     files_processed w' = files_processed w \<and> folders_processed w' = folders_processed w \<and>
     elements_deleted w' = elements_deleted w"
  using assms
  by (auto simp: utime_def request_def same_surroundings_def mtime_at_def
      fs_lookup_fs_update_existing stat_of_set_mtime split: option.splits if_splits)

lemma setxattr_result:
  assumes "setxattr w p n v = (r, w')"
  shows "requests w' = requests w @ [(Setxattr p n, r = Xattr_Set)] \<and> same_surroundings w w' \<and>
     remote_fs w' = remote_fs w \<and> mtime_at (local_fs w') p = mtime_at (local_fs w) p \<and>
     (r \<noteq> Xattr_Set \<longrightarrow> local_fs w' = local_fs w) \<and>
     files_with_errors w' = files_with_errors w \<and> bytes_transferred w' = bytes_transferred w \<and>
     files_processed w' = files_processed w \<and> folders_processed w' = folders_processed w \<and>
     elements_deleted w' = elements_deleted w"
  using assms
  by (auto simp: setxattr_def request_def same_surroundings_def mtime_at_def
      fs_lookup_fs_update_existing split: option.splits if_splits lfile.splits)

lemma set_xattrs_result:
  "set_xattrs w p f_elems = (ok, w') \<Longrightarrow>
     (\<exists>xs. requests w' = requests w @ xs \<and> list_all is_setxattr xs) \<and> same_surroundings w w' \<and>
     remote_fs w' = remote_fs w \<and> mtime_at (local_fs w') p = mtime_at (local_fs w) p \<and>
     files_with_errors w' = files_with_errors w \<and> bytes_transferred w' = bytes_transferred w \<and>
     files_processed w' = files_processed w \<and> folders_processed w' = folders_processed w \<and>
     elements_deleted w' = elements_deleted w"
proof (induction w p f_elems arbitrary: ok w' rule: set_xattrs.induct)
  case (1 w p)
  then show ?case by simp
next
  case (2 w p f_elems)
  then show ?case by simp
next
  case (3 w p v f_elems)
  then show ?case by simp
next
  case (4 w p xattr_name v f_elems)
  show ?case
  proof (cases "xattr_name = []")
    case True
    with "4.prems" "4.IH"(1) show ?thesis by simp
  next
    case False
    obtain r w1 where sx: "setxattr w p xattr_name v = (r, w1)"
      by (cases "setxattr w p xattr_name v")
    note f1 = setxattr_result [OF sx]
    show ?thesis
    proof (cases "r = Xattr_Error")
      case True
      with "4.prems" False sx have "w' = tool_print ERR Failed_To_Set_Xattrs p w1" by simp
      with f1 show ?thesis by simp
    next
      case r: False
      with "4.prems" False sx have rest: "set_xattrs w1 p f_elems = (ok, w')"
        by (cases r) simp_all
      from r consider "r = Xattr_Set" | "r = Xattr_ENOTSUP" by (cases r) simp_all
      then have "(\<exists>xs. requests w' = requests w1 @ xs \<and> list_all is_setxattr xs) \<and>
        same_surroundings w1 w' \<and>
        remote_fs w' = remote_fs w1 \<and> mtime_at (local_fs w') p = mtime_at (local_fs w1) p \<and>
        files_with_errors w' = files_with_errors w1 \<and>
        bytes_transferred w' = bytes_transferred w1 \<and>
        files_processed w' = files_processed w1 \<and> folders_processed w' = folders_processed w1 \<and>
        elements_deleted w' = elements_deleted w1"
      proof cases
        case 1
        from "4.IH"(2) [OF False sx [symmetric] 1 rest] show ?thesis .
      next
        case 2
        from "4.IH"(3) [OF False sx [symmetric] 2 rest] show ?thesis .
      qed
      with f1 show ?thesis
        by (auto simp: same_surroundings_def)
    qed
  qed
qed


lemma is_setxattrD: "is_setxattr (c, b) \<Longrightarrow> \<exists>p n. c = Setxattr p n"
  by (cases c) (simp_all add: is_setxattr_def)

lemma is_deleteD: "is_delete (c, b) \<Longrightarrow> \<exists>p. c = Delete p"
  by (cases c) (simp_all add: is_delete_def)

lemma dl_sync_file_get_dryrun:
  "opt_dryrun opts \<Longrightarrow>
     dl_sync_file_get opts w node f remote_path t =
       (True, tool_print INFO Transferring remote_path w)"
  by (simp add: dl_sync_file_get_def)

lemma dl_sync_file_times_result:
  "dl_sync_file_times w f t = w' \<Longrightarrow>
     same_surroundings w w' \<and> remote_fs w' = remote_fs w \<and>
     files_with_errors w' = files_with_errors w \<and> bytes_transferred w' = bytes_transferred w \<and>
     files_processed w' = files_processed w \<and> folders_processed w' = folders_processed w \<and>
     elements_deleted w' = elements_deleted w \<and>
     (0 < t \<longrightarrow> (\<exists>r. requests w' = requests w @ [(Utime f t, r)] \<and>
        (r \<longrightarrow> mtime_at (local_fs w') f = Some t))) \<and>
     (\<not> 0 < t \<longrightarrow> w' = w)"
proof (cases "0 < t")
  case False
  then show "dl_sync_file_times w f t = w' \<Longrightarrow> ?thesis"
    by (auto simp: dl_sync_file_times_def)
next
  case True
  obtain r w1 where ut: "utime w f t = (r, w1)" by (cases "utime w f t")
  assume "dl_sync_file_times w f t = w'"
  with True ut have "w' = (if \<not> r then tool_print WARN Failed_To_Set_File_Times f w1 else w1)"
    by (simp add: dl_sync_file_times_def)
  with utime_result [OF ut] True show ?thesis
    by (cases r) auto
qed

lemma dl_sync_file_xattrs_result:
  "dl_sync_file_xattrs opts w node f = (ok, w') \<Longrightarrow>
     (\<exists>xs. requests w' = requests w @ xs \<and> list_all is_setxattr xs) \<and> same_surroundings w w' \<and>
     remote_fs w' = remote_fs w \<and> mtime_at (local_fs w') f = mtime_at (local_fs w) f \<and>
     files_with_errors w' = files_with_errors w \<and> bytes_transferred w' = bytes_transferred w \<and>
     files_processed w' = files_processed w \<and> folders_processed w' = folders_processed w \<and>
     elements_deleted w' = elements_deleted w"
proof -
  assume a: "dl_sync_file_xattrs opts w node f = (ok, w')"
  show ?thesis
  proof (cases "node_xattrs node")
    case None
    with a show ?thesis by (auto simp: dl_sync_file_xattrs_def)
  next
    case (Some x)
    show ?thesis
    proof (cases x)
      case Xattrs_No_Array
      with a Some show ?thesis by (auto simp: dl_sync_file_xattrs_def)
    next
      case (Xattrs_Array f_elems)
      obtain d w1 where sx: "set_xattrs w f f_elems = (d, w1)"
        by (cases "set_xattrs w f f_elems")
      with a Some Xattrs_Array have "w' = (if \<not> d then w1 else clear_line opts w1)"
        by (auto simp: dl_sync_file_xattrs_def split: if_splits)
      with set_xattrs_result [OF sx] show ?thesis
        by (cases d) simp_all
    qed
  qed
qed

text \<open>What a successful download leaves of the file times.\<close>

lemma dl_sync_file_get_result:
  assumes "\<not> opt_dryrun opts" and "dl_sync_file_get opts w node f remote_path t = (ok, w')"
  shows "\<exists>got post. requests w' = requests w @ (Session_Get remote_path, got) # post \<and>
     (\<forall>b. (Session_Get remote_path, b) \<notin> set post) \<and>
     (got \<longrightarrow>
        (0 < t \<longrightarrow> (\<exists>r. (Utime f t, r) \<in> set post \<and>
           (r \<longrightarrow> mtime_at (local_fs w') f = Some t))) \<and>
        (\<not> 0 < t \<longrightarrow> (\<forall>t' r. (Utime f t', r) \<notin> set post) \<and>
           mtime_at (local_fs w') f = Some (clock w)))"
proof -
  let ?w0 = "(tool_print INFO Transferring remote_path w)\<lparr>cur_file := Some (basename f)\<rparr>"
  obtain got w1 where get: "mega_session_get_compat ?w0 f remote_path = (got, w1)"
    by (cases "mega_session_get_compat ?w0 f remote_path")
  note g = mega_session_get_compat_result [OF get]
  show ?thesis
  proof (cases got)
    case False
    with assms get
    have "w' = count_error (tool_print ERR Download_Failed remote_path (clear_line opts w1))"
      by (auto simp: dl_sync_file_get_def Let_def)
    with g False have "requests w' = requests w @ (Session_Get remote_path, False) # []"
      by simp
    with False show ?thesis by fastforce
  next
    case True
    let ?w2 = "w1\<lparr>bytes_transferred := bytes_transferred w1 + node_size node\<rparr>"
    let ?w3 = "dl_sync_file_times ?w2 f t"
    from assms get True have x: "dl_sync_file_xattrs opts ?w3 node f = (ok, w')"
      by (auto simp: dl_sync_file_get_def Let_def)
    from dl_sync_file_xattrs_result [OF x] obtain xs
      where xs: "requests w' = requests ?w3 @ xs" "list_all is_setxattr xs"
        and m3: "mtime_at (local_fs w') f = mtime_at (local_fs ?w3) f"
      by blast
    note t3 = dl_sync_file_times_result [OF refl, of ?w2 f t]
    from g True have m2: "mtime_at (local_fs ?w2) f = Some (clock w)"
      and r2: "requests ?w2 = requests w @ [(Session_Get remote_path, True)]"
      by simp_all
    have nox: "\<And>c b. (c, b) \<in> set xs \<Longrightarrow> \<exists>p n. c = Setxattr p n"
      using xs(2) by (auto simp: list_all_iff dest: is_setxattrD)
    show ?thesis
    proof (cases "0 < t")
      case pos: True
      with t3 obtain r where r: "requests ?w3 = requests ?w2 @ [(Utime f t, r)]"
        and mr: "r \<longrightarrow> mtime_at (local_fs ?w3) f = Some t"
        by blast
      from r r2 xs(1) have "requests w' =
          requests w @ (Session_Get remote_path, True) # ((Utime f t, r) # xs)"
        by simp
      moreover have "\<forall>b. (Session_Get remote_path, b) \<notin> set ((Utime f t, r) # xs)"
        using nox by auto
      moreover have "(Utime f t, r) \<in> set ((Utime f t, r) # xs)" by simp
      ultimately show ?thesis using True pos mr m3 by metis
    next
      case neg: False
      with t3 have "?w3 = ?w2" by simp
      with r2 xs(1) m2 m3 have "requests w' = requests w @ (Session_Get remote_path, True) # xs"
        and "mtime_at (local_fs w') f = Some (clock w)"
        by simp_all
      moreover have "\<forall>b. (Session_Get remote_path, b) \<notin> set xs"
        and "\<forall>t' r. (Utime f t', r) \<notin> set xs"
        using nox by auto
      ultimately show ?thesis using True neg by metis
    qed
  qed
qed


lemma dl_sync_file_existing_cases:
  assumes "dl_sync_file_existing opts w node f remote_path t = (ok, w')"
  shows "(\<exists>ds. requests w' = requests w @ ds \<and> list_all is_delete ds) \<or>
     (\<exists>w4 ds. requests w4 = requests w @ ds \<and> list_all is_delete ds \<and> clock w4 = clock w \<and>
        \<not> opt_dryrun opts \<and> dl_sync_file_get opts w4 node f remote_path t = (ok, w'))"
proof -
  let ?ty = "g_file_query_file_type w f"
  have plain: "?thesis" if "requests w' = requests w"
    using that by (intro disjI1 exI [of _ "[]"]) simp
  consider (conflict) "\<not> opt_force opts \<and> ?ty = G_FILE_TYPE_DIRECTORY"
    | (special) "\<not> (\<not> opt_force opts \<and> ?ty = G_FILE_TYPE_DIRECTORY)"
        "?ty \<noteq> G_FILE_TYPE_DIRECTORY \<and> ?ty \<noteq> G_FILE_TYPE_REGULAR"
    | (nostat) "\<not> (\<not> opt_force opts \<and> ?ty = G_FILE_TYPE_DIRECTORY)"
        "\<not> (?ty \<noteq> G_FILE_TYPE_DIRECTORY \<and> ?ty \<noteq> G_FILE_TYPE_REGULAR)" "g_stat w f = None"
    | (stat) st where "\<not> (\<not> opt_force opts \<and> ?ty = G_FILE_TYPE_DIRECTORY)"
        "\<not> (?ty \<noteq> G_FILE_TYPE_DIRECTORY \<and> ?ty \<noteq> G_FILE_TYPE_REGULAR)" "g_stat w f = Some st"
    by (cases "g_stat w f") auto
  then show ?thesis
  proof cases
    case conflict
    with assms have "w' = count_error (tool_print ERR Target_Is_A_Directory f w)"
      by (simp add: dl_sync_file_existing_def Let_def)
    then show ?thesis by (intro plain) simp
  next
    case special
    with assms have "w' = count_error (tool_print ERR Target_Not_Regular f w)"
      by (simp add: dl_sync_file_existing_def Let_def)
    then show ?thesis by (intro plain) simp
  next
    case nostat
    with assms have "w' = count_error (tool_print ERR Unable_To_Stat f w)"
      by (simp add: dl_sync_file_existing_def Let_def)
    then show ?thesis by (intro plain) simp
  next
    case stat
    obtain d w2 where dec: "decide_transfer opts node st remote_path w = (d, w2)"
      by (cases "decide_transfer opts node st remote_path w")
    note f2 = decide_transfer_frame [OF dec]
    let ?w3 = "tool_print INFO Removing f w2"
    from assms stat dec have body: "(ok, w') =
      (if \<not> d then (True, tool_print DEBUG Appears_Identical remote_path w2)
       else if \<not> opt_dryrun opts then
         (if ?ty = G_FILE_TYPE_DIRECTORY then
            (case delete_recursively ?w3 f of
               (ok4, w4) \<Rightarrow>
                 if \<not> ok4 then (False, count_error (tool_print ERR Cannot_Remove f w4))
                 else dl_sync_file_get opts w4 node f remote_path t)
          else
            (case g_file_delete ?w3 f of
               (ok4, w4) \<Rightarrow>
                 if \<not> ok4 then (False, count_error (tool_print ERR Cannot_Delete f w4))
                 else dl_sync_file_get opts w4 node f remote_path t))
       else dl_sync_file_get opts ?w3 node f remote_path t)"
      by (simp add: dl_sync_file_existing_def Let_def)
    show ?thesis
    proof (cases "\<not> d \<or> opt_dryrun opts")
      case True
      with body f2 have "requests w' = requests w"
        by (auto simp: dl_sync_file_get_dryrun split: if_splits)
      then show ?thesis by (rule plain)
    next
      case False
      let ?del = "if ?ty = G_FILE_TYPE_DIRECTORY then delete_recursively ?w3 f
                  else g_file_delete ?w3 f"
      obtain ok4 w4 where del: "?del = (ok4, w4)" by (cases ?del)
      have r4: "(\<exists>ds. requests w4 = requests ?w3 @ ds \<and> list_all is_delete ds) \<and>
          same_surroundings ?w3 w4"
      proof (cases "?ty = G_FILE_TYPE_DIRECTORY")
        case True
        with del have "delete_recursively ?w3 f = (ok4, w4)" by simp
        from delete_recursively_requests [OF this] show ?thesis by simp
      next
        case False
        with del have "g_file_delete ?w3 f = (ok4, w4)" by simp
        from g_file_delete_result [OF this] show ?thesis by auto
      qed
      then obtain ds where ds: "requests w4 = requests w @ ds" "list_all is_delete ds"
        and c4: "clock w4 = clock w"
        using f2 by (auto simp: same_surroundings_def)
      from body False del have res: "(ok, w') =
          (if \<not> ok4 then
             (False, count_error (tool_print
                (ERR) (if ?ty = G_FILE_TYPE_DIRECTORY then Cannot_Remove else Cannot_Delete) f w4))
           else dl_sync_file_get opts w4 node f remote_path t)"
        by (auto split: if_splits)
      show ?thesis
      proof (cases ok4)
        case False
        with res ds have "requests w' = requests w @ ds" by simp
        with ds(2) show ?thesis by blast
      next
        case True
        with res have "dl_sync_file_get opts w4 node f remote_path t = (ok, w')" by simp
        with ds c4 False show ?thesis by blast
      qed
    qed
  qed
qed

text \<open>
  C8. Whenever a call of \<^verbatim>\<open>dl_sync_file\<close> has downloaded the file (its request to the
  session succeeded), then with t the node's local-origin timestamp when that is positive
  and its upload timestamp otherwise: when t is positive, \<^verbatim>\<open>utime\<close> was called on the
  local file with t for both times, and where that call succeeded the file's time is t
  afterwards; when t is not positive, \<^verbatim>\<open>utime\<close> was not called on it at all and the
  file's time is the one the download wrote, the time of the download.
\<close>

theorem downloaded_file_times:
  assumes "dl_sync_file opts w node f remote_path = (ok, w')"
    and "requests w' = requests w @ new"
    and "(Session_Get remote_path, True) \<in> set new"
    and "t = (if node_local_ts node > 0 then node_local_ts node else node_timestamp node)"
  shows "(0 < t \<longrightarrow> (\<exists>r. (Utime f t, r) \<in> set new \<and>
        (r \<longrightarrow> mtime_at (local_fs w') f = Some t))) \<and>
     (\<not> 0 < t \<longrightarrow> (\<forall>t' r. (Utime f t', r) \<notin> set new) \<and>
        mtime_at (local_fs w') f = Some (clock w))"
proof -
  let ?w1 = "w\<lparr>files_processed := files_processed w + 1\<rparr>"
  have t: "t = node_timestamp_or_local node"
    using assms(4) by (simp add: node_timestamp_or_local_def)
  have "(\<exists>ds. requests w' = requests ?w1 @ ds \<and> list_all is_delete ds) \<or>
     (\<exists>w4 ds. requests w4 = requests ?w1 @ ds \<and> list_all is_delete ds \<and> clock w4 = clock ?w1 \<and>
        \<not> opt_dryrun opts \<and> dl_sync_file_get opts w4 node f remote_path t = (ok, w'))"
  proof (cases "g_file_query_exists ?w1 f")
    case True
    with assms(1) t have "dl_sync_file_existing opts ?w1 node f remote_path t = (ok, w')"
      by (simp add: dl_sync_file_def Let_def)
    then show ?thesis by (rule dl_sync_file_existing_cases)
  next
    case False
    with assms(1) t have get: "dl_sync_file_get opts ?w1 node f remote_path t = (ok, w')"
      by (simp add: dl_sync_file_def Let_def)
    show ?thesis
    proof (cases "opt_dryrun opts")
      case True
      with get have "requests w' = requests ?w1 @ []"
        by (auto simp: dl_sync_file_get_dryrun)
      then show ?thesis by (intro disjI1 exI [of _ "[]"]) simp
    next
      case False
      with get show ?thesis by (intro disjI2 exI [of _ ?w1] exI [of _ "[]"]) simp
    qed
  qed
  then show ?thesis
  proof (elim disjE exE conjE)
    fix ds
    assume "requests w' = requests ?w1 @ ds" and dels: "list_all is_delete ds"
    with assms(2) have "new = ds" by simp
    with assms(3) dels have False
      by (auto simp: list_all_iff dest: is_deleteD)
    then show ?thesis ..
  next
    fix w4 ds
    assume r4: "requests w4 = requests ?w1 @ ds" and dels: "list_all is_delete ds"
      and c4: "clock w4 = clock ?w1" and wet: "\<not> opt_dryrun opts"
      and get: "dl_sync_file_get opts w4 node f remote_path t = (ok, w')"
    from dl_sync_file_get_result [OF wet get] obtain got post
      where post: "requests w' = requests w4 @ (Session_Get remote_path, got) # post"
        and noget: "\<forall>b. (Session_Get remote_path, b) \<notin> set post"
        and times: "got \<longrightarrow>
          (0 < t \<longrightarrow> (\<exists>r. (Utime f t, r) \<in> set post \<and>
             (r \<longrightarrow> mtime_at (local_fs w') f = Some t))) \<and>
          (\<not> 0 < t \<longrightarrow> (\<forall>t' r. (Utime f t', r) \<notin> set post) \<and>
             mtime_at (local_fs w') f = Some (clock w4))"
      by blast
    from post r4 assms(2) have new: "new = ds @ (Session_Get remote_path, got) # post"
      by simp
    have nodel: "\<And>c b. (c, b) \<in> set ds \<Longrightarrow> \<exists>p. c = Delete p"
      using dels by (auto simp: list_all_iff dest: is_deleteD)
    from assms(3) new noget nodel have got: "got" by auto
    have noutime: "\<forall>t' r. (Utime f t', r) \<notin> set ds"
      using nodel by auto
    from times got c4 new noutime show ?thesis by auto
  qed
qed

text \<open>
  When the local target of a download is an existing directory and overwriting is
  not forced, \<^verbatim>\<open>dl_sync_file\<close> returns false after one error line: the count of files
  with errors grows by one, nothing is requested (no deletion, no download), and both trees
  are as before.
\<close>

lemma dl_sync_file_directory_conflict:
  assumes "g_file_query_file_type w f = G_FILE_TYPE_DIRECTORY" and "\<not> opt_force opts"
  shows "dl_sync_file opts w node f remote_path =
      (False, count_error (tool_print ERR Target_Is_A_Directory f
                (w\<lparr>files_processed := files_processed w + 1\<rparr>))) \<and>
    files_with_errors (snd (dl_sync_file opts w node f remote_path)) = files_with_errors w + 1 \<and>
    requests (snd (dl_sync_file opts w node f remote_path)) = requests w \<and>
    local_fs (snd (dl_sync_file opts w node f remote_path)) = local_fs w \<and>
    remote_fs (snd (dl_sync_file opts w node f remote_path)) = remote_fs w"
proof -
  let ?w1 = "w\<lparr>files_processed := files_processed w + 1\<rparr>"
  from assms(1) have ty: "g_file_query_file_type ?w1 f = G_FILE_TYPE_DIRECTORY"
    by (simp add: g_file_query_file_type_def)
  then have ex: "g_file_query_exists ?w1 f"
    by (auto simp: g_file_query_file_type_def g_file_query_exists_def split: option.splits)
  from ty ex assms(2) have "dl_sync_file opts w node f remote_path =
      (False, count_error (tool_print ERR Target_Is_A_Directory f ?w1))"
    by (simp add: dl_sync_file_def dl_sync_file_existing_def Let_def)
  then show ?thesis by simp
qed

lemma older_dl_sync_file_directory:
  assumes "g_file_query_file_type w f = G_FILE_TYPE_DIRECTORY" and "\<not> opt_force opts"
  shows "older_dl_sync_file quiet debug opts w node f remote_path =
      (False, tool_print ERR Target_Is_A_Directory remote_path w)"
proof -
  from assms(1) have "g_file_query_exists w f"
    by (auto simp: g_file_query_file_type_def g_file_query_exists_def split: option.splits)
  with assms show ?thesis
    by (simp add: older_dl_sync_file_def older_dl_sync_file_existing_def Let_def)
qed


lemma example_download_requests:
  "requests (snd (dl_sync_file example_options example_world example_node_a [''d'', ''c'']
      [''Root'', ''a''])) =
   [(Session_Get [''Root'', ''a''], True), (Utime [''d'', ''c''] 100, True)]"
  by (simp add: dl_sync_file_def dl_sync_file_get_def dl_sync_file_times_def
      dl_sync_file_xattrs_def g_file_query_exists_def mega_session_get_compat_def
      parent_is_directory_def mega_session_stat_def utime_def request_def clear_line_def
      node_timestamp_or_local_def tool_print_def example_world_def example_options_def
      example_local_def example_remote_def example_node_a_def set_entry_def Let_def)

theorem downloaded_file_times_witness:
  "mtime_at (local_fs (snd (dl_sync_file example_options example_world example_node_a
      [''d'', ''c''] [''Root'', ''a'']))) [''d'', ''c''] = Some 100"
  using downloaded_file_times [OF prod.collapse [symmetric] _ _ refl,
      of example_options example_world example_node_a "[''d'', ''c'']" "[''Root'', ''a'']"
        "[(Session_Get [''Root'', ''a''], True), (Utime [''d'', ''c''] 100, True)]"]
    example_download_requests
  by (auto simp: example_world_def example_node_a_def)

section \<open>Properties of sync: directories and whole runs\<close>

lemma untouched_refl [simp]: "untouched w w"
  by (simp add: untouched_def)

lemma untouched_trans: "untouched w w1 \<Longrightarrow> untouched w1 w2 \<Longrightarrow> untouched w w2"
  by (simp add: untouched_def)

lemma untouched_print [simp]:
  "untouched w (tool_print l t p w') = untouched w w'"
  "untouched w (count_error w') = untouched w w'"
  "untouched w (clear_line opts w') = untouched w w'"
  "untouched (tool_print l t p w) w' = untouched w w'"
  "untouched (count_error w) w' = untouched w w'"
  "untouched (clear_line opts w) w' = untouched w w'"
  by (simp_all add: untouched_def)

lemma untouched_counters [simp]:
  "untouched w (w'\<lparr>files_processed := a\<rparr>) = untouched w w'"
  "untouched w (w'\<lparr>folders_processed := b\<rparr>) = untouched w w'"
  "untouched (w\<lparr>files_processed := a\<rparr>) w' = untouched w w'"
  "untouched (w\<lparr>folders_processed := b\<rparr>) w' = untouched w w'"
  by (simp_all add: untouched_def)

text \<open>What one call of \<^verbatim>\<open>up_sync_file\<close> does to the counters, and a dry run to the trees.\<close>

lemma up_sync_file_put_counts:
  assumes "up_sync_file_put opts w f remote_path st = (ok, w')"
  shows "files_processed w' = files_processed w \<and> folders_processed w' = folders_processed w \<and>
     files_with_errors w' = files_with_errors w + (if ok then 0 else 1)"
proof (cases "opt_dryrun opts")
  case True
  with assms show ?thesis by (auto simp: up_sync_file_put_dryrun)
next
  case False
  let ?w0 = "(tool_print INFO Transferring f w)\<lparr>cur_file := Some (basename f)\<rparr>"
  obtain ok1 w1 where put: "mega_session_put_compat ?w0 remote_path f = (ok1, w1)"
    by (cases "mega_session_put_compat ?w0 remote_path f")
  from assms False put have "ok = ok1"
    and "w' = (if \<not> ok1 then count_error (tool_print ERR Upload_Failed f (clear_line opts w1))
               else clear_line opts (w1\<lparr>bytes_transferred := bytes_transferred w1 + st_size st\<rparr>))"
    by (auto simp: up_sync_file_put_def Let_def split: if_splits)
  with mega_session_put_compat_result [OF put] show ?thesis
    by (cases ok1) simp_all
qed

lemma up_sync_file_node_counts:
  assumes "up_sync_file_node opts w f remote_path st node = (ok, w')"
  shows "files_processed w' = files_processed w \<and> folders_processed w' = folders_processed w \<and>
     files_with_errors w' = files_with_errors w + (if ok then 0 else 1)"
proof (cases "\<not> opt_force opts \<and> node_type node = MEGA_NODE_FOLDER")
  case True
  with assms show ?thesis by (auto simp: up_sync_file_node_def)
next
  case allowed: False
  obtain d w2 where dec: "decide_transfer opts node st f w = (d, w2)"
    by (cases "decide_transfer opts node st f w")
  note f2 = decide_transfer_frame [OF dec]
  let ?w3 = "tool_print INFO Removing remote_path w2"
  show ?thesis
  proof (cases d)
    case False
    with assms allowed dec have "ok" and "w' = tool_print DEBUG Appears_Identical f w2"
      by (simp_all add: up_sync_file_node_def)
    with f2 show ?thesis by simp
  next
    case d: True
    show ?thesis
    proof (cases "opt_dryrun opts")
      case True
      with assms allowed dec d have "up_sync_file_put opts ?w3 f remote_path st = (ok, w')"
        by (simp add: up_sync_file_node_def)
      from up_sync_file_put_counts [OF this] f2 show ?thesis by simp
    next
      case wet: False
      obtain ok4 w4 where rm: "mega_session_rm ?w3 remote_path = (ok4, w4)"
        by (cases "mega_session_rm ?w3 remote_path")
      note f4 = mega_session_rm_result [OF rm]
      show ?thesis
      proof (cases ok4)
        case False
        with assms allowed dec d wet rm have "\<not> ok"
          and "w' = count_error (tool_print ERR Cannot_Remove remote_path w4)"
          by (simp_all add: up_sync_file_node_def)
        with f2 f4 show ?thesis by simp
      next
        case True
        with assms allowed dec d wet rm
        have "up_sync_file_put opts w4 f remote_path st = (ok, w')"
          by (simp add: up_sync_file_node_def)
        from up_sync_file_put_counts [OF this] f2 f4 show ?thesis by simp
      qed
    qed
  qed
qed

lemma up_sync_file_cases:
  assumes "up_sync_file opts w root_file f remote_path = (ok, w')"
  obtains "\<not> ok"
      "w' = count_error (tool_print ERR Unable_To_Stat f (w\<lparr>files_processed := files_processed w + 1\<rparr>))"
    | "ok"
      "w' = tool_print DEBUG Ignoring_Empty_File f (w\<lparr>files_processed := files_processed w + 1\<rparr>)"
    | st where
      "up_sync_file_put opts (w\<lparr>files_processed := files_processed w + 1\<rparr>) f remote_path st = (ok, w')"
    | st node where
      "up_sync_file_node opts (w\<lparr>files_processed := files_processed w + 1\<rparr>) f remote_path st node = (ok, w')"
proof (cases "g_stat w f")
  case None
  let ?w1 = "w\<lparr>files_processed := files_processed w + 1\<rparr>"
  have "g_stat ?w1 f = g_stat w f" by (rule g_stat_same) simp_all
  with None assms have "\<not> ok" and "w' = count_error (tool_print ERR Unable_To_Stat f ?w1)"
    by (simp_all add: up_sync_file_def Let_def)
  then show ?thesis by (rule that(1))
next
  case (Some st)
  note u = up_sync_file_unfold [OF Some, of opts root_file remote_path]
  show ?thesis
  proof (cases "st_size st \<le> 0")
    case True
    with assms u have "ok"
      and "w' = tool_print DEBUG Ignoring_Empty_File f (w\<lparr>files_processed := files_processed w + 1\<rparr>)"
      by simp_all
    then show ?thesis by (rule that(2))
  next
    case False
    show ?thesis
    proof (cases "mega_session_stat w remote_path")
      case None
      with assms u False show ?thesis by (intro that(3) [of st]) simp
    next
      case (Some node)
      with assms u False show ?thesis by (intro that(4) [of st node]) simp
    qed
  qed
qed

lemma up_sync_file_counts:
  assumes "up_sync_file opts w root_file f remote_path = (ok, w')"
  shows "files_processed w' = files_processed w + 1 \<and> folders_processed w' = folders_processed w \<and>
     files_with_errors w' = files_with_errors w + (if ok then 0 else 1)"
  using assms
proof (cases rule: up_sync_file_cases)
  case (3 st)
  from up_sync_file_put_counts [OF this] show ?thesis by simp
next
  case (4 st node)
  from up_sync_file_node_counts [OF this] show ?thesis by simp
qed simp_all

lemma up_sync_file_dryrun:
  assumes "opt_dryrun opts" and "up_sync_file opts w root_file f remote_path = (ok, w')"
  shows "untouched w w'"
  using assms(2)
proof (cases rule: up_sync_file_cases)
  case (3 st)
  with assms(1) show ?thesis by (auto simp: up_sync_file_put_dryrun)
next
  case (4 st node)
  from up_sync_file_node_dryrun [OF assms(1) this] show ?thesis by (simp add: untouched_def)
qed simp_all

lemma mega_session_mkdir_result:
  "mega_session_mkdir w p = (ok, w') \<Longrightarrow>
     requests w' = requests w @ [(Session_Mkdir p, ok)] \<and> local_fs w' = local_fs w \<and>
     same_surroundings w w' \<and> files_with_errors w' = files_with_errors w \<and>
     bytes_transferred w' = bytes_transferred w \<and> files_processed w' = files_processed w \<and>
     folders_processed w' = folders_processed w \<and> elements_deleted w' = elements_deleted w"
  unfolding mega_session_mkdir_def request_def same_surroundings_def Let_def
  by (cases "\<not> fails w (Session_Mkdir p) \<and> mega_session_stat w p = None \<and>
      parent_is_container w p") auto

lemma up_sync_dir_enter_result:
  assumes "up_sync_dir_enter opts w root_file f remote_path = (ok, w', ht)"
  shows "files_processed w' = files_processed w \<and>
     folders_processed w' = folders_processed w + 1 \<and>
     files_with_errors w' = files_with_errors w \<and>
     (opt_dryrun opts \<longrightarrow> untouched w w')"
proof -
  let ?w = "tool_print DEBUG Synchronizing_Folder f
              (w\<lparr>folders_processed := folders_processed w + 1\<rparr>)"
  let ?w1 = "tool_print INFO Removing remote_path ?w"
  let ?w2 = "tool_print INFO Creating_Directory f ?w"
  obtain ok3 w3 where rm: "mega_session_rm ?w1 remote_path = (ok3, w3)"
    by (cases "mega_session_rm ?w1 remote_path")
  obtain ok4 w4 where mk: "mega_session_mkdir ?w2 remote_path = (ok4, w4)"
    by (cases "mega_session_mkdir ?w2 remote_path")
  note f3 = mega_session_rm_result [OF rm]
  note f4 = mega_session_mkdir_result [OF mk]
  have "w' = ?w \<or> w' = ?w1 \<and> opt_dryrun opts \<or> w' = ?w2 \<and> opt_dryrun opts \<or>
      \<not> opt_dryrun opts \<and> (w' = w3 \<or> w' = tool_print ERR Cannot_Remove remote_path w3 \<or>
        w' = w4 \<or> w' = tool_print ERR Cannot_Create_Directory remote_path w4)"
    using assms rm mk
    by (auto simp: up_sync_dir_enter_def Let_def split: if_splits option.splits)
  with f3 f4 show ?thesis by auto
qed

lemma up_delete_leftover_result:
  assumes "up_delete_leftover opts w remote_path n = (status, w')"
  shows "files_processed w' = files_processed w \<and> folders_processed w' = folders_processed w \<and>
     files_with_errors w' = files_with_errors w \<and>
     (opt_ignore_errors opts \<longrightarrow> status) \<and> (opt_dryrun opts \<longrightarrow> untouched w w')"
proof -
  let ?p = "remote_path @ [node_name n]"
  let ?w1 = "tool_print INFO Removing ?p w"
  obtain ok2 w2 where rm: "mega_session_rm ?w1 ?p = (ok2, w2)"
    by (cases "mega_session_rm ?w1 ?p")
  note f2 = mega_session_rm_result [OF rm]
  from assms rm have "(status, w') =
      (if \<not> opt_dryrun opts then
         (if \<not> ok2 then (opt_ignore_errors opts, tool_print ERR Cannot_Remove ?p w2)
          else (True, w2\<lparr>elements_deleted := elements_deleted w2 + 1\<rparr>))
       else (True, ?w1))"
    by (auto simp: up_delete_leftover_def Let_def)
  with f2 show ?thesis by (auto split: if_splits)
qed

lemma up_delete_leftovers_result:
  "up_delete_leftovers opts w remote_path to_delete = (status, w') \<Longrightarrow>
     files_processed w' = files_processed w \<and> folders_processed w' = folders_processed w \<and>
     files_with_errors w' = files_with_errors w \<and>
     (opt_ignore_errors opts \<longrightarrow> status) \<and> (opt_dryrun opts \<longrightarrow> untouched w w')"
proof (induction opts w remote_path to_delete arbitrary: status w'
    rule: up_delete_leftovers.induct)
  case (1 opts w remote_path)
  then show ?case by simp
next
  case (2 opts w remote_path k n to_delete)
  obtain s1 w1 where one: "up_delete_leftover opts w remote_path n = (s1, w1)"
    by (cases "up_delete_leftover opts w remote_path n")
  note first = up_delete_leftover_result [OF one]
  show ?case
  proof (cases s1)
    case False
    with "2.prems" one first show ?thesis by auto
  next
    case True
    with "2.prems" one have rest: "up_delete_leftovers opts w1 remote_path to_delete = (status, w')"
      by simp
    from True have "\<not> \<not> s1" by simp
    from "2.IH" [OF one [symmetric] this rest] first show ?thesis
      by (auto intro: untouched_trans)
  qed
qed

lemma hash_forget_world:
  "hash_forget active name ht w = (w1, ht1) \<Longrightarrow> w1 = w \<or> w1 = tool_print DEBUG New_File [name] w"
  by (auto simp: hash_forget_def split: if_splits prod.splits)

lemma up_sync_dir_other:
  assumes "file_type_of ent \<noteq> G_FILE_TYPE_DIRECTORY"
    and "up_sync_dir opts w root_file f ent remote_path = (ok, w')"
  shows "up_dir_summary opts w w'"
proof -
  obtain ok0 w1 ht where enter: "up_sync_dir_enter opts w root_file f remote_path = (ok0, w1, ht)"
    by (cases "up_sync_dir_enter opts w root_file f remote_path")
  from assms enter have "w' = w1 \<or> w' = tool_print ERR Cannot_Read_Local_Directory f w1"
    by (cases ent) (auto split: if_splits)
  with up_sync_dir_enter_result [OF enter] show ?thesis
    by (auto simp: up_dir_summary_def)
qed

lemma up_sync_dir_children_summary:
  "up_sync_dir opts w root_file f ent remote_path = (ok, w') \<Longrightarrow> up_dir_summary opts w w'"
  "up_sync_children opts w root_file f cs remote_path ht = (status, w', ht') \<Longrightarrow>
     up_children_summary opts cs w status w'"
proof (induction opts w root_file f ent remote_path and opts w root_file f cs remote_path ht
    arbitrary: ok w' and status w' ht'
    rule: up_sync_dir_up_sync_children.induct)
  case (1 opts w0 root_file fl st cs remote_path)
  obtain ok0 w1 ht where enter: "up_sync_dir_enter opts w0 root_file fl remote_path = (ok0, w1, ht)"
    by (cases "up_sync_dir_enter opts w0 root_file fl remote_path")
  note e = up_sync_dir_enter_result [OF enter]
  show ?case
  proof (cases "\<not> ok0 \<or> fails w1 (Enumerate fl)")
    case True
    with "1.prems" enter have "w' = w1 \<or> w' = tool_print ERR Cannot_Read_Local_Directory fl w1"
      by (auto split: if_splits)
    with e show ?thesis by (auto simp: up_dir_summary_def)
  next
    case False
    obtain s2 w2 ht2
      where loop: "up_sync_children opts w1 root_file fl cs remote_path ht = (s2, w2, ht2)"
      by (cases "up_sync_children opts w1 root_file fl cs remote_path ht")
    from False have "\<not> \<not> ok0" and "\<not> fails w1 (Enumerate fl)" by simp_all
    from "1.IH" [OF enter [symmetric] refl this loop]
    have c: "up_children_summary opts cs w1 s2 w2" .
    from "1.prems" enter False loop have res: "(ok, w') =
        (if opt_delete opts \<and> s2 then up_delete_leftovers opts w2 remote_path ht2
         else (s2, w2))"
      by simp
    show ?thesis
    proof (cases "opt_delete opts \<and> s2")
      case True
      with res have "up_delete_leftovers opts w2 remote_path ht2 = (ok, w')" by simp
      from up_delete_leftovers_result [OF this] e c show ?thesis
        by (auto simp: up_dir_summary_def up_children_summary_def intro: untouched_trans)
    next
      case False
      with res have "w' = w2" by (auto split: if_splits)
      with e c show ?thesis
        by (auto simp: up_dir_summary_def up_children_summary_def intro: untouched_trans)
    qed
  qed
next
  case (3 opts w root_file fl remote_path ht)
  then show ?case
    by (simp add: up_children_summary_def regular_entries_def directory_entries_def)
next
  case (4 opts w root_file fl name child cs remote_path ht)
  obtain w1 ht1 where forget: "hash_forget (opt_delete opts) name ht w = (w1, ht1)"
    by (cases "hash_forget (opt_delete opts) name ht w")
  note h = hash_forget_world [OF forget]
  let ?body = "if file_type_of child = G_FILE_TYPE_DIRECTORY then
                 up_sync_dir opts w1 root_file (fl @ [name]) child (remote_path @ [name])
               else if file_type_of child = G_FILE_TYPE_REGULAR then
                 (if \<not> opt_delete_only opts
                  then up_sync_file opts w1 root_file (fl @ [name]) (remote_path @ [name])
                  else (True, w1))
               else (True, tool_print WARN Skipping_Special_File (fl @ [name]) w1)"
  obtain ok2 w2 where body: "?body = (ok2, w2)" by (cases ?body)
  have one: "files_processed w1 +
        (if file_type_of child = G_FILE_TYPE_REGULAR \<and> \<not> opt_delete_only opts then 1 else 0)
        \<le> files_processed w2 \<and>
      folders_processed w1 + (if file_type_of child = G_FILE_TYPE_DIRECTORY then 1 else 0)
        \<le> folders_processed w2 \<and>
      (opt_dryrun opts \<longrightarrow> untouched w1 w2)"
  proof (cases "file_type_of child = G_FILE_TYPE_DIRECTORY")
    case True
    with body have "up_sync_dir opts w1 root_file (fl @ [name]) child (remote_path @ [name]) =
        (ok2, w2)" by simp
    from "4.IH"(1) [OF forget [symmetric] True this] True show ?thesis
      by (simp add: up_dir_summary_def)
  next
    case nodir: False
    show ?thesis
    proof (cases "file_type_of child = G_FILE_TYPE_REGULAR \<and> \<not> opt_delete_only opts")
      case True
      with body nodir
      have u: "up_sync_file opts w1 root_file (fl @ [name]) (remote_path @ [name]) = (ok2, w2)"
        by simp
      from up_sync_file_counts [OF u] up_sync_file_dryrun [OF _ u] True nodir show ?thesis
        by auto
    next
      case False
      with body nodir
      have "w2 = w1 \<or> w2 = tool_print WARN Skipping_Special_File (fl @ [name]) w1"
        by (auto split: if_splits)
      with False nodir show ?thesis by auto
    qed
  qed
  from "4.prems" forget body have res: "(status, w', ht') =
      (if \<not> (if \<not> ok2 then opt_ignore_errors opts else True) then (False, w2, ht1)
       else up_sync_children opts w2 root_file fl cs remote_path ht1)"
    by simp
  have len: "int (length (regular_entries ((name, child) # cs))) =
      (if file_type_of child = G_FILE_TYPE_REGULAR then 1 else 0) +
        int (length (regular_entries cs))"
    "int (length (directory_entries ((name, child) # cs))) =
      (if file_type_of child = G_FILE_TYPE_DIRECTORY then 1 else 0) +
        int (length (directory_entries cs))"
    by (simp_all add: regular_entries_def directory_entries_def)
  show ?case
  proof (cases "if \<not> ok2 then opt_ignore_errors opts else True")
    case False
    with res have "w' = w2" and "\<not> opt_ignore_errors opts"
      by (auto split: if_splits)
    with one h show ?thesis
      by (auto simp: up_children_summary_def intro: untouched_trans split: if_splits)
  next
    case True
    with res have rest: "up_sync_children opts w2 root_file fl cs remote_path ht1 =
        (status, w', ht')" by simp
    from True have "\<not> \<not> (if \<not> ok2 then opt_ignore_errors opts else True)" by simp
    from "4.IH"(2) [OF forget [symmetric] body [symmetric] this rest]
    have c: "up_children_summary opts cs w2 status w'" .
    have w1: "files_processed w1 = files_processed w" "folders_processed w1 = folders_processed w"
      "untouched w w1"
      using h by auto
    from c one w1 len show ?thesis
      unfolding up_children_summary_def
      by (auto intro: untouched_trans split: if_splits)
  qed
qed (erule up_sync_dir_other [rotated], simp)+

text \<open>A dry run of the download functions leaves both trees alone.\<close>

lemma dl_sync_file_existing_dryrun:
  assumes "opt_dryrun opts" and "dl_sync_file_existing opts w node f remote_path t = (ok, w')"
  shows "untouched w w'"
proof -
  let ?ty = "g_file_query_file_type w f"
  consider (conflict) "\<not> opt_force opts \<and> ?ty = G_FILE_TYPE_DIRECTORY"
    | (special) "\<not> (\<not> opt_force opts \<and> ?ty = G_FILE_TYPE_DIRECTORY)"
        "?ty \<noteq> G_FILE_TYPE_DIRECTORY \<and> ?ty \<noteq> G_FILE_TYPE_REGULAR"
    | (nostat) "\<not> (\<not> opt_force opts \<and> ?ty = G_FILE_TYPE_DIRECTORY)"
        "\<not> (?ty \<noteq> G_FILE_TYPE_DIRECTORY \<and> ?ty \<noteq> G_FILE_TYPE_REGULAR)" "g_stat w f = None"
    | (stat) st where "\<not> (\<not> opt_force opts \<and> ?ty = G_FILE_TYPE_DIRECTORY)"
        "\<not> (?ty \<noteq> G_FILE_TYPE_DIRECTORY \<and> ?ty \<noteq> G_FILE_TYPE_REGULAR)" "g_stat w f = Some st"
    by (cases "g_stat w f") auto
  then show ?thesis
  proof cases
    case conflict
    with assms(2) have "w' = count_error (tool_print ERR Target_Is_A_Directory f w)"
      by (simp add: dl_sync_file_existing_def Let_def)
    then show ?thesis by simp
  next
    case special
    with assms(2) have "w' = count_error (tool_print ERR Target_Not_Regular f w)"
      by (simp add: dl_sync_file_existing_def Let_def)
    then show ?thesis by simp
  next
    case nostat
    with assms(2) have "w' = count_error (tool_print ERR Unable_To_Stat f w)"
      by (simp add: dl_sync_file_existing_def Let_def)
    then show ?thesis by simp
  next
    case stat
    obtain d w2 where dec: "decide_transfer opts node st remote_path w = (d, w2)"
      by (cases "decide_transfer opts node st remote_path w")
    from decide_transfer_frame [OF dec] have u2: "untouched w w2"
      by (simp add: untouched_def)
    from assms stat dec have "w' = tool_print DEBUG Appears_Identical remote_path w2 \<or>
        w' = tool_print INFO Transferring remote_path (tool_print INFO Removing f w2)"
      by (auto simp: dl_sync_file_existing_def dl_sync_file_get_dryrun Let_def split: if_splits)
    with u2 show ?thesis by auto
  qed
qed

lemma dl_sync_file_dryrun:
  assumes "opt_dryrun opts" and "dl_sync_file opts w node f remote_path = (ok, w')"
  shows "untouched w w'"
proof (cases "g_file_query_exists (w\<lparr>files_processed := files_processed w + 1\<rparr>) f")
  case True
  with assms(2) have "dl_sync_file_existing opts (w\<lparr>files_processed := files_processed w + 1\<rparr>)
      node f remote_path (node_timestamp_or_local node) = (ok, w')"
    by (simp add: dl_sync_file_def Let_def)
  from dl_sync_file_existing_dryrun [OF assms(1) this] show ?thesis by simp
next
  case False
  with assms show ?thesis
    by (auto simp: dl_sync_file_def dl_sync_file_get_dryrun Let_def)
qed

lemma dl_sync_dir_table_world:
  "dl_sync_dir_table opts w f = (ok, w', cd, ht) \<Longrightarrow>
     w' = w \<or> w' = tool_print ERR Cannot_Read_Local_Directory f w \<or>
     w' = tool_print ERR Cannot_Close_Enumerator f w"
  by (auto simp: dl_sync_dir_table_def Let_def split: if_splits option.splits)

lemma dl_sync_dir_create_dryrun:
  assumes "opt_dryrun opts" and "dl_sync_dir_create opts w f remote_path = (ok, w', cd, ht)"
  shows "untouched w w'"
proof -
  let ?w1 = "tool_print INFO Creating_Directory remote_path w"
  from assms have "dl_sync_dir_table opts ?w1 f = (ok, w', cd, ht) \<or>
      dl_sync_dir_table opts w f = (ok, w', cd, ht)"
    by (auto simp: dl_sync_dir_create_def Let_def split: if_splits)
  then show ?thesis
    by (auto dest!: dl_sync_dir_table_world)
qed

lemma dl_sync_dir_enter_dryrun:
  assumes "opt_dryrun opts" and "dl_sync_dir_enter opts w f remote_path = (ok, w', cd, ht)"
  shows "untouched w w'"
proof -
  let ?w = "tool_print DEBUG Synchronizing_Folder remote_path
              (w\<lparr>folders_processed := folders_processed w + 1\<rparr>)"
  let ?w1 = "tool_print INFO Removing f ?w"
  from assms have "dl_sync_dir_create opts ?w1 f remote_path = (ok, w', cd, ht) \<or>
      dl_sync_dir_create opts ?w f remote_path = (ok, w', cd, ht) \<or>
      w' = tool_print ERR Target_Not_A_Directory f ?w"
    by (auto simp: dl_sync_dir_enter_def Let_def split: if_splits)
  then show ?thesis
    by (auto dest!: dl_sync_dir_create_dryrun [OF assms(1)])
qed

lemma dl_delete_leftovers_dryrun:
  "opt_dryrun opts \<Longrightarrow> dl_delete_leftovers opts w f to_delete = (status, w') \<Longrightarrow>
     untouched w w'"
proof (induction opts w f to_delete arbitrary: status w' rule: dl_delete_leftovers.induct)
  case (1 opts w fl)
  then show ?case by simp
next
  case (2 opts w fl k file_type to_delete)
  let ?w1 = "tool_print INFO Removing (fl @ [k]) w"
  from "2.prems"(1) have one: "dl_delete_leftover opts w fl k file_type = (True, ?w1)"
    by (simp add: dl_delete_leftover_def Let_def)
  with "2.prems" have rest: "dl_delete_leftovers opts ?w1 fl to_delete = (status, w')"
    by simp
  from "2.IH" [OF one [symmetric] _ "2.prems"(1) rest] show ?case by simp
qed

lemma dl_sync_dir_children_dryrun:
  "opt_dryrun opts \<Longrightarrow> dl_sync_dir opts w node f remote_path = (ok, w') \<Longrightarrow> untouched w w'"
  "opt_dryrun opts \<Longrightarrow>
     dl_sync_children opts w children f remote_path check_delete ht = (status, w', ht') \<Longrightarrow>
     untouched w w'"
proof (induction opts w node f remote_path and opts w children f remote_path check_delete ht
    arbitrary: ok w' and status w' ht'
    rule: dl_sync_dir_dl_sync_children.induct)
  case (1 opts w0 node children fl remote_path)
  obtain ok0 w1 cd ht where enter: "dl_sync_dir_enter opts w0 fl remote_path = (ok0, w1, cd, ht)"
    by (cases "dl_sync_dir_enter opts w0 fl remote_path")
  note e = dl_sync_dir_enter_dryrun [OF "1.prems"(1) enter]
  show ?case
  proof (cases ok0)
    case False
    with "1.prems" enter have "w' = w1" by simp
    with e show ?thesis by simp
  next
    case True
    obtain s2 w2 ht2
      where loop: "dl_sync_children opts w1 children fl remote_path cd ht = (s2, w2, ht2)"
      by (cases "dl_sync_children opts w1 children fl remote_path cd ht")
    from True have "\<not> \<not> ok0" by simp
    from "1.IH" [OF enter [symmetric] refl refl this "1.prems"(1) loop]
    have c: "untouched w1 w2" .
    from "1.prems" enter True loop have res: "(ok, w') =
        (if cd \<and> s2 then dl_delete_leftovers opts w2 fl ht2 else (s2, w2))"
      by simp
    show ?thesis
    proof (cases "cd \<and> s2")
      case True
      with res have "dl_delete_leftovers opts w2 fl ht2 = (ok, w')" by simp
      from dl_delete_leftovers_dryrun [OF "1.prems"(1) this] e c show ?thesis
        by (blast intro: untouched_trans)
    next
      case False
      with res have "w' = w2" by (auto split: if_splits)
      with e c show ?thesis by (blast intro: untouched_trans)
    qed
  qed
next
  case (2 opts w fl remote_path check_delete ht)
  then show ?case by simp
next
  case (3 opts w child children fl remote_path check_delete ht)
  let ?name = "node_name (rnode child)"
  obtain w1 ht1 where forget: "hash_forget check_delete ?name ht w = (w1, ht1)"
    by (cases "hash_forget check_delete ?name ht w")
  from hash_forget_world [OF forget] have h: "untouched w w1" by auto
  let ?body = "if node_type (rnode child) = MEGA_NODE_FILE then
                 (if \<not> opt_delete_only opts
                  then dl_sync_file opts w1 (rnode child) (fl @ [?name]) (remote_path @ [?name])
                  else (True, w1))
               else dl_sync_dir opts w1 child (fl @ [?name]) (remote_path @ [?name])"
  obtain ok2 w2 where body: "?body = (ok2, w2)" by (cases ?body)
  have one: "untouched w1 w2"
  proof (cases "node_type (rnode child) = MEGA_NODE_FILE")
    case True
    with body have "dl_sync_file opts w1 (rnode child) (fl @ [?name]) (remote_path @ [?name]) =
        (ok2, w2) \<or> w2 = w1"
      by (auto split: if_splits)
    then show ?thesis
      by (auto dest: dl_sync_file_dryrun [OF "3.prems"(1)])
  next
    case False
    with body have "dl_sync_dir opts w1 child (fl @ [?name]) (remote_path @ [?name]) = (ok2, w2)"
      by simp
    from "3.IH"(1) [OF forget [symmetric] False "3.prems"(1) this] show ?thesis .
  qed
  from "3.prems"(2) forget body have res: "(status, w', ht') =
      (if \<not> (if \<not> ok2 then opt_ignore_errors opts else True) then (False, w2, ht1)
       else dl_sync_children opts w2 children fl remote_path check_delete ht1)"
    by simp
  show ?case
  proof (cases "if \<not> ok2 then opt_ignore_errors opts else True")
    case False
    with res have "w' = w2" by (auto split: if_splits)
    with h one show ?thesis by (blast intro: untouched_trans)
  next
    case True
    with res have rest: "dl_sync_children opts w2 children fl remote_path check_delete ht1 =
        (status, w', ht')" by simp
    from True have "\<not> \<not> (if \<not> ok2 then opt_ignore_errors opts else True)" by simp
    from "3.IH"(2) [OF forget [symmetric] body [symmetric] this "3.prems"(1) rest]
    have "untouched w2 w'" .
    with h one show ?thesis by (blast intro: untouched_trans)
  qed
qed

section \<open>Properties of sync: the loops over a directory\<close>


lemma dl_sync_children_Cons:
  "dl_sync_children opts w (child # children) f remote_path check_delete ht =
     (case dl_sync_entry opts w child f remote_path check_delete ht of
        (ok, w2, ht2) \<Rightarrow>
          if \<not> ok \<and> \<not> opt_ignore_errors opts then (False, w2, ht2)
          else dl_sync_children opts w2 children f remote_path check_delete ht2)"
  by (simp add: dl_sync_entry_def split: prod.splits)









text \<open>The older loop over the remote nodes is the loop over the second list after the first.\<close>

lemma older_dl_sync_children_append:
  "older_dl_sync_children quiet debug opts w (pre @ post) f remote_path ht =
     (case older_dl_sync_children quiet debug opts w pre f remote_path ht of
        (s1, w1, ht1) \<Rightarrow>
          (case older_dl_sync_children quiet debug opts w1 post f remote_path ht1 of
             (s2, w2, ht2) \<Rightarrow> (s1 \<and> s2, w2, ht2)))"
proof (induction pre arbitrary: w ht)
  case Nil
  show ?case by (simp split: prod.splits)
next
  case (Cons child pre)
  show ?case
    by (simp add: Cons.IH split: prod.splits)
qed

section \<open>Properties of sync: whole runs\<close>

lemma print_totals_fields [simp]:
  "remote_fs (print_totals a b w) = remote_fs w"
  "local_fs (print_totals a b w) = local_fs w"
  "requests (print_totals a b w) = requests w"
  "cache_saves (print_totals a b w) = cache_saves w"
  "files_processed (print_totals a b w) = files_processed w"
  "folders_processed (print_totals a b w) = folders_processed w"
  "files_with_errors (print_totals a b w) = files_with_errors w"
  by (simp_all add: print_totals_def say_def Let_def)

lemma mega_session_save_fields [simp]:
  "remote_fs (mega_session_save w) = remote_fs w"
  "local_fs (mega_session_save w) = local_fs w"
  "requests (mega_session_save w) = requests w"
  "cache_saves (mega_session_save w) = Suc (cache_saves w)"
  "fails (mega_session_save w) = fails w"
  "files_processed (mega_session_save w) = files_processed w"
  "folders_processed (mega_session_save w) = folders_processed w"
  "files_with_errors (mega_session_save w) = files_with_errors w"
  by (simp_all add: mega_session_save_def)


text \<open>
  The start of the session changes neither tree and requests nothing. When it succeeds
  for a sync, it has written the cache twice for a new session, once for a reload, and
  not at all otherwise.
\<close>

lemma tool_start_session_frame:
  assumes "tool_start_session flags so w = (started, w1)"
  shows "remote_fs w1 = remote_fs w \<and> local_fs w1 = local_fs w \<and> requests w1 = requests w"
  using assms
  by (auto simp: tool_start_session_def mega_session_open_def Let_def split: if_splits)

lemma tool_start_session_saves:
  assumes "tool_start_session sync_flags so w = (True, w1)"
  shows "cache_saves w1 =
     cache_saves w + (if fails w Session_Load then 2 else if opt_reload_files so then 1 else 0)"
  using assms
  by (auto simp: tool_start_session_def sync_flags_def mega_session_open_def
      mega_session_refresh_def Let_def split: if_splits)

lemma sync_main_unfold:
  assumes "tool_start_session sync_flags so w0 = (started, w)"
  shows "sync_main so opts0 w0 p_start p_end =
     (case (opt_local_path opts0, opt_remote_path opts0) of
        (Some local_path, Some remote_path) \<Rightarrow>
          if opt_delete_only opts0 \<and> opt_always opts0 then
            (1, tool_print ERR Options_Exclude_Each_Other [] w0)
          else if \<not> started then (1, w)
          else
            (case rt_lookup (remote_fs w) remote_path of
               None \<Rightarrow> (1, tool_print ERR Remote_Directory_Not_Found remote_path w)
             | Some remote_dir \<Rightarrow>
                 if \<not> mega_node_is_container (rnode remote_dir) then
                   (1, tool_print ERR Remote_Path_Must_Be_Directory remote_path w)
                 else
                   (let opts = (if opt_delete_only opts0 then opts0\<lparr>opt_delete := True\<rparr>
                                else opts0)
                    in if opt_download opts then
                         (case dl_sync_dir opts w remote_dir local_path remote_path of
                            (ok, w1) \<Rightarrow> (if ok then 0 else 1, print_totals p_start p_end w1))
                       else
                         (case fs_lookup (local_fs w) local_path of
                            Some (Directory st cs) \<Rightarrow>
                              (case up_sync_dir opts w local_path local_path (Directory st cs)
                                      remote_path of
                                 (ok, w1) \<Rightarrow>
                                   (if ok then 0 else 1,
                                    print_totals p_start p_end (mega_session_save w1)))
                          | _ \<Rightarrow> (1, tool_print ERR Local_Directory_Not_Found local_path w))))
      | _ \<Rightarrow> (1, tool_print ERR Must_Specify_Paths [] w0))"
  using assms
  by (simp add: sync_main_def sync_flags_def del: up_sync_dir.simps dl_sync_dir.simps
      split: option.splits)


text \<open>
  C10, as the code has it. A dry run of an upload writes the cache file of the session
  after the sync: one write in the example, where the session came from the cache.
\<close>

theorem dry_run_saves_session_counterexample:
  "opt_dryrun (example_options\<lparr>opt_dryrun := True\<rparr>) \<and> cache_saves example_world = 0 \<and>
   (let r = sync_main example_session (example_options\<lparr>opt_dryrun := True\<rparr>) example_world 0 5
    in fst r = 0 \<and> cache_saves (snd r) = 1)"
  by code_simp

text \<open>
  C10, amended. With the dry-run option a whole run of \<^verbatim>\<open>sync_main\<close>, in either
  direction, leaves the remote tree and the local files of the sync as they were and asks
  for no change of them: the log of requests (removals, uploads, new remote folders, local
  deletions, new local directories, downloads, changes of times and of extended
  attributes) is the one before the run. The cache file of the session is written all the
  same: by the start of the session, twice when the session is new and once when a reload
  was asked for, and once more after an upload.
\<close>

theorem dry_run_changes_nothing:
  assumes "opt_dryrun opts" and "sync_main so opts w p_start p_end = (exit_status, w')"
  shows "remote_fs w' = remote_fs w \<and> local_fs w' = local_fs w \<and> requests w' = requests w \<and>
     (sync_reached so opts w \<longrightarrow>
        cache_saves w' =
          cache_saves w +
          (if fails w Session_Load then 2 else if opt_reload_files so then 1 else 0) +
          (if opt_download opts then 0 else 1))"
proof -
  obtain started w1 where start: "tool_start_session sync_flags so w = (started, w1)"
    by (cases "tool_start_session sync_flags so w")
  note frame = tool_start_session_frame [OF start]
  have up: "untouched w1 w2"
    if "up_sync_dir opts' w1 root_file f ent remote_path = (ok, w2)" and "opt_dryrun opts'"
    for opts' root_file f ent remote_path ok w2
    using up_sync_dir_children_summary(1) [OF that(1)] that(2)
    by (simp add: up_dir_summary_def)
  have dl: "untouched w1 w2"
    if "dl_sync_dir opts' w1 node f remote_path = (ok, w2)" and "opt_dryrun opts'"
    for opts' node f remote_path ok w2
    using dl_sync_dir_children_dryrun(1) [OF that(2) that(1)] .
  from assms frame have trees:
    "remote_fs w' = remote_fs w \<and> local_fs w' = local_fs w \<and> requests w' = requests w"
    unfolding sync_main_unfold [OF start] Let_def
    by (auto simp: untouched_def simp del: up_sync_dir.simps dl_sync_dir.simps
        split: option.splits prod.splits lfile.splits if_splits dest!: up dl)
  have saves: "cache_saves w' =
      cache_saves w + (if fails w Session_Load then 2 else if opt_reload_files so then 1 else 0) +
      (if opt_download opts then 0 else 1)"
    if reached: "sync_reached so opts w"
  proof -
    from reached start have st: "started"
      by (auto simp: sync_reached_def split: option.splits)
    with start have s: "tool_start_session sync_flags so w = (True, w1)" by simp
    note n = tool_start_session_saves [OF s]
    from assms reached frame st have "cache_saves w' =
        cache_saves w1 + (if opt_download opts then 0 else 1)"
      unfolding sync_main_unfold [OF start] Let_def
      by (auto simp: untouched_def sync_reached_def g_file_query_file_type_def
          simp del: up_sync_dir.simps dl_sync_dir.simps
          split: option.splits prod.splits lfile.splits if_splits dest!: up dl)
    with n show ?thesis by simp
  qed
  from trees saves show ?thesis by blast
qed

theorem dry_run_changes_nothing_witness:
  "opt_dryrun (example_options\<lparr>opt_dryrun := True\<rparr>) \<and>
   sync_reached example_session (example_options\<lparr>opt_dryrun := True\<rparr>)
     (example_world\<lparr>fails := (\<lambda>c. c = Session_Load)\<rparr>) \<and>
   (let r = sync_main example_session (example_options\<lparr>opt_dryrun := True\<rparr>)
              (example_world\<lparr>fails := (\<lambda>c. c = Session_Load)\<rparr>) 0 5
    in fst r = 0 \<and> files_processed (snd r) = 2 \<and>
       Msg INFO Transferring [''d'', ''b''] \<in> set (printed (snd r)) \<and>
       remote_fs (snd r) = example_remote \<and> local_fs (snd r) = example_local \<and>
       requests (snd r) = [] \<and> cache_saves (snd r) = 3)"
proof -
  let ?opts = "example_options\<lparr>opt_dryrun := True\<rparr>"
  let ?w = "example_world\<lparr>fails := (\<lambda>c. c = Session_Load)\<rparr>"
  let ?r = "sync_main example_session ?opts ?w 0 5"
  have run: "fst ?r = 0 \<and> files_processed (snd ?r) = 2 \<and>
      Msg INFO Transferring [''d'', ''b''] \<in> set (printed (snd ?r))"
    by code_simp
  have dry: "opt_dryrun ?opts" by simp
  have reached: "sync_reached example_session ?opts ?w" by code_simp
  have given: "remote_fs ?w = example_remote \<and> local_fs ?w = example_local \<and>
      requests ?w = [] \<and> cache_saves ?w = 0 \<and> fails ?w Session_Load \<and>
      \<not> opt_download ?opts"
    by (simp add: example_world_def example_options_def)
  from dry_run_changes_nothing [OF dry prod.collapse [symmetric], of example_session ?w 0 5]
    reached given
  have "remote_fs (snd ?r) = example_remote \<and> local_fs (snd ?r) = example_local \<and>
      requests (snd ?r) = [] \<and> cache_saves (snd ?r) = 3"
    by simp
  with run dry reached show ?thesis
    unfolding Let_def by blast
qed




section \<open>Properties of sync: a download onto a directory\<close>

lemma g_file_query_file_type_same:
  "local_fs w' = local_fs w \<Longrightarrow> g_file_query_file_type w' p = g_file_query_file_type w p"
  by (simp add: g_file_query_file_type_def)

lemma hash_forget_frame:
  "local_fs (fst (hash_forget active name ht w)) = local_fs w \<and>
   remote_fs (fst (hash_forget active name ht w)) = remote_fs w \<and>
   requests (fst (hash_forget active name ht w)) = requests w \<and>
   files_with_errors (fst (hash_forget active name ht w)) = files_with_errors w \<and>
   files_processed (fst (hash_forget active name ht w)) = files_processed w"
  by (simp add: hash_forget_def split: prod.splits)

lemma older_hash_forget_frame:
  "local_fs (fst (older_hash_forget debug active name ht w)) = local_fs w"
  by (simp add: older_hash_forget_def split: prod.splits)

lemma dl_sync_entry_conflict:
  assumes "g_file_query_file_type w (local_dir @ [node_name (rnode child)]) =
      G_FILE_TYPE_DIRECTORY"
    and "\<not> opt_force opts" and "node_type (rnode child) = MEGA_NODE_FILE"
    and "\<not> opt_delete_only opts"
  shows "dl_sync_entry opts w child local_dir remote_dir check_delete ht =
     (False,
      count_error (tool_print ERR Target_Is_A_Directory (local_dir @ [node_name (rnode child)])
        ((fst (hash_forget check_delete (node_name (rnode child)) ht w))
           \<lparr>files_processed :=
              files_processed (fst (hash_forget check_delete (node_name (rnode child)) ht w))
                + 1\<rparr>)),
      snd (hash_forget check_delete (node_name (rnode child)) ht w))"
proof -
  let ?name = "node_name (rnode child)"
  obtain w1 ht1 where forget: "hash_forget check_delete ?name ht w = (w1, ht1)"
    by (cases "hash_forget check_delete ?name ht w")
  from hash_forget_frame [of check_delete ?name ht w] forget
  have "local_fs w1 = local_fs w" by simp
  from g_file_query_file_type_same [OF this] assms(1)
  have "g_file_query_file_type w1 (local_dir @ [?name]) = G_FILE_TYPE_DIRECTORY" by simp
  from dl_sync_file_directory_conflict [OF this assms(2)] forget assms(3,4)
  show ?thesis by (simp add: dl_sync_entry_def)
qed

lemma older_dl_sync_children_conflict:
  assumes "g_file_query_file_type w (local_dir @ [node_name (rnode child)]) =
      G_FILE_TYPE_DIRECTORY"
    and "\<not> opt_force opts" and "node_type (rnode child) = MEGA_NODE_FILE"
  shows "older_dl_sync_children quiet debug opts w (child # children) local_dir remote_dir ht =
     (case older_hash_forget debug (opt_delete opts) (node_name (rnode child)) ht w of
        (w1, ht1) \<Rightarrow>
          (case older_dl_sync_children quiet debug opts
                  (tool_print ERR Target_Is_A_Directory (remote_dir @ [node_name (rnode child)])
                     w1)
                  children local_dir remote_dir ht1 of
             (status, w3, ht3) \<Rightarrow> (False, w3, ht3)))"
proof -
  let ?name = "node_name (rnode child)"
  obtain w1 ht1 where forget: "older_hash_forget debug (opt_delete opts) ?name ht w = (w1, ht1)"
    by (cases "older_hash_forget debug (opt_delete opts) ?name ht w")
  from older_hash_forget_frame [of debug "opt_delete opts" ?name ht w] forget
  have "local_fs w1 = local_fs w" by simp
  from g_file_query_file_type_same [OF this] assms(1)
  have "g_file_query_file_type w1 (local_dir @ [?name]) = G_FILE_TYPE_DIRECTORY" by simp
  from older_dl_sync_file_directory [OF this assms(2)] forget assms(3)
  show ?thesis by (simp split: prod.splits)
qed

text \<open>
  C3, as the code has it. With the default options the download of the example folder
  stops at \<open>a\<close>, whose local target is a directory: the error is counted, and \<open>b\<close>, which
  is on the remote side only, is never downloaded; the run ends with exit status 1.
\<close>

theorem conflict_ends_download_counterexample:
  "\<not> opt_force (example_options\<lparr>opt_download := True\<rparr>) \<and>
   g_file_query_file_type example_download_world [''d'', ''a''] = G_FILE_TYPE_DIRECTORY \<and>
   mega_session_stat example_download_world [''Root'', ''b''] = Some example_node_b \<and>
   (let r = sync_main example_session (example_options\<lparr>opt_download := True\<rparr>)
              example_download_world 0 5
    in fst r = 1 \<and> files_processed (snd r) = 1 \<and> files_with_errors (snd r) = 1 \<and>
       requests (snd r) = [] \<and> fs_lookup (local_fs (snd r)) [''d'', ''b''] = None)"
  by code_simp

text \<open>
  C3, amended. The local target of the download of a remote file is an existing directory
  and overwriting is not forced. In the newer copy \<^verbatim>\<open>dl_sync_file\<close> returns false after
  one error line: the count of files with errors grows by one, nothing is requested (no
  deletion, no download), and both trees are as before. The loop of \<^verbatim>\<open>dl_sync_dir\<close> that
  has come to this file ends with it when errors are not ignored, with status false and
  without a turn for the nodes that follow; it goes on with them when errors are ignored.
  In the older copy \<^verbatim>\<open>dl_sync_file\<close> returns false after the error line, with no count
  of errors, and the loop goes on with the nodes that follow and ends with status false.
\<close>

theorem download_onto_directory_conflict:
  assumes "g_file_query_file_type w (local_dir @ [node_name (rnode child)]) =
      G_FILE_TYPE_DIRECTORY"
    and "\<not> opt_force opts" and "node_type (rnode child) = MEGA_NODE_FILE"
    and "\<not> opt_delete_only opts"
  shows "(let r = dl_sync_file opts w (rnode child) (local_dir @ [node_name (rnode child)])
                    (remote_dir @ [node_name (rnode child)])
          in r = (False,
                  count_error (tool_print ERR Target_Is_A_Directory
                    (local_dir @ [node_name (rnode child)])
                    (w\<lparr>files_processed := files_processed w + 1\<rparr>))) \<and>
             files_with_errors (snd r) = files_with_errors w + 1 \<and>
             requests (snd r) = requests w \<and> local_fs (snd r) = local_fs w \<and>
             remote_fs (snd r) = remote_fs w) \<and>
     (let turn = dl_sync_entry opts w child local_dir remote_dir check_delete ht
      in \<not> fst turn \<and> files_with_errors (fst (snd turn)) = files_with_errors w + 1 \<and>
         requests (fst (snd turn)) = requests w \<and> local_fs (fst (snd turn)) = local_fs w \<and>
         remote_fs (fst (snd turn)) = remote_fs w \<and>
         (\<not> opt_ignore_errors opts \<longrightarrow>
            dl_sync_children opts w (child # children) local_dir remote_dir check_delete ht =
              turn) \<and>
         (opt_ignore_errors opts \<longrightarrow>
            dl_sync_children opts w (child # children) local_dir remote_dir check_delete ht =
              dl_sync_children opts (fst (snd turn)) children local_dir remote_dir check_delete
                (snd (snd turn)))) \<and>
     older_dl_sync_file quiet debug opts w (rnode child) (local_dir @ [node_name (rnode child)])
         (remote_dir @ [node_name (rnode child)]) =
       (False, tool_print ERR Target_Is_A_Directory (remote_dir @ [node_name (rnode child)]) w) \<and>
     older_dl_sync_children quiet debug opts w (child # children) local_dir remote_dir lt =
       (case older_hash_forget debug (opt_delete opts) (node_name (rnode child)) lt w of
          (w1, ht1) \<Rightarrow>
            (case older_dl_sync_children quiet debug opts
                    (tool_print ERR Target_Is_A_Directory
                       (remote_dir @ [node_name (rnode child)]) w1)
                    children local_dir remote_dir ht1 of
               (status, w3, ht3) \<Rightarrow> (False, w3, ht3)))"
proof -
  let ?name = "node_name (rnode child)"
  let ?turn = "dl_sync_entry opts w child local_dir remote_dir check_delete ht"
  note one_file = dl_sync_file_directory_conflict [OF assms(1,2), of "rnode child"
      "remote_dir @ [?name]"]
  note turn = dl_sync_entry_conflict [OF assms, of remote_dir check_delete ht]
  note frame = hash_forget_frame [of check_delete ?name ht w]
  from turn frame have a: "\<not> fst ?turn \<and> files_with_errors (fst (snd ?turn)) =
      files_with_errors w + 1 \<and> requests (fst (snd ?turn)) = requests w \<and>
      local_fs (fst (snd ?turn)) = local_fs w \<and> remote_fs (fst (snd ?turn)) = remote_fs w"
    by simp
  obtain ok w2 ht2 where entry: "?turn = (ok, w2, ht2)"
    by (cases ?turn)
  with a have failed: "\<not> ok" by simp
  have b: "dl_sync_children opts w (child # children) local_dir remote_dir check_delete ht =
      ?turn" if "\<not> opt_ignore_errors opts"
    using that failed unfolding dl_sync_children_Cons entry by simp
  have c: "dl_sync_children opts w (child # children) local_dir remote_dir check_delete ht =
      dl_sync_children opts (fst (snd ?turn)) children local_dir remote_dir check_delete
        (snd (snd ?turn))" if "opt_ignore_errors opts"
    using that unfolding dl_sync_children_Cons entry by simp
  note older_file = older_dl_sync_file_directory [OF assms(1,2), of quiet debug "rnode child"
      "remote_dir @ [?name]"]
  note older_loop = older_dl_sync_children_conflict [OF assms(1,2,3), of quiet debug children
      remote_dir lt]
  from one_file a b c older_file older_loop show ?thesis
    unfolding Let_def by blast
qed

theorem download_onto_directory_conflict_witness:
  "g_file_query_file_type example_download_world ([''d''] @ [node_name example_node_a]) =
     G_FILE_TYPE_DIRECTORY \<and>
   \<not> opt_force example_options \<and> node_type example_node_a = MEGA_NODE_FILE \<and>
   \<not> opt_delete_only example_options \<and> \<not> opt_ignore_errors example_options \<and>
   (let r = dl_sync_file example_options example_download_world example_node_a [''d'', ''a'']
              [''Root'', ''a'']
    in \<not> fst r \<and> files_with_errors (snd r) = 1 \<and> requests (snd r) = []) \<and>
   dl_sync_children example_options example_download_world
       [RNode example_node_a [], RNode example_node_b []] [''d''] [''Root''] False [] =
     dl_sync_entry example_options example_download_world (RNode example_node_a [])
       [''d''] [''Root''] False [] \<and>
   requests (fst (snd (dl_sync_children example_options example_download_world
       [RNode example_node_a [], RNode example_node_b []] [''d''] [''Root''] False []))) = [] \<and>
   requests (fst (snd (dl_sync_children (example_options\<lparr>opt_ignore_errors := True\<rparr>)
       example_download_world [RNode example_node_a [], RNode example_node_b []]
       [''d''] [''Root''] False []))) =
     [(Session_Get [''Root'', ''b''], True), (Utime [''d'', ''b''] 200, True)] \<and>
   (let l = older_dl_sync_children False False example_options example_download_world
              [RNode example_node_a [], RNode example_node_b []] [''d''] [''Root''] []
    in \<not> fst l \<and>
       requests (fst (snd l)) =
         [(Session_Get [''Root'', ''b''], True), (Utime [''d'', ''b''] 200, True)])"
proof -
  let ?ignoring = "example_options\<lparr>opt_ignore_errors := True\<rparr>"
  let ?a = "RNode example_node_a []"
  let ?b = "RNode example_node_b []"
  let ?w = example_download_world
  let ?turn = "dl_sync_entry example_options ?w ?a [''d''] [''Root''] False []"
  let ?older = "older_dl_sync_children False False example_options ?w [?a, ?b] [''d'']
      [''Root''] []"
  have dir: "g_file_query_file_type ?w ([''d''] @ [node_name (rnode ?a)]) =
      G_FILE_TYPE_DIRECTORY"
    by code_simp
  have given: "\<not> opt_force example_options \<and> node_type example_node_a = MEGA_NODE_FILE \<and>
      \<not> opt_delete_only example_options \<and> \<not> opt_ignore_errors example_options \<and>
      \<not> opt_force ?ignoring \<and> \<not> opt_delete_only ?ignoring \<and> opt_ignore_errors ?ignoring \<and>
      files_with_errors ?w = 0 \<and> requests ?w = [] \<and> node_name example_node_a = ''a''"
    by code_simp
  have runs: "requests (fst (snd (dl_sync_children ?ignoring ?w [?a, ?b] [''d''] [''Root'']
        False []))) =
      [(Session_Get [''Root'', ''b''], True), (Utime [''d'', ''b''] 200, True)] \<and>
      requests (fst (snd ?older)) =
        [(Session_Get [''Root'', ''b''], True), (Utime [''d'', ''b''] 200, True)]"
    by code_simp
  from given have g: "\<not> opt_force example_options"
    "node_type (rnode ?a) = MEGA_NODE_FILE" "\<not> opt_delete_only example_options"
    by simp_all
  note conflict = download_onto_directory_conflict [OF dir g, where remote_dir = "[''Root'']"
      and check_delete = False and ht = "[]" and children = "[?b]" and quiet = False
      and debug = False and lt = "[]"]
  from conflict [THEN conjunct1] given
  have one: "let r = dl_sync_file example_options ?w example_node_a [''d'', ''a'']
        [''Root'', ''a'']
      in \<not> fst r \<and> files_with_errors (snd r) = 1 \<and> requests (snd r) = []"
    by (simp add: Let_def)
  from conflict [THEN conjunct2, THEN conjunct1] given
  have two: "dl_sync_children example_options ?w [?a, ?b] [''d''] [''Root''] False [] = ?turn"
    and three: "requests (fst (snd ?turn)) = []"
    by (simp_all add: Let_def del: dl_sync_children.simps(2))
  from conflict [THEN conjunct2, THEN conjunct2, THEN conjunct2]
  have four: "\<not> fst ?older"
    by (simp split: prod.splits del: older_dl_sync_children.simps(2))
  from dir given one two three four runs show ?thesis
    unfolding Let_def by simp
qed

end
